theory Spec2Isabelle
  imports Complex_Main "HOL-Library.Word" "HOL-Library.Sublist"
begin

unbundle bit_operations_syntax

section \<open>The MicroZed IOT sensor task (uzed\_iot.c)\<close>

text \<open>
  The sensor acquisition pipeline of \<^verbatim>\<open>uzed_iot.c\<close>: register access over the IIC bus,
  the start, stop and sample operations of the barometer (LPS25HB), the hygrometer
  (HTS221) and the thermocouple (MAX31855 behind an AXI SPI controller), the publisher and
  the sampling loop.

  The hardware and the broker are the environment. Their answers are part of the state: a
  list of the results of the coming \<^verbatim>\<open>XIic_Send\<close> calls, of the coming \<^verbatim>\<open>XIic_Recv\<close> calls, of
  the coming SPI register reads and of the coming publish calls. Everything the program
  does to the outside (bus transactions, register writes, delays, publishes) is appended to
  a trace.
\<close>

subsection \<open>Machine types and constants\<close>

type_synonym u8 = "8 word"
type_synonym u32 = "32 word"

text \<open>
  Modelled from the spec: \<^verbatim>\<open>xstatus.h\<close> is not among the sources. Section 4.1 of the
  specification says that a failure is surfaced as a non-zero result code, so success is
  zero; the source itself stores \<^verbatim>\<open>1\<close> as a failure code in \<^verbatim>\<open>ReadIicRegs\<close>.
\<close>

definition XST_SUCCESS :: int where
  "XST_SUCCESS = 0"

definition XST_FAILURE :: int where
  "XST_FAILURE = 1"

text \<open>FreeRTOS truth value \<^verbatim>\<open>pdTRUE\<close> and the tick rate (one tick per millisecond).

  Modelled from the spec: \<^verbatim>\<open>FreeRTOSConfig.h\<close> is not among the sources; the specification
  counts the polling delays and the sampling period in the same time units as the
  source's milliseconds.\<close>

definition pdTRUE :: int where
  "pdTRUE = 1"

definition configTICK_RATE_HZ :: nat where
  "configTICK_RATE_HZ = 1000"

definition pdMS_TO_TICKS :: "nat \<Rightarrow> nat" where
  "pdMS_TO_TICKS xMs = (xMs * configTICK_RATE_HZ) div 1000"

definition MS_TO_TICKS :: "nat \<Rightarrow> nat" where
  "MS_TO_TICKS xMs = (let xTicks = pdMS_TO_TICKS xMs in if xTicks < 1 then 1 else xTicks)"

definition SAMPLING_PERIOD_MS :: nat where
  "SAMPLING_PERIOD_MS = 500"

definition BAROMETER_SLAVE_ADDRESS :: u8 where
  "BAROMETER_SLAVE_ADDRESS = 0x5D"

definition HYGROMETER_SLAVE_ADDRESS :: u8 where
  "HYGROMETER_SLAVE_ADDRESS = 0x5F"

definition LED_PIN :: nat where
  "LED_PIN = 47"

definition BAROMETER_REG_WHO_AM_I :: u8 where
  "BAROMETER_REG_WHO_AM_I = 0x0F"

definition BAROMETER_REG_CTRL_REG1 :: u8 where
  "BAROMETER_REG_CTRL_REG1 = 0x20"

definition BAROMETER_BFLD_PD :: u8 where
  "BAROMETER_BFLD_PD = push_bit 7 1"

definition BAROMETER_REG_CTRL_REG2 :: u8 where
  "BAROMETER_REG_CTRL_REG2 = 0x21"

definition BAROMETER_BFLD_BOOT :: u8 where
  "BAROMETER_BFLD_BOOT = push_bit 7 1"

definition BAROMETER_BFLD_SWRESET :: u8 where
  "BAROMETER_BFLD_SWRESET = push_bit 2 1"

definition BAROMETER_BFLD_ONE_SHOT :: u8 where
  "BAROMETER_BFLD_ONE_SHOT = push_bit 0 1"

definition BAROMETER_REG_STATUS_REG :: u8 where
  "BAROMETER_REG_STATUS_REG = 0x27"

definition BAROMETER_BFLD_P_DA :: u8 where
  "BAROMETER_BFLD_P_DA = push_bit 1 1"

definition BAROMETER_BFLD_T_DA :: u8 where
  "BAROMETER_BFLD_T_DA = push_bit 0 1"

definition HYGROMETER_REG_WHO_AM_I :: u8 where
  "HYGROMETER_REG_WHO_AM_I = 0x0F"

definition HYGROMETER_REG_CTRL_REG1 :: u8 where
  "HYGROMETER_REG_CTRL_REG1 = 0x20"

definition HYGROMETER_BFLD_PD :: u8 where
  "HYGROMETER_BFLD_PD = push_bit 7 1"

definition HYGROMETER_REG_CTRL_REG2 :: u8 where
  "HYGROMETER_REG_CTRL_REG2 = 0x21"

definition HYGROMETER_BFLD_BOOT :: u8 where
  "HYGROMETER_BFLD_BOOT = push_bit 7 1"

definition HYGROMETER_BFLD_ONE_SHOT :: u8 where
  "HYGROMETER_BFLD_ONE_SHOT = push_bit 0 1"

definition HYGROMETER_REG_STATUS_REG :: u8 where
  "HYGROMETER_REG_STATUS_REG = 0x27"

definition HYGROMETER_BFLD_H_DA :: u8 where
  "HYGROMETER_BFLD_H_DA = push_bit 1 1"

definition HYGROMETER_BFLD_T_DA :: u8 where
  "HYGROMETER_BFLD_T_DA = push_bit 0 1"

definition HYGROMETER_REG_CALIB_0 :: u8 where
  "HYGROMETER_REG_CALIB_0 = 0x30"

subsection \<open>Topics and the topic table\<close>

datatype TOPIC =
    TOPIC_BAROMETER_PRESSURE
  | TOPIC_BAROMETER_TEMPERATURE
  | TOPIC_BAROMETER_STATUS
  | TOPIC_THERMOCOUPLE_TEMPERATURE
  | TOPIC_THERMOCOUPLE_BOARD_TEMPERATURE
  | TOPIC_THERMOCOUPLE_STATUS
  | TOPIC_HYGROMETER_RELATIVE_HUMIDITY
  | TOPIC_HYGROMETER_HUMIDITY_SENSOR_TEMPERATURE
  | TOPIC_HYGROMETER_STATUS
  | TOPIC_SYSTEM_STATUS
  | TOPIC_LAST

text \<open>An entry of the table; \<open>pbName = None\<close> is the null pointer of the sentinel.\<close>

record TopicInfo =
  ti_eTopic :: TOPIC
  pbName :: "string option"
  usNameLen :: nat

definition mkTopicInfo :: "TOPIC \<Rightarrow> string option \<Rightarrow> nat \<Rightarrow> TopicInfo" where
  "mkTopicInfo t n l = \<lparr>ti_eTopic = t, pbName = n, usNameLen = l\<rparr>"

definition pTopicInfo :: "TopicInfo list" where
  "pTopicInfo =
    [mkTopicInfo TOPIC_BAROMETER_PRESSURE (Some ''/remote_io_module/sensor_value/Pressure'') 0,
     mkTopicInfo TOPIC_BAROMETER_TEMPERATURE (Some ''/remote_io_module/sensor_value/Pressure_Sensor_Temp'') 0,
     mkTopicInfo TOPIC_BAROMETER_STATUS (Some ''/remote_io_module/sensor_status/LPS25HB_Error'') 0,
     mkTopicInfo TOPIC_THERMOCOUPLE_TEMPERATURE (Some ''/remote_io_module/sensor_value/Thermocouple_Temp'') 0,
     mkTopicInfo TOPIC_THERMOCOUPLE_BOARD_TEMPERATURE (Some ''/remote_io_module/sensor_value/Board_Temp_1'') 0,
     mkTopicInfo TOPIC_THERMOCOUPLE_STATUS (Some ''/remote_io_module/sensor_status/MAX31855_Error'') 0,
     mkTopicInfo TOPIC_HYGROMETER_RELATIVE_HUMIDITY (Some ''/remote_io_module/sensor_value/Relative_Humidity'') 0,
     mkTopicInfo TOPIC_HYGROMETER_HUMIDITY_SENSOR_TEMPERATURE (Some ''/remote_io_module/sensor_value/Humidity_Sensor_Temp'') 0,
     mkTopicInfo TOPIC_HYGROMETER_STATUS (Some ''/remote_io_module/sensor_status/HTS221_Error'') 0,
     mkTopicInfo TOPIC_SYSTEM_STATUS (Some ''/remote_io_module/sensor_status/System_Error'') 0,
     mkTopicInfo TOPIC_LAST None 0]"

text \<open>
  \<^verbatim>\<open>InitTopicInfo\<close> stores the length of each name, up to the sentinel. It runs once in
  \<^verbatim>\<open>StartSystem\<close>, before the broker is connected, so every lookup of a publish sees the
  table it leaves.
\<close>

fun InitTopicInfo :: "TopicInfo list \<Rightarrow> TopicInfo list" where
  "InitTopicInfo [] = []"
| "InitTopicInfo (pTI # rest) =
     (if ti_eTopic pTI = TOPIC_LAST then pTI # rest
      else (case pbName pTI of
              None \<Rightarrow> pTI
            | Some n \<Rightarrow> pTI\<lparr>usNameLen := length n\<rparr>) # InitTopicInfo rest)"

text \<open>
  What stops a run: an assertion that fires, a read past the end of an array, a null
  pointer that is dereferenced.
\<close>

datatype fault = AssertFailed | OutOfBounds | NullDeref

text \<open>\<^verbatim>\<open>configASSERT(x)\<close> halts when \<open>x\<close> is zero and does nothing otherwise.\<close>

definition configASSERT :: "int \<Rightarrow> fault + unit" where
  "configASSERT x = (if x = 0 then Inl AssertFailed else Inr ())"

text \<open>
  The scan of \<^verbatim>\<open>GetTopicInfo\<close>: entries are compared in order until the sentinel. After the
  loop the source executes \<^verbatim>\<open>configASSERT( pdTRUE )\<close> and returns the null pointer
  (\<open>Inr None\<close>).
\<close>

fun GetTopicInfo_scan :: "TopicInfo list \<Rightarrow> TOPIC \<Rightarrow> fault + TopicInfo option" where
  "GetTopicInfo_scan [] eT = Inl OutOfBounds"
| "GetTopicInfo_scan (pTI # rest) eT =
     (if TOPIC_LAST \<noteq> ti_eTopic pTI then
        (if ti_eTopic pTI = eT then Inr (Some pTI) else GetTopicInfo_scan rest eT)
      else (case configASSERT pdTRUE of
              Inl f \<Rightarrow> Inl f
            | Inr _ \<Rightarrow> Inr None))"

definition GetTopicInfo :: "TOPIC \<Rightarrow> fault + TopicInfo option" where
  "GetTopicInfo eT = GetTopicInfo_scan (InitTopicInfo pTopicInfo) eT"

subsection \<open>The system handle and the environment\<close>

record XIic =
  BaseAddress :: u32
  iic_IsReady :: bool

record XGpioPs =
  gpio_IsReady :: bool

text \<open>\<open>xMQTTHandle = None\<close> is the null handle: no broker connection.\<close>

record System =
  iic :: XIic
  gpio :: XGpioPs
  xMQTTHandle :: "nat option"
  pbHygrometerCalibration :: "u8 list"
  rc :: int
  pcErr :: string
  eTopic :: TOPIC

datatype MQTTAgentReturnCode =
    eMQTTAgentSuccess
  | eMQTTAgentFailure
  | eMQTTAgentTimeout
  | eMQTTAgentAPICalledFromCallback

datatype iic_option = XIIC_STOP | XIIC_REPEATED_START

datatype spi_reg =
  XSP_SRR_OFFSET | XSP_CR_OFFSET | XSP_SR_OFFSET | XSP_DTR_OFFSET | XSP_DRR_OFFSET
  | XSP_SSR_OFFSET | XSP_RFO_OFFSET

text \<open>
  An argument of a printf-style format. A C \<^verbatim>\<open>float\<close> is passed as the real number it
  stands for (the promotion to \<^verbatim>\<open>double\<close> of a variable argument is exact). The rendering
  of the text by \<^verbatim>\<open>vsnprintf\<close> is outside the model, so a message is kept as its format and
  its arguments.
\<close>

datatype fmtarg = ArgInt int | ArgFloat real

datatype event =
    IicSend u8 "u8 list" iic_option
  | IicRecv u8 int iic_option
  | SpiWrite spi_reg u32
  | SpiRead spi_reg u32
  | GpioWritePin nat bool
  | TaskDelay nat
  | TaskDelayUntil u32
  | MqttPublish string nat string "fmtarg list"
  | Fault fault

text \<open>
  The state of a run: the system handle, what the environment will answer, and the trace.
  A reply to \<^verbatim>\<open>XIic_Recv\<close> is the number of bytes received and the bytes that the call
  leaves at the start of the caller's buffer; the buffer keeps its length.
\<close>

record world = System +
  send_results :: "nat list"
  recv_results :: "(nat \<times> u8 list) list"
  spi_reads :: "u32 list"
  publish_results :: "MQTTAgentReturnCode list"
  trace :: "event list"

definition emit :: "event \<Rightarrow> world \<Rightarrow> world" where
  "emit e w = w\<lparr>trace := trace w @ [e]\<rparr>"

definition vTaskDelay :: "nat \<Rightarrow> world \<Rightarrow> world" where
  "vTaskDelay xTicks w = emit (TaskDelay xTicks) w"

definition XGpioPs_WritePin :: "nat \<Rightarrow> bool \<Rightarrow> world \<Rightarrow> world" where
  "XGpioPs_WritePin pin v w = emit (GpioWritePin pin v) w"

text \<open>
  \<^verbatim>\<open>XIic_Send\<close> offers the first \<open>xCount\<close> bytes of the buffer and returns the number of
  bytes sent; \<^verbatim>\<open>XIic_Recv\<close> asks for \<open>xCount\<close> bytes. A bus with no answer left transfers
  nothing.
\<close>

definition XIic_Send :: "u8 \<Rightarrow> u8 list \<Rightarrow> int \<Rightarrow> iic_option \<Rightarrow> world \<Rightarrow> nat \<times> world" where
  "XIic_Send bSlaveAddress pbBuf xCount opt w =
     (let w1 = emit (IicSend bSlaveAddress (take (nat xCount) pbBuf) opt) w in
      case send_results w1 of
        [] \<Rightarrow> (0, w1)
      | n # rest \<Rightarrow> (n, w1\<lparr>send_results := rest\<rparr>))"

definition XIic_Recv :: "u8 \<Rightarrow> u8 list \<Rightarrow> int \<Rightarrow> iic_option \<Rightarrow> world \<Rightarrow> (nat \<times> u8 list) \<times> world" where
  "XIic_Recv bSlaveAddress pbBuf xCount opt w =
     (let w1 = emit (IicRecv bSlaveAddress xCount opt) w in
      case recv_results w1 of
        [] \<Rightarrow> ((0, pbBuf), w1)
      | (n, bytes) # rest \<Rightarrow>
          ((n, take (length pbBuf) (bytes @ drop (length bytes) pbBuf)),
           w1\<lparr>recv_results := rest\<rparr>))"

subsection \<open>The publisher\<close>

fun BlinkLed_loop :: "nat \<Rightarrow> world \<Rightarrow> world" where
  "BlinkLed_loop 0 w = w"
| "BlinkLed_loop (Suc n) w =
     BlinkLed_loop n
       (vTaskDelay (MS_TO_TICKS 500)
         (XGpioPs_WritePin LED_PIN False
           (vTaskDelay (MS_TO_TICKS 500)
             (XGpioPs_WritePin LED_PIN True w))))"

definition BlinkLed :: "int \<Rightarrow> bool \<Rightarrow> world \<Rightarrow> world" where
  "BlinkLed xCount xFinalOn w =
     (if \<not> gpio_IsReady (gpio w) then w
      else let w1 = BlinkLed_loop (nat xCount) w in
           if xFinalOn then XGpioPs_WritePin LED_PIN True w1 else w1)"

definition MQTT_AGENT_Publish :: "string \<Rightarrow> nat \<Rightarrow> string \<Rightarrow> fmtarg list \<Rightarrow> world
    \<Rightarrow> MQTTAgentReturnCode \<times> world" where
  "MQTT_AGENT_Publish pucTopic usTopicLength pcFmt args w =
     (let w1 = emit (MqttPublish pucTopic usTopicLength pcFmt args) w in
      case publish_results w1 of
        [] \<Rightarrow> (eMQTTAgentSuccess, w1)
      | r # rest \<Rightarrow> (r, w1\<lparr>publish_results := rest\<rparr>))"

text \<open>
  \<^verbatim>\<open>prvPublishTopic\<close>: nothing without a broker handle; then the lookup of the topic, whose
  result is dereferenced without a check; then one publish, and one blink of the LED
  unless the publish succeeded. The debug console output is not part of the model.
\<close>

definition prvPublishTopic :: "TOPIC \<Rightarrow> string \<Rightarrow> fmtarg list \<Rightarrow> world \<Rightarrow> world" where
  "prvPublishTopic eT pcFmt args w =
     (if xMQTTHandle w = None then w
      else (case GetTopicInfo eT of
              Inl f \<Rightarrow> emit (Fault f) w
            | Inr None \<Rightarrow> emit (Fault NullDeref) w
            | Inr (Some pTI) \<Rightarrow>
                (case pbName pTI of
                   None \<Rightarrow> emit (Fault NullDeref) w
                 | Some n \<Rightarrow>
                     (case MQTT_AGENT_Publish n (usNameLen pTI) pcFmt args w of
                        (xReturned, w1) \<Rightarrow>
                          (case xReturned of
                             eMQTTAgentSuccess \<Rightarrow> w1
                           | eMQTTAgentFailure \<Rightarrow> BlinkLed 1 False w1
                           | eMQTTAgentTimeout \<Rightarrow> BlinkLed 1 False w1
                           | eMQTTAgentAPICalledFromCallback \<Rightarrow>
                               (let w2 = BlinkLed 1 False w1 in
                                case configASSERT pdTRUE of
                                  Inl f \<Rightarrow> emit (Fault f) w2
                                | Inr _ \<Rightarrow> w2))))))"

text \<open>
  The macro \<^verbatim>\<open>MAY_DIE(code)\<close>, applied to the state that \<open>code\<close> leaves: when the result
  code is not success, the error text is published on the current topic with the result
  code as its argument and control jumps to \<^verbatim>\<open>L_DIE\<close> (\<open>Inl\<close>); otherwise the function
  goes on (\<open>Inr\<close>).
\<close>

definition MAY_DIE :: "world \<Rightarrow> world + world" where
  "MAY_DIE w =
     (if rc w \<noteq> XST_SUCCESS
      then Inl (prvPublishTopic (eTopic w) (pcErr w) [ArgInt (rc w)] w)
      else Inr w)"

subsection \<open>Register access\<close>

definition ReadIicRegs :: "u8 \<Rightarrow> int \<Rightarrow> u8 \<Rightarrow> u8 list \<Rightarrow> world \<Rightarrow> int \<times> u8 list \<times> world" where
  "ReadIicRegs bSlaveAddress xCount bFirstSlaveReg pbBuf w =
     (let reg = (if xCount > 1 then bFirstSlaveReg OR 0x80 else bFirstSlaveReg) in
      case XIic_Send bSlaveAddress [reg] 1 XIIC_REPEATED_START w of
        (n, w1) \<Rightarrow>
          (case MAY_DIE (if 1 \<noteq> n
                         then w1\<lparr>rc := 1, pcErr := ''ReadIicRegs::XIic_Send(Addr) -> %08x''\<rparr>
                         else w1) of
             Inl d \<Rightarrow> (rc d, pbBuf, d)
           | Inr w2 \<Rightarrow>
               (case XIic_Recv bSlaveAddress pbBuf xCount XIIC_STOP w2 of
                  ((xReceived, pbBuf'), w3) \<Rightarrow>
                    (case MAY_DIE (if xCount \<noteq> int xReceived
                                   then w3\<lparr>rc := int xReceived,
                                           pcErr := ''ReadIicRegs::XIic_Recv(Data) -> %08x''\<rparr>
                                   else w3) of
                       Inl d \<Rightarrow> (rc d, pbBuf', d)
                     | Inr w4 \<Rightarrow> (rc w4, pbBuf', w4)))))"

definition ReadIicReg :: "u8 \<Rightarrow> u8 \<Rightarrow> u8 list \<Rightarrow> world \<Rightarrow> int \<times> u8 list \<times> world" where
  "ReadIicReg bSlaveAddress bFirstSlaveReg pbBuf w =
     ReadIicRegs bSlaveAddress 1 bFirstSlaveReg pbBuf w"

text \<open>
  \<^verbatim>\<open>WriteIicRegs\<close> works on the caller's buffer: the result carries the buffer as the call
  leaves it. Byte 0 is the register number; the buffer of a caller holds at least one byte.
\<close>

definition set_top_bit :: "u8 list \<Rightarrow> u8 list" where
  "set_top_bit pbBuf = (case pbBuf of [] \<Rightarrow> [] | b # bs \<Rightarrow> (b OR 0x80) # bs)"

definition WriteIicRegs :: "u8 \<Rightarrow> int \<Rightarrow> u8 list \<Rightarrow> world \<Rightarrow> int \<times> u8 list \<times> world" where
  "WriteIicRegs bSlaveAddress xCount pbBuf w =
     (let pbBuf1 = (if xCount > 2 then set_top_bit pbBuf else pbBuf) in
      case XIic_Send bSlaveAddress pbBuf1 xCount XIIC_STOP w of
        (xSent, w1) \<Rightarrow>
          (case MAY_DIE (if xCount \<noteq> int xSent
                         then w1\<lparr>rc := int xSent,
                                 pcErr := ''WriteIicRegs::XIic_Send(Buf) -> %08x''\<rparr>
                         else w1) of
             Inl d \<Rightarrow> (rc d, pbBuf1, d)
           | Inr w2 \<Rightarrow> (rc w2, pbBuf1, w2)))"

definition WriteIicReg :: "u8 \<Rightarrow> u8 \<Rightarrow> u8 \<Rightarrow> world \<Rightarrow> int \<times> world" where
  "WriteIicReg bSlaveAddress bFirstSlaveReg bVal w =
     (case WriteIicRegs bSlaveAddress 2 [bFirstSlaveReg, bVal] w of
        (r, _, w1) \<Rightarrow> (r, w1))"

subsection \<open>Stopping a sensor\<close>

definition StopBarometer :: "world \<Rightarrow> world" where
  "StopBarometer w = w\<lparr>eTopic := TOPIC_BAROMETER_STATUS\<rparr>"

definition StopHygrometer :: "world \<Rightarrow> world" where
  "StopHygrometer w = w\<lparr>eTopic := TOPIC_HYGROMETER_STATUS\<rparr>"

definition StopPLTempSensor :: "world \<Rightarrow> world" where
  "StopPLTempSensor w = w\<lparr>eTopic := TOPIC_THERMOCOUPLE_STATUS\<rparr>"



subsection \<open>Bounded polling\<close>

text \<open>
  The polling loops of the source all have the shape
  \<^verbatim>\<open>for(t = N; t-- > 0; ) { MAY_DIE({ read; pcErr = ...; }); if(ready) break; vTaskDelay(xOneMs); }\<close>.
  \<open>poll\<close> is that loop; it is given the register block to read, the error text and the
  test that breaks the loop. The result is either the state in which \<^verbatim>\<open>MAY_DIE\<close> jumped
  to \<^verbatim>\<open>L_DIE\<close>, or the counter, the buffer and the state after the loop. The test
  \<^verbatim>\<open>t-- > 0\<close> compares the old value and always decrements, so a loop that runs out
  leaves \<open>-1\<close> and a loop that breaks in its last round leaves \<open>0\<close>.
\<close>

datatype poll_result = PollDied world | PollDone int "u8 list" world

function poll :: "u8 \<Rightarrow> int \<Rightarrow> u8 \<Rightarrow> string \<Rightarrow> (u8 list \<Rightarrow> bool) \<Rightarrow> int \<Rightarrow> u8 list \<Rightarrow> world
    \<Rightarrow> poll_result" where
  "poll bSlaveAddress xCount bReg pcE ready iTimeout pbBuf w =
     (if iTimeout > 0 then
        (case ReadIicRegs bSlaveAddress xCount bReg pbBuf w of
           (_, pbBuf', w1) \<Rightarrow>
             (case MAY_DIE (w1\<lparr>pcErr := pcE\<rparr>) of
                Inl d \<Rightarrow> PollDied d
              | Inr w2 \<Rightarrow>
                  if ready pbBuf' then PollDone (iTimeout - 1) pbBuf' w2
                  else poll bSlaveAddress xCount bReg pcE ready (iTimeout - 1) pbBuf'
                         (vTaskDelay (MS_TO_TICKS 1) w2)))
      else PollDone (iTimeout - 1) pbBuf w)"
  by pat_completeness auto
termination
  by (relation "measure (\<lambda>(_, _, _, _, _, iTimeout, _, _). nat iTimeout)") auto

declare poll.simps [simp del]

text \<open>
  The label \<^verbatim>\<open>L_DIE\<close> of the sensor operations is followed by \<^verbatim>\<open>return\<close> only: a step
  that jumped ends the operation in the state it left, a step that did not is followed by
  the rest of the operation.
\<close>

definition or_die :: "world + world \<Rightarrow> (world \<Rightarrow> world) \<Rightarrow> world" where
  "or_die r rest = (case r of Inl d \<Rightarrow> d | Inr w \<Rightarrow> rest w)"

definition poll_or_die :: "poll_result \<Rightarrow> (int \<Rightarrow> u8 list \<Rightarrow> world \<Rightarrow> world) \<Rightarrow> world" where
  "poll_or_die r rest = (case r of PollDied d \<Rightarrow> d | PollDone t pb w \<Rightarrow> rest t pb w)"

subsection \<open>Floating point\<close>

text \<open>
  The C types \<^verbatim>\<open>float\<close> and \<^verbatim>\<open>double\<close> of the target, an ARM Cortex-A9 with a hardware
  floating-point unit, are the IEEE 754 formats binary32 and binary64, with 24 and 53 bits
  of precision. Every operation and every conversion gives the value of its type that is
  nearest to the exact result, and the one with an even last digit when two are equally
  near. A floating-point value is modelled by the real number it stands for, and rounding
  is written out where the source has it. The values of the program that are not zero are
  at least \<open>2\<^sup>-\<^sup>9\<close> and at most \<open>2\<^sup>3\<^sup>1\<close> in magnitude, far from overflow and from the
  subnormal range, so the exponent is not bounded in the model.
\<close>

text \<open>The integer nearest to \<open>x\<close>, the even one of the two when \<open>x\<close> lies half way.\<close>

definition round_ties_even :: "real \<Rightarrow> int" where
  "round_ties_even x =
     (let n = \<lfloor>x\<rfloor>; d = x - of_int n in
      if d < 1 / 2 then n else if 1 / 2 < d then n + 1 else if even n then n else n + 1)"

text \<open>The exponent \<open>e\<close> of a positive number: \<open>2\<^sup>e \<le> x < 2\<^sup>e\<^sup>+\<^sup>1\<close>.\<close>

function binary_exponent :: "real \<Rightarrow> int" where
  "binary_exponent x =
     (if 0 < x \<and> x < 1 then binary_exponent (2 * x) - 1
      else if 2 \<le> x then binary_exponent (x / 2) + 1
      else 0)"
  by pat_completeness auto

termination
proof (relation "measure (\<lambda>x. if x < 1 then nat \<lceil>1 / x\<rceil> else nat \<lfloor>x\<rfloor>)")
  show "wf (measure (\<lambda>x::real. if x < 1 then nat \<lceil>1 / x\<rceil> else nat \<lfloor>x\<rfloor>))"
    by simp
next
  fix x :: real
  assume a: "0 < x \<and> x < 1"
  show "(2 * x, x) \<in> measure (\<lambda>x. if x < 1 then nat \<lceil>1 / x\<rceil> else nat \<lfloor>x\<rfloor>)"
  proof (cases "2 * x < 1")
    case True
    have "1 / (2 * x) \<le> 1 / x - 1"
      using a True by (simp add: field_simps)
    then have "\<lceil>1 / (2 * x)\<rceil> \<le> \<lceil>1 / x - 1\<rceil>"
      by (rule ceiling_mono)
    then have "\<lceil>1 / (2 * x)\<rceil> < \<lceil>1 / x\<rceil>"
      by simp
    moreover have "0 < \<lceil>1 / x\<rceil>"
      using a by (simp add: less_ceiling_iff)
    ultimately have "nat \<lceil>1 / (2 * x)\<rceil> < nat \<lceil>1 / x\<rceil>"
      by linarith
    then show ?thesis
      using True a by simp
  next
    case False
    then have f: "\<lfloor>2 * x\<rfloor> = 1"
      using a by (intro floor_unique) simp_all
    have "1 < 1 / x" using a by simp
    then have "1 < \<lceil>1 / x\<rceil>"
      by (simp add: less_ceiling_iff)
    then show ?thesis
      using False a f by simp
  qed
next
  fix x :: real
  assume a: "\<not> (0 < x \<and> x < 1)" "2 \<le> x"
  have "x / 2 \<le> x - 1" using a by simp
  then have "\<lfloor>x / 2\<rfloor> \<le> \<lfloor>x - 1\<rfloor>" by (rule floor_mono)
  then have "\<lfloor>x / 2\<rfloor> < \<lfloor>x\<rfloor>" by simp
  moreover have "0 < \<lfloor>x\<rfloor>" using a by simp
  ultimately show "(x / 2, x) \<in> measure (\<lambda>x. if x < 1 then nat \<lceil>1 / x\<rceil> else nat \<lfloor>x\<rfloor>)"
    using a by simp
qed

declare binary_exponent.simps [simp del]

definition pow2 :: "int \<Rightarrow> real" where
  "pow2 e = (if 0 \<le> e then 2 ^ nat e else 1 / 2 ^ nat (- e))"

text \<open>
  Rounding to \<open>p\<close> bits of precision: with \<open>e\<close> the exponent of \<open>x\<close>, the values of the format
  near \<open>x\<close> are the multiples of \<open>2\<^sup>e\<^sup>-\<^sup>p\<^sup>+\<^sup>1\<close>, and \<open>x\<close> goes to the nearest of them.
\<close>

definition round_to_precision :: "nat \<Rightarrow> real \<Rightarrow> real" where
  "round_to_precision p x =
     (if x = 0 then 0
      else let e = binary_exponent \<bar>x\<bar>;
               ulp = pow2 (e - int p + 1) in
           of_int (round_ties_even (x / ulp)) * ulp)"

text \<open>
  \<open>float_of\<close> is the conversion to \<^verbatim>\<open>float\<close> (a cast, an assignment, or the rounding of a
  single-precision operation), \<open>double_of\<close> the rounding of a double-precision operation.
\<close>

definition float_of :: "real \<Rightarrow> real" where
  "float_of x = round_to_precision 24 x"

definition double_of :: "real \<Rightarrow> real" where
  "double_of x = round_to_precision 53 x"

subsection \<open>Barometer\<close>

text \<open>
  The local byte \<^verbatim>\<open>b\<close> and the local arrays are not initialised in the source. No path
  reads them before \<^verbatim>\<open>XIic_Recv\<close> has filled them (a read that does not reach
  \<^verbatim>\<open>XIic_Recv\<close> leaves a failure code, and the caller's \<^verbatim>\<open>MAY_DIE\<close> jumps), so the model
  starts them at zero.
\<close>

text \<open>
  \<^verbatim>\<open>StartBarometer\<close> is written in two parts: \<open>StartBarometer_boot\<close> is the function from
  the boot command to its end, \<open>StartBarometer\<close> is the function from its beginning and
  goes on into \<open>StartBarometer_boot\<close> with the byte \<^verbatim>\<open>b\<close> as the first loop left it.
\<close>

definition StartBarometer_boot :: "u8 list \<Rightarrow> world \<Rightarrow> world" where
  "StartBarometer_boot b1 w7 =
     (let xOneMs = MS_TO_TICKS 1;
          (r8, w8) = WriteIicReg BAROMETER_SLAVE_ADDRESS BAROMETER_REG_CTRL_REG2
                       BAROMETER_BFLD_BOOT w7 in
      or_die (MAY_DIE (w8\<lparr>pcErr := ''WriteIicReg(BAROMETER_REG_CTRL_REG2::BAROMETER_BFLD_BOOT -> %08x''\<rparr>)) (\<lambda>w9.
      poll_or_die (poll BAROMETER_SLAVE_ADDRESS 1 BAROMETER_REG_CTRL_REG2
                     ''ReadIicReg(BAROMETER_REG_CTRL_REG2) -> %08x''
                     (\<lambda>pb. 0 = (pb ! 0) AND BAROMETER_BFLD_BOOT) 100 b1 w9) (\<lambda>iTimeout2 b2 w10.
      or_die (if iTimeout2 \<le> 0
              then MAY_DIE (w10\<lparr>pcErr := ''Barometer boot timeout''\<rparr>)
              else Inr w10) (\<lambda>w11.
      let (r12, w12) = WriteIicReg BAROMETER_SLAVE_ADDRESS BAROMETER_REG_CTRL_REG1
                         BAROMETER_BFLD_PD w11 in
      or_die (MAY_DIE (w12\<lparr>pcErr := ''WriteIicReg(BAROMETER_REG_CTRL_REG1::BAROMETER_BFLD_PD) -> %08x''\<rparr>)) (\<lambda>w13.
      prvPublishTopic TOPIC_BAROMETER_STATUS ''Barometer started'' []
        (vTaskDelay xOneMs w13))))))"

definition StartBarometer :: "world \<Rightarrow> world" where
  "StartBarometer w0 =
     (let w = w0\<lparr>eTopic := TOPIC_BAROMETER_STATUS\<rparr>;
          (r1, b, w1) = ReadIicReg BAROMETER_SLAVE_ADDRESS BAROMETER_REG_WHO_AM_I [0] w in
      or_die (MAY_DIE (w1\<lparr>pcErr := ''ReadIicReg(WHO_AM_I) -> %08x''\<rparr>)) (\<lambda>w2.
      or_die (MAY_DIE (if 0xBD \<noteq> b ! 0
                       then w2\<lparr>rc := uint (b ! 0), pcErr := ''BAROMETER_WHO_AM_I = %08x != BD''\<rparr>
                       else w2)) (\<lambda>w3.
      let (r4, w4) = WriteIicReg BAROMETER_SLAVE_ADDRESS BAROMETER_REG_CTRL_REG2
                       BAROMETER_BFLD_SWRESET w3 in
      or_die (MAY_DIE (w4\<lparr>pcErr := ''WriteIicReg(BAROMETER_REG_CTRL_REG2::BFLD_SWRESET) -> %08x''\<rparr>)) (\<lambda>w5.
      poll_or_die (poll BAROMETER_SLAVE_ADDRESS 1 BAROMETER_REG_CTRL_REG2
                     ''ReadIicReg(BAROMETER_REG_CTRL_REG2) -> %08x''
                     (\<lambda>pb. 0 = (pb ! 0) AND BAROMETER_BFLD_SWRESET) 100 b w5) (\<lambda>iTimeout b1 w6.
      or_die (if iTimeout \<le> 0
              then MAY_DIE (w6\<lparr>rc := XST_FAILURE, pcErr := ''Barometer swreset timeout''\<rparr>)
              else Inr w6) (\<lambda>w7.
      StartBarometer_boot b1 w7))))))"

text \<open>
  The two values that \<^verbatim>\<open>SampleBarometer\<close> assembles in \<^verbatim>\<open>sqTmp\<close> from the block read at
  the status register: byte 0 is the status, bytes 1 to 3 the pressure, bytes 4 and 5 the
  temperature.
\<close>

definition barometer_pressure_sqTmp :: "u8 list \<Rightarrow> u32" where
  "barometer_pressure_sqTmp pbBuf =
     (let sqTmp = 0 OR push_bit 0 (ucast (pbBuf ! 1)) OR push_bit 8 (ucast (pbBuf ! 2))
                    OR push_bit 16 (ucast (pbBuf ! 3)) in
      if sqTmp AND 0x00800000 \<noteq> 0 then sqTmp OR 0xFF800000 else sqTmp)"

definition barometer_temperature_sqTmp :: "u8 list \<Rightarrow> u32" where
  "barometer_temperature_sqTmp pbBuf =
     (let sqTmp = 0 OR push_bit 0 (ucast (pbBuf ! 4)) OR push_bit 8 (ucast (pbBuf ! 5)) in
      if sqTmp AND 0x00008000 \<noteq> 0 then sqTmp OR 0xFFFF8000 else sqTmp)"

text \<open>
  The two values that \<^verbatim>\<open>SampleBarometer\<close> publishes. In \<^verbatim>\<open>f = (float)sqTmp / 4096.0F\<close> the
  conversion and the division are single-precision operations. In
  \<^verbatim>\<open>f = 42.5F + (float)sqTmp/480.0\<close> the constant \<^verbatim>\<open>480.0\<close> is a \<^verbatim>\<open>double\<close>, so the quotient and
  the sum are double-precision operations, and the assignment to the \<^verbatim>\<open>float\<close> variable
  rounds the sum to single precision.
\<close>

definition SampleBarometer :: "world \<Rightarrow> world" where
  "SampleBarometer w0 =
     (let w = w0\<lparr>eTopic := TOPIC_BAROMETER_STATUS\<rparr>;
          (r1, w1) = WriteIicReg BAROMETER_SLAVE_ADDRESS BAROMETER_REG_CTRL_REG2
                       BAROMETER_BFLD_ONE_SHOT w in
      or_die (MAY_DIE (w1\<lparr>pcErr := ''WriteIicReg(BAROMETER_REG_CTRL_REG2::BAROMETER_BFLD_ONE_SHOT) -> %08x''\<rparr>)) (\<lambda>w2.
      poll_or_die (poll BAROMETER_SLAVE_ADDRESS 1 BAROMETER_REG_CTRL_REG2
                     ''ReadIicRegs(6@BAROMETER_REG_STATUS_REG) -> %08x''
                     (\<lambda>pb. 0 = (pb ! 0) AND BAROMETER_BFLD_ONE_SHOT) 50 [0] w2) (\<lambda>xTimeout b w3.
      or_die (MAY_DIE (if xTimeout \<le> 0
                       then w3\<lparr>rc := XST_FAILURE,
                               pcErr := ''Timed out waiting for BAROMETER_BFLD_ONE_SHOT''\<rparr>
                       else w3)) (\<lambda>w4.
      poll_or_die (poll BAROMETER_SLAVE_ADDRESS 6 BAROMETER_REG_STATUS_REG
                     ''ReadIicRegs(6@BAROMETER_REG_STATUS_REG) -> %08x''
                     (\<lambda>pb. (BAROMETER_BFLD_P_DA OR BAROMETER_BFLD_T_DA)
                              = (pb ! 0) AND (BAROMETER_BFLD_P_DA OR BAROMETER_BFLD_T_DA))
                     50 (replicate 6 0) w4) (\<lambda>xTimeout2 pbBuf w5.
      or_die (MAY_DIE (if xTimeout2 \<le> 0
                       then w5\<lparr>rc := XST_FAILURE,
                               pcErr := ''Timed out waiting for P_DA and T_DA''\<rparr>
                       else w5)) (\<lambda>w6.
      prvPublishTopic TOPIC_BAROMETER_TEMPERATURE ''%.2f C''
        [ArgFloat (float_of (double_of (42.5 + double_of
            (float_of (real_of_int (sint (barometer_temperature_sqTmp pbBuf))) / 480.0))))]
        (prvPublishTopic TOPIC_BAROMETER_PRESSURE ''%.2f hPa''
           [ArgFloat (float_of
              (float_of (real_of_int (sint (barometer_pressure_sqTmp pbBuf))) / 4096.0))]
           w6)))))))"

subsection \<open>Hygrometer\<close>

text \<open>
  \<^verbatim>\<open>StartHygrometer\<close> in two parts as well: \<open>StartHygrometer_calibrate\<close> is the function
  from the read of the calibration block to its end.
\<close>

definition StartHygrometer_calibrate :: "world \<Rightarrow> world" where
  "StartHygrometer_calibrate w7 =
     (let xOneMs = MS_TO_TICKS 1;
          (r8, cal, w8) = ReadIicRegs HYGROMETER_SLAVE_ADDRESS 16 HYGROMETER_REG_CALIB_0
                            (pbHygrometerCalibration w7) w7 in
      or_die (MAY_DIE (w8\<lparr>pbHygrometerCalibration := cal,
                          pcErr := ''ReadIicRegs(HYGROMETER_REG_CALIB_0) -> %08x''\<rparr>)) (\<lambda>w9.
      let (r10, w10) = WriteIicReg HYGROMETER_SLAVE_ADDRESS HYGROMETER_REG_CTRL_REG1
                         HYGROMETER_BFLD_PD w9 in
      or_die (MAY_DIE (w10\<lparr>pcErr := ''WriteIicReg(HYGROMETER_REG_CTRL_REG1::HYGROMETER_BFLD_PD) -> %08x''\<rparr>)) (\<lambda>w11.
      prvPublishTopic TOPIC_HYGROMETER_STATUS ''Hygrometer started'' []
        (vTaskDelay xOneMs w11))))"

definition StartHygrometer :: "world \<Rightarrow> world" where
  "StartHygrometer w0 =
     (let w = w0\<lparr>eTopic := TOPIC_HYGROMETER_STATUS\<rparr>;
          (r1, b, w1) = ReadIicReg HYGROMETER_SLAVE_ADDRESS HYGROMETER_REG_WHO_AM_I [0] w in
      or_die (MAY_DIE (w1\<lparr>pcErr := ''ReadIicReg(HYGROMETER_WHO_AM_I) -> %08x''\<rparr>)) (\<lambda>w2.
      or_die (MAY_DIE (if 0xBC \<noteq> b ! 0
                       then w2\<lparr>rc := uint (b ! 0), pcErr := ''HYGROMETER_WHO_AM_I = %08x != BC''\<rparr>
                       else w2)) (\<lambda>w3.
      let (r4, w4) = WriteIicReg HYGROMETER_SLAVE_ADDRESS HYGROMETER_REG_CTRL_REG2
                       HYGROMETER_BFLD_BOOT w3 in
      or_die (MAY_DIE (w4\<lparr>pcErr := ''WriteIicReg(HYGROMETER_REG_CTRL_REG2::HYGROMETER_BFLD_BOOT -> %08x''\<rparr>)) (\<lambda>w5.
      poll_or_die (poll HYGROMETER_SLAVE_ADDRESS 1 HYGROMETER_REG_CTRL_REG2
                     ''ReadIicReg(BAROMETER_REG_CTRL_REG2) -> %08x''
                     (\<lambda>pb. 0 = (pb ! 0) AND HYGROMETER_BFLD_BOOT) 1000 b w5) (\<lambda>iTimeout b1 w6.
      or_die (if iTimeout \<le> 0
              then MAY_DIE (w6\<lparr>pcErr := ''Hygrometer boot timeout''\<rparr>)
              else Inr w6) (\<lambda>w7.
      StartHygrometer_calibrate w7))))))"

definition SampleHygrometer :: "world \<Rightarrow> world" where
  "SampleHygrometer w0 =
     (let w = w0\<lparr>eTopic := TOPIC_HYGROMETER_STATUS\<rparr>;
          (r1, w1) = WriteIicReg HYGROMETER_SLAVE_ADDRESS HYGROMETER_REG_CTRL_REG2
                       HYGROMETER_BFLD_ONE_SHOT w in
      or_die (MAY_DIE (w1\<lparr>pcErr := ''WriteIicReg(HYGROMETER_REG_CTRL_REG2::HYGROMETER_BFLD_ONE_SHOT) -> %08x''\<rparr>)) (\<lambda>w2.
      poll_or_die (poll HYGROMETER_SLAVE_ADDRESS 1 HYGROMETER_REG_CTRL_REG2
                     ''ReadIicRegs(6@HYGROMETER_REG_STATUS_REG) -> %08x''
                     (\<lambda>pb. 0 = (pb ! 0) AND HYGROMETER_BFLD_ONE_SHOT) 10000 [0] w2) (\<lambda>xTimeout b w3.
      or_die (MAY_DIE (if xTimeout \<le> 0
                       then w3\<lparr>rc := XST_FAILURE,
                               pcErr := ''Timed out waiting for HYGROMETER_BFLD_ONE_SHOT''\<rparr>
                       else w3)) (\<lambda>w4.
      poll_or_die (poll HYGROMETER_SLAVE_ADDRESS 5 HYGROMETER_REG_STATUS_REG
                     ''ReadIicRegs(6@HYGROMETER_REG_STATUS_REG) -> %08x''
                     (\<lambda>pb. (HYGROMETER_BFLD_H_DA OR HYGROMETER_BFLD_T_DA)
                              = (pb ! 0) AND (HYGROMETER_BFLD_H_DA OR HYGROMETER_BFLD_T_DA))
                     50 (replicate 5 0) w4) (\<lambda>xTimeout2 pbBuf w5.
      or_die (MAY_DIE (if xTimeout2 \<le> 0
                       then w5\<lparr>rc := XST_FAILURE,
                               pcErr := ''Timed out waiting for HYGROMETER P_DA and T_DA''\<rparr>
                       else w5)) (\<lambda>w6.
      prvPublishTopic TOPIC_HYGROMETER_HUMIDITY_SENSOR_TEMPERATURE ''%.2f C'' [ArgFloat 1000.0]
        (prvPublishTopic TOPIC_HYGROMETER_RELATIVE_HUMIDITY ''%.2f %%rH'' [ArgFloat 100.0] w6)))))))"

subsection \<open>Thermocouple\<close>

text \<open>
  The register map of the AXI SPI controller (\<^verbatim>\<open>xspi_l.h\<close>) is not among the sources. The
  registers are named by their offsets; the masks carry the values of the Xilinx driver
  header, which agree with the source's comment that the initial control word is
  \<^verbatim>\<open>0x186\<close>.
\<close>

definition XSP_CR_TRANS_INHIBIT_MASK :: u32 where
  "XSP_CR_TRANS_INHIBIT_MASK = 0x100"

definition XSP_CR_MANUAL_SS_MASK :: u32 where
  "XSP_CR_MANUAL_SS_MASK = 0x80"

definition XSP_CR_MASTER_MODE_MASK :: u32 where
  "XSP_CR_MASTER_MODE_MASK = 0x4"

definition XSP_CR_ENABLE_MASK :: u32 where
  "XSP_CR_ENABLE_MASK = 0x2"

definition XSP_SR_TX_EMPTY_MASK :: u32 where
  "XSP_SR_TX_EMPTY_MASK = 0x4"

definition XSP_SR_RX_EMPTY_MASK :: u32 where
  "XSP_SR_RX_EMPTY_MASK = 0x1"

definition PL_SPI_CHANNEL_SEL_0 :: u32 where
  "PL_SPI_CHANNEL_SEL_0 = 0xFFFFFFFE"

definition PL_SPI_CHANNEL_SEL_NONE :: u32 where
  "PL_SPI_CHANNEL_SEL_NONE = 0xFFFFFFFF"

definition MAX31855_CR_INIT_MODE :: u32 where
  "MAX31855_CR_INIT_MODE =
     XSP_CR_TRANS_INHIBIT_MASK OR XSP_CR_MANUAL_SS_MASK OR XSP_CR_MASTER_MODE_MASK
       OR XSP_CR_ENABLE_MASK"

definition MAX31855_CR_UNINHIBIT_MODE :: u32 where
  "MAX31855_CR_UNINHIBIT_MODE =
     XSP_CR_MANUAL_SS_MASK OR XSP_CR_MASTER_MODE_MASK OR XSP_CR_ENABLE_MASK"

definition AXI_SPI_RESET_VALUE :: u32 where
  "AXI_SPI_RESET_VALUE = 0x0A"

definition XSpi_WriteReg :: "spi_reg \<Rightarrow> u32 \<Rightarrow> world \<Rightarrow> world" where
  "XSpi_WriteReg reg v w = emit (SpiWrite reg v) w"

text \<open>
  A register read takes the next value the controller answers. When the controller has
  no answer left the read, and with it the busy-wait loop around it, does not return:
  \<open>None\<close>.
\<close>

definition XSpi_ReadReg :: "spi_reg \<Rightarrow> world \<Rightarrow> (u32 \<times> world) option" where
  "XSpi_ReadReg reg w =
     (case spi_reads w of
        [] \<Rightarrow> None
      | v # rest \<Rightarrow> Some (v, emit (SpiRead reg v) (w\<lparr>spi_reads := rest\<rparr>)))"

definition StartPLTempSensor :: "world \<Rightarrow> world" where
  "StartPLTempSensor w0 =
     (let xOneMs = MS_TO_TICKS 1;
          w = w0\<lparr>eTopic := TOPIC_THERMOCOUPLE_STATUS\<rparr>;
          w1 = vTaskDelay xOneMs (XSpi_WriteReg XSP_SRR_OFFSET AXI_SPI_RESET_VALUE w);
          w2 = XSpi_WriteReg XSP_CR_OFFSET MAX31855_CR_INIT_MODE w1;
          w3 = vTaskDelay xOneMs (XSpi_WriteReg XSP_SSR_OFFSET PL_SPI_CHANNEL_SEL_NONE w2) in
      prvPublishTopic TOPIC_THERMOCOUPLE_STATUS ''PL Thermocouple started'' [] w3)"

text \<open>\<^verbatim>\<open>while (!(XSpi_ReadReg(SR) & XSP_SR_TX_EMPTY_MASK));\<close>\<close>

function XSpi_wait_tx_empty :: "world \<Rightarrow> world option" where
  "XSpi_wait_tx_empty w =
     (case XSpi_ReadReg XSP_SR_OFFSET w of
        None \<Rightarrow> None
      | Some (v, w1) \<Rightarrow>
          if v AND XSP_SR_TX_EMPTY_MASK = 0 then XSpi_wait_tx_empty w1 else Some w1)"
  by pat_completeness auto
termination
  by (relation "measure (\<lambda>w. length (spi_reads w))")
     (auto simp: XSpi_ReadReg_def emit_def split: list.splits)

text \<open>\<^verbatim>\<open>while(xByteCount != XSpi_ReadReg(RFO)) ;\<close> with the counter already decremented.\<close>

function XSpi_wait_rfo :: "int \<Rightarrow> world \<Rightarrow> world option" where
  "XSpi_wait_rfo xByteCount w =
     (case XSpi_ReadReg XSP_RFO_OFFSET w of
        None \<Rightarrow> None
      | Some (v, w1) \<Rightarrow>
          if word_of_int xByteCount \<noteq> v then XSpi_wait_rfo xByteCount w1 else Some w1)"
  by pat_completeness auto
termination
  by (relation "measure (\<lambda>(_, w). length (spi_reads w))")
     (auto simp: XSpi_ReadReg_def emit_def split: list.splits)

text \<open>
  The receive loop stores one word per round through the advancing pointer
  \<^verbatim>\<open>pqRxBuffer\<close>, with no bound: a store past the end of the caller's array is recorded
  as a fault.
\<close>

definition store_rx :: "u32 list \<Rightarrow> int \<Rightarrow> u32 \<Rightarrow> world \<Rightarrow> u32 list \<times> world" where
  "store_rx pqRxBuffer i v w =
     (if nat i < length pqRxBuffer then (pqRxBuffer[nat i := v], w)
      else (pqRxBuffer, emit (Fault OutOfBounds) w))"

function XSpi_drain_rx :: "int \<Rightarrow> u32 list \<Rightarrow> world \<Rightarrow> (int \<times> u32 list \<times> world) option" where
  "XSpi_drain_rx xNumBytesRcvd pqRxBuffer w =
     (case XSpi_ReadReg XSP_SR_OFFSET w of
        None \<Rightarrow> None
      | Some (sr, w1) \<Rightarrow>
          if sr AND XSP_SR_RX_EMPTY_MASK = 0 then
            (case XSpi_ReadReg XSP_DRR_OFFSET w1 of
               None \<Rightarrow> None
             | Some (v, w2) \<Rightarrow>
                 (case store_rx pqRxBuffer xNumBytesRcvd v w2 of
                    (pqRxBuffer', w3) \<Rightarrow> XSpi_drain_rx (xNumBytesRcvd + 1) pqRxBuffer' w3))
          else Some (xNumBytesRcvd, pqRxBuffer, w1))"
  by pat_completeness auto
termination
  by (relation "measure (\<lambda>(_, _, w). length (spi_reads w))")
     (auto simp: XSpi_ReadReg_def store_rx_def emit_def split: list.splits if_splits)

declare XSpi_wait_tx_empty.simps [simp del]
declare XSpi_wait_rfo.simps [simp del]
declare XSpi_drain_rx.simps [simp del]

text \<open>
  \<^verbatim>\<open>XSpi_LowLevelExecute\<close> on the one controller of the board: the result is the receive
  buffer and the state, with the result code set by the transfer; \<open>None\<close> when a
  busy-wait loop does not end.
\<close>

definition XSpi_LowLevelExecute :: "u32 \<Rightarrow> int \<Rightarrow> u32 list \<Rightarrow> u32 list \<Rightarrow> world
    \<Rightarrow> (u32 list \<times> world) option" where
  "XSpi_LowLevelExecute xSPI_Channel xByteCount pqTxBuffer pqRxBuffer w =
     (let xOneMs = MS_TO_TICKS 1;
          w1 = fold (\<lambda>v. XSpi_WriteReg XSP_DTR_OFFSET v) (take (nat xByteCount) pqTxBuffer) w;
          w2 = vTaskDelay xOneMs (XSpi_WriteReg XSP_SSR_OFFSET xSPI_Channel w1);
          w3 = XSpi_WriteReg XSP_CR_OFFSET MAX31855_CR_UNINHIBIT_MODE w2 in
      case XSpi_wait_tx_empty w3 of
        None \<Rightarrow> None
      | Some w4 \<Rightarrow>
          (case XSpi_wait_rfo (xByteCount - 1) w4 of
             None \<Rightarrow> None
           | Some w5 \<Rightarrow>
               (case XSpi_drain_rx 0 pqRxBuffer w5 of
                  None \<Rightarrow> None
                | Some (xNumBytesRcvd, pqRxBuffer', w6) \<Rightarrow>
                    (let w7 = XSpi_WriteReg XSP_SSR_OFFSET PL_SPI_CHANNEL_SEL_NONE
                                (XSpi_WriteReg XSP_CR_OFFSET MAX31855_CR_INIT_MODE w6) in
                     if xByteCount \<noteq> xNumBytesRcvd
                     then Some (pqRxBuffer', w7\<lparr>rc := XST_FAILURE\<rparr>)
                     else Some (pqRxBuffer', w7\<lparr>rc := XST_SUCCESS\<rparr>)))))"

text \<open>
  The two values that \<^verbatim>\<open>SamplePLTempSensor\<close> assembles in \<^verbatim>\<open>sqTemporaryValue\<close>: the
  internal (cold junction) temperature from words 2 and 3 of the receive buffer and the
  thermocouple temperature from words 0 and 1. The variables are signed 32-bit integers,
  so \<^verbatim>\<open>>>\<close> is the arithmetic shift.
\<close>

definition internal_sqTemporaryValue :: "u32 list \<Rightarrow> u32" where
  "internal_sqTemporaryValue pqRxBuffer =
     (let sqTemporaryValue = push_bit 4 (pqRxBuffer ! 2);
          sqTemporaryValue2 = signed_drop_bit 4 (pqRxBuffer ! 3);
          sqTemporaryValue = sqTemporaryValue OR sqTemporaryValue2 in
      if (pqRxBuffer ! 2) AND 0x80 = 0x80 then sqTemporaryValue OR 0xFFFFF800
      else sqTemporaryValue)"

definition thermocouple_sqTemporaryValue :: "u32 list \<Rightarrow> u32" where
  "thermocouple_sqTemporaryValue pqRxBuffer =
     (let sqTemporaryValue = push_bit 6 (pqRxBuffer ! 0);
          sqTemporaryValue2 = signed_drop_bit 2 (pqRxBuffer ! 1);
          sqTemporaryValue = sqTemporaryValue OR sqTemporaryValue2 in
      if (pqRxBuffer ! 0) AND 0x80 = 0x80 then sqTemporaryValue OR 0xFFFFE000
      else sqTemporaryValue)"

text \<open>
  The two temperatures, \<^verbatim>\<open>(float)sqTemporaryValue / 16.0f\<close> and
  \<^verbatim>\<open>(float)sqTemporaryValue / 4.0f\<close>: a conversion and a division in single precision.
\<close>

definition fMAX31855_internal_temp :: "u32 list \<Rightarrow> real" where
  "fMAX31855_internal_temp pqRxBuffer =
     float_of (float_of (real_of_int (sint (internal_sqTemporaryValue pqRxBuffer))) / 16.0)"

definition fMAX31855_thermocouple_temp :: "u32 list \<Rightarrow> real" where
  "fMAX31855_thermocouple_temp pqRxBuffer =
     float_of (float_of (real_of_int (sint (thermocouple_sqTemporaryValue pqRxBuffer))) / 4.0)"

text \<open>What \<^verbatim>\<open>SamplePLTempSensor\<close> does with the receive buffer once the transfer is back.\<close>

definition SamplePLTempSensor_report :: "u32 list \<Rightarrow> world \<Rightarrow> world" where
  "SamplePLTempSensor_report pqRxBuffer w =
     (if XST_SUCCESS \<noteq> rc w then
        prvPublishTopic TOPIC_THERMOCOUPLE_STATUS ''SPI Transaction failure'' [] w
      else if (pqRxBuffer ! 3) AND 0x1 \<noteq> 0 then
        prvPublishTopic TOPIC_THERMOCOUPLE_STATUS ''Open Circuit'' [] w
      else if (pqRxBuffer ! 3) AND 0x2 \<noteq> 0 then
        prvPublishTopic TOPIC_THERMOCOUPLE_STATUS ''Short to GND'' [] w
      else if (pqRxBuffer ! 3) AND 0x4 \<noteq> 0 then
        prvPublishTopic TOPIC_THERMOCOUPLE_STATUS ''Short to VCC'' [] w
      else if (pqRxBuffer ! 1) AND 0x01 \<noteq> 0 then
        prvPublishTopic TOPIC_THERMOCOUPLE_STATUS ''Fault'' [] w
      else
        prvPublishTopic TOPIC_THERMOCOUPLE_TEMPERATURE ''%.1f C''
          [ArgFloat (fMAX31855_thermocouple_temp pqRxBuffer)]
          (prvPublishTopic TOPIC_THERMOCOUPLE_BOARD_TEMPERATURE ''%.1f C''
             [ArgFloat (fMAX31855_internal_temp pqRxBuffer)] w))"

definition SamplePLTempSensor :: "world \<Rightarrow> world option" where
  "SamplePLTempSensor w0 =
     (let pqTxBuffer = [0, 0, 0, 0];
          pqRxBuffer = [NOT 0, NOT 0, NOT 0, NOT 0];
          w = w0\<lparr>eTopic := TOPIC_THERMOCOUPLE_STATUS\<rparr> in
      case XSpi_LowLevelExecute PL_SPI_CHANNEL_SEL_0 4 pqTxBuffer pqRxBuffer w of
        None \<Rightarrow> None
      | Some (pqRxBuffer', w1) \<Rightarrow> Some (SamplePLTempSensor_report pqRxBuffer' w1))"

subsection \<open>The sampling loop\<close>

text \<open>
  Modelled from the spec: \<^verbatim>\<open>vTaskDelayUntil\<close> belongs to the FreeRTOS kernel, which is not
  among the sources. Section 5 of the specification: each wake time is computed from the
  previous scheduled wake time, which the call updates in place.
\<close>

definition vTaskDelayUntil :: "u32 \<Rightarrow> nat \<Rightarrow> world \<Rightarrow> u32 \<times> world" where
  "vTaskDelayUntil pxPreviousWakeTime xTimeIncrement w =
     (let xTimeToWake = pxPreviousWakeTime + of_nat xTimeIncrement in
      (xTimeToWake, emit (TaskDelayUntil xTimeToWake) w))"

text \<open>One round of the \<^verbatim>\<open>for(;;)\<close> loop of \<^verbatim>\<open>prvMQTTConnectAndPublishTask\<close>.\<close>

definition sampling_round :: "u32 \<Rightarrow> world \<Rightarrow> (u32 \<times> world) option" where
  "sampling_round xPreviousWakeTime w =
     (let xSamplingPeriod = MS_TO_TICKS SAMPLING_PERIOD_MS;
          (xPreviousWakeTime', w1) = vTaskDelayUntil xPreviousWakeTime xSamplingPeriod w in
      case SamplePLTempSensor (SampleBarometer w1) of
        None \<Rightarrow> None
      | Some w2 \<Rightarrow> Some (xPreviousWakeTime', SampleHygrometer w2))"

text \<open>
  The loop has no exit. \<open>sampling_rounds n\<close> is its first \<open>n\<close> rounds; \<open>None\<close> when a round
  does not return.
\<close>

fun sampling_rounds :: "nat \<Rightarrow> u32 \<Rightarrow> world \<Rightarrow> (u32 \<times> world) option" where
  "sampling_rounds 0 xPreviousWakeTime w = Some (xPreviousWakeTime, w)"
| "sampling_rounds (Suc n) xPreviousWakeTime w =
     (case sampling_round xPreviousWakeTime w of
        None \<Rightarrow> None
      | Some (xPreviousWakeTime', w1) \<Rightarrow> sampling_rounds n xPreviousWakeTime' w1)"

subsection \<open>A started system\<close>

text \<open>
  The system handle as \<^verbatim>\<open>StartSystem\<close> leaves it once the broker is connected (result code
  success, a broker handle, the LED ready), in front of an environment that will give the
  listed answers and accepts every publish. The concrete runs below start from it.
\<close>

definition connected_system :: "nat list \<Rightarrow> (nat \<times> u8 list) list \<Rightarrow> u32 list \<Rightarrow> world" where
  "connected_system ss rs sp =
     \<lparr>iic = \<lparr>BaseAddress = 0, iic_IsReady = True\<rparr>, gpio = \<lparr>gpio_IsReady = True\<rparr>,
      xMQTTHandle = Some 1, pbHygrometerCalibration = replicate 16 0,
      rc = XST_SUCCESS, pcErr = ''Success'', eTopic = TOPIC_SYSTEM_STATUS,
      send_results = ss, recv_results = rs, spi_reads = sp, publish_results = [],
      trace = []\<rparr>"

subsection \<open>The decoding rules in the words of the specification\<close>

text \<open>
  Two's complement reading of an \<open>n\<close>-bit unsigned value: values from \<open>2 ^ (n - 1)\<close> on stand
  for \<open>v - 2 ^ n\<close>.
\<close>

definition twos_complement :: "nat \<Rightarrow> int \<Rightarrow> int" where
  "twos_complement n v = (if v < 2 ^ (n - 1) then v else v - 2 ^ n)"

text \<open>
  Section 4.3 of the specification, barometer: the pressure is the 24-bit little-endian
  value of three bytes, sign-extended from bit 23, scaled by 1/4096; the temperature is
  the 16-bit little-endian value of two bytes, sign-extended from bit 15, scaled by 1/480
  with the offset 42.5.
\<close>

definition spec_pressure_hPa :: "u8 \<Rightarrow> u8 \<Rightarrow> u8 \<Rightarrow> real" where
  "spec_pressure_hPa xl l h =
     real_of_int (twos_complement 24 (uint xl + 2 ^ 8 * uint l + 2 ^ 16 * uint h)) / 4096"

definition spec_temperature_C :: "u8 \<Rightarrow> u8 \<Rightarrow> real" where
  "spec_temperature_C t_l t_h =
     real_of_int (twos_complement 16 (uint t_l + 2 ^ 8 * uint t_h)) / 480 + 42.5"

text \<open>
  Section 4.3 of the specification, thermocouple fields: the most significant byte shifted
  left by \<open>shift\<close>, joined with the next byte shifted right by \<open>discard\<close>, and with the
  sign-extension mask \<open>ext\<close> when bit 7 of the most significant byte is set.
\<close>

definition field_raw :: "nat \<Rightarrow> nat \<Rightarrow> u32 \<Rightarrow> u32 \<Rightarrow> u32 \<Rightarrow> u32" where
  "field_raw shift discard ext msb nxt =
     push_bit shift msb OR drop_bit discard nxt OR (if bit msb 7 then ext else 0)"

section \<open>Properties\<close>

lemmas publish_defs = prvPublishTopic_def GetTopicInfo_def pTopicInfo_def mkTopicInfo_def
  MQTT_AGENT_Publish_def emit_def configASSERT_def pdTRUE_def

lemmas reg_defs =
  BAROMETER_SLAVE_ADDRESS_def HYGROMETER_SLAVE_ADDRESS_def
  BAROMETER_REG_WHO_AM_I_def BAROMETER_REG_CTRL_REG1_def BAROMETER_BFLD_PD_def
  BAROMETER_REG_CTRL_REG2_def BAROMETER_BFLD_BOOT_def BAROMETER_BFLD_SWRESET_def
  BAROMETER_BFLD_ONE_SHOT_def BAROMETER_REG_STATUS_REG_def BAROMETER_BFLD_P_DA_def
  BAROMETER_BFLD_T_DA_def HYGROMETER_REG_WHO_AM_I_def HYGROMETER_REG_CTRL_REG1_def
  HYGROMETER_BFLD_PD_def HYGROMETER_REG_CTRL_REG2_def HYGROMETER_BFLD_BOOT_def
  HYGROMETER_BFLD_ONE_SHOT_def HYGROMETER_REG_STATUS_REG_def HYGROMETER_BFLD_H_DA_def
  HYGROMETER_BFLD_T_DA_def HYGROMETER_REG_CALIB_0_def

lemmas tick_defs = MS_TO_TICKS_def pdMS_TO_TICKS_def configTICK_RATE_HZ_def Let_def

subsection \<open>What a publish leaves alone\<close>

lemma BlinkLed_loop_eq:
  "BlinkLed_loop n w = w\<lparr>trace := trace w @ concat (replicate n
       [GpioWritePin LED_PIN True, TaskDelay (MS_TO_TICKS 500),
        GpioWritePin LED_PIN False, TaskDelay (MS_TO_TICKS 500)])\<rparr>"
  by (induction n arbitrary: w) (simp_all add: vTaskDelay_def XGpioPs_WritePin_def emit_def)

lemma BlinkLed_inv:
  assumes "\<And>v es. g (v\<lparr>trace := es\<rparr>) = g v"
  shows "g (BlinkLed n f w) = g w"
  by (simp add: BlinkLed_def BlinkLed_loop_eq XGpioPs_WritePin_def emit_def Let_def assms)

lemma prvPublishTopic_inv:
  assumes T: "\<And>v es. g (v\<lparr>trace := es\<rparr>) = g v"
    and P: "\<And>v ps. g (v\<lparr>publish_results := ps\<rparr>) = g v"
  shows "g (prvPublishTopic t f a w) = g w"
  by (simp add: prvPublishTopic_def MQTT_AGENT_Publish_def emit_def Let_def configASSERT_def
      pdTRUE_def BlinkLed_inv [of g, OF T] T P
      split: sum.splits option.splits list.splits MQTTAgentReturnCode.splits)

lemma prvPublishTopic_fields [simp]:
  "rc (prvPublishTopic t f a w) = rc w"
  "pcErr (prvPublishTopic t f a w) = pcErr w"
  "eTopic (prvPublishTopic t f a w) = eTopic w"
  "xMQTTHandle (prvPublishTopic t f a w) = xMQTTHandle w"
  "send_results (prvPublishTopic t f a w) = send_results w"
  "recv_results (prvPublishTopic t f a w) = recv_results w"
  "spi_reads (prvPublishTopic t f a w) = spi_reads w"
  "pbHygrometerCalibration (prvPublishTopic t f a w) = pbHygrometerCalibration w"
  "iic (prvPublishTopic t f a w) = iic w"
  "gpio (prvPublishTopic t f a w) = gpio w"
  by (rule prvPublishTopic_inv; simp)+

lemma prefix_BlinkLed: "prefix xs (trace v) \<Longrightarrow> prefix xs (trace (BlinkLed n f v))"
  by (auto simp: BlinkLed_def BlinkLed_loop_eq XGpioPs_WritePin_def emit_def Let_def
      intro: prefix_order.trans)

lemma prefix_prvPublishTopic:
  assumes "prefix xs (trace v)"
  shows "prefix xs (trace (prvPublishTopic t f a v))"
proof -
  have E: "\<And>e u. trace u = trace v \<Longrightarrow> prefix xs (trace (emit e u))"
    using assms by (auto simp: emit_def intro: prefix_order.trans)
  have M: "\<And>n l r u. MQTT_AGENT_Publish n l f a v = (r, u) \<Longrightarrow> prefix xs (trace u)"
    using assms
    by (auto simp: MQTT_AGENT_Publish_def emit_def Let_def split: list.splits
        intro: prefix_order.trans)
  show ?thesis
    using assms
    by (auto simp: prvPublishTopic_def configASSERT_def pdTRUE_def Let_def
        split: sum.splits option.splits prod.splits MQTTAgentReturnCode.splits
        intro!: prefix_BlinkLed E dest: M)
qed

text \<open>
  A publish with a broker handle, to a broker that accepts it: one event, and nothing else
  changes. The names are those of the table, with their lengths.
\<close>

lemma prvPublishTopic_accepted:
  assumes "xMQTTHandle w \<noteq> None" and "publish_results w = []"
  shows "prvPublishTopic TOPIC_BAROMETER_PRESSURE f a w =
           w\<lparr>trace := trace w @ [MqttPublish ''/remote_io_module/sensor_value/Pressure''
              (length ''/remote_io_module/sensor_value/Pressure'') f a]\<rparr>"
    and "prvPublishTopic TOPIC_BAROMETER_TEMPERATURE f a w =
           w\<lparr>trace := trace w @ [MqttPublish ''/remote_io_module/sensor_value/Pressure_Sensor_Temp''
              (length ''/remote_io_module/sensor_value/Pressure_Sensor_Temp'') f a]\<rparr>"
    and "prvPublishTopic TOPIC_THERMOCOUPLE_TEMPERATURE f a w =
           w\<lparr>trace := trace w @ [MqttPublish ''/remote_io_module/sensor_value/Thermocouple_Temp''
              (length ''/remote_io_module/sensor_value/Thermocouple_Temp'') f a]\<rparr>"
    and "prvPublishTopic TOPIC_THERMOCOUPLE_BOARD_TEMPERATURE f a w =
           w\<lparr>trace := trace w @ [MqttPublish ''/remote_io_module/sensor_value/Board_Temp_1''
              (length ''/remote_io_module/sensor_value/Board_Temp_1'') f a]\<rparr>"
    and "prvPublishTopic TOPIC_THERMOCOUPLE_STATUS f a w =
           w\<lparr>trace := trace w @ [MqttPublish ''/remote_io_module/sensor_status/MAX31855_Error''
              (length ''/remote_io_module/sensor_status/MAX31855_Error'') f a]\<rparr>"
  using assms by (simp_all add: publish_defs Let_def)

subsection \<open>Register access on a healthy bus\<close>

lemma ReadIicRegs_ok:
  assumes "rc w = XST_SUCCESS" "send_results w = 1 # ss"
    "recv_results w = (nat xCount, bytes) # rs" "length bytes = length pbBuf" "0 \<le> xCount"
  shows "ReadIicRegs a xCount reg pbBuf w =
     (XST_SUCCESS, bytes,
      w\<lparr>send_results := ss, recv_results := rs,
        trace := trace w @ [IicSend a [if xCount > 1 then reg OR 0x80 else reg] XIIC_REPEATED_START,
                            IicRecv a xCount XIIC_STOP]\<rparr>)"
  using assms
  by (simp add: ReadIicRegs_def XIic_Send_def XIic_Recv_def emit_def Let_def MAY_DIE_def)

lemma WriteIicReg_ok:
  assumes "rc w = XST_SUCCESS" "send_results w = 2 # ss"
  shows "WriteIicReg a reg v w =
     (XST_SUCCESS, w\<lparr>send_results := ss, trace := trace w @ [IicSend a [reg, v] XIIC_STOP]\<rparr>)"
  using assms
  by (simp add: WriteIicReg_def WriteIicRegs_def XIic_Send_def emit_def Let_def MAY_DIE_def)

subsection \<open>The polling loop\<close>

text \<open>
  Rounds in which the bus answers and the test fails: the loop has consumed one send and
  one receive answer per round, has delayed once per round, and goes on with the counter
  lowered by the number of rounds.
\<close>

lemma poll_busy:
  assumes "rc w = XST_SUCCESS" "send_results w = replicate (length bs) 1 @ ss"
    "recv_results w = map (\<lambda>b. (nat xCount, b)) bs @ rs"
    "\<forall>b\<in>set bs. length b = length pbBuf \<and> \<not> ready b" "0 \<le> xCount" "int (length bs) \<le> t"
  shows "poll a xCount reg e ready t pbBuf w =
     poll a xCount reg e ready (t - int (length bs)) (last (pbBuf # bs))
       (w\<lparr>pcErr := (if bs = [] then pcErr w else e), send_results := ss, recv_results := rs,
          trace := trace w @ concat (replicate (length bs)
             [IicSend a [if xCount > 1 then reg OR 0x80 else reg] XIIC_REPEATED_START,
              IicRecv a xCount XIIC_STOP, TaskDelay (MS_TO_TICKS 1)])\<rparr>)"
  using assms
proof (induction bs arbitrary: w pbBuf t)
  case Nil
  have "ss = send_results w" "rs = recv_results w"
    using Nil.prems by simp_all
  then show ?case by simp
next
  case (Cons b bs)
  let ?ev = "[IicSend a [if xCount > 1 then reg OR 0x80 else reg] XIIC_REPEATED_START,
              IicRecv a xCount XIIC_STOP]"
  let ?w2 = "w\<lparr>pcErr := e, send_results := replicate (length bs) 1 @ ss,
                recv_results := map (\<lambda>b. (nat xCount, b)) bs @ rs,
                trace := trace w @ ?ev @ [TaskDelay (MS_TO_TICKS 1)]\<rparr>"
  have R: "ReadIicRegs a xCount reg pbBuf w =
      (XST_SUCCESS, b, w\<lparr>send_results := replicate (length bs) 1 @ ss,
          recv_results := map (\<lambda>b. (nat xCount, b)) bs @ rs, trace := trace w @ ?ev\<rparr>)"
    using Cons.prems by (intro ReadIicRegs_ok) simp_all
  have step: "poll a xCount reg e ready t pbBuf w = poll a xCount reg e ready (t - 1) b ?w2"
    using Cons.prems
    by (subst poll.simps) (simp add: R MAY_DIE_def vTaskDelay_def emit_def, cases w, simp)
  have IH: "poll a xCount reg e ready (t - 1) b ?w2 =
     poll a xCount reg e ready (t - 1 - int (length bs)) (last (b # bs))
       (?w2\<lparr>pcErr := (if bs = [] then pcErr ?w2 else e), send_results := ss, recv_results := rs,
          trace := trace ?w2 @ concat (replicate (length bs)
             (?ev @ [TaskDelay (MS_TO_TICKS 1)]))\<rparr>)"
    using Cons.prems Cons.IH [of ?w2 b "t - 1"] by simp
  show ?case
    unfolding step IH by (cases w) (simp add: algebra_simps)
qed

text \<open>The test fails in every round the counter allows: the counter ends at \<open>-1\<close>.\<close>

lemma poll_exhausted:
  assumes "rc w = XST_SUCCESS" "send_results w = replicate (length bs) 1 @ ss"
    "recv_results w = map (\<lambda>b. (nat xCount, b)) bs @ rs"
    "\<forall>b\<in>set bs. length b = length pbBuf \<and> \<not> ready b" "0 \<le> xCount"
  shows "poll a xCount reg e ready (int (length bs)) pbBuf w =
     PollDone (- 1) (last (pbBuf # bs))
       (w\<lparr>pcErr := (if bs = [] then pcErr w else e), send_results := ss, recv_results := rs,
          trace := trace w @ concat (replicate (length bs)
             [IicSend a [if xCount > 1 then reg OR 0x80 else reg] XIIC_REPEATED_START,
              IicRecv a xCount XIIC_STOP, TaskDelay (MS_TO_TICKS 1)])\<rparr>)"
  using poll_busy [OF assms, of "int (length bs)" a reg e]
  by (simp add: poll.simps [of _ _ _ _ _ 0])

text \<open>
  The test succeeds after \<open>length bs\<close> failing rounds: the counter ends at what it was,
  less the number of reads.
\<close>

lemma poll_ready:
  assumes "rc w = XST_SUCCESS" "send_results w = replicate (length bs) 1 @ 1 # ss"
    "recv_results w = map (\<lambda>b. (nat xCount, b)) bs @ (nat xCount, rb) # rs"
    "\<forall>b\<in>set bs. length b = length pbBuf \<and> \<not> ready b" "0 \<le> xCount"
    "length rb = length pbBuf" "ready rb" "int (length bs) < t"
  shows "poll a xCount reg e ready t pbBuf w =
     PollDone (t - int (length bs) - 1) rb
       (w\<lparr>pcErr := e, send_results := ss, recv_results := rs,
          trace := trace w @ concat (replicate (length bs)
             [IicSend a [if xCount > 1 then reg OR 0x80 else reg] XIIC_REPEATED_START,
              IicRecv a xCount XIIC_STOP, TaskDelay (MS_TO_TICKS 1)])
            @ [IicSend a [if xCount > 1 then reg OR 0x80 else reg] XIIC_REPEATED_START,
               IicRecv a xCount XIIC_STOP]\<rparr>)"
proof -
  let ?ev = "[IicSend a [if xCount > 1 then reg OR 0x80 else reg] XIIC_REPEATED_START,
              IicRecv a xCount XIIC_STOP]"
  define w1 where "w1 = w\<lparr>pcErr := (if bs = [] then pcErr w else e), send_results := 1 # ss,
          recv_results := (nat xCount, rb) # rs,
          trace := trace w @ concat (replicate (length bs)
             [IicSend a [if xCount > 1 then reg OR 0x80 else reg] XIIC_REPEATED_START,
              IicRecv a xCount XIIC_STOP, TaskDelay (MS_TO_TICKS 1)])\<rparr>"
  define b1 where "b1 = last (pbBuf # bs)"
  have L: "length rb = length b1"
    unfolding b1_def using assms(4,6) by (cases bs rule: rev_cases) auto
  have B: "poll a xCount reg e ready t pbBuf w =
           poll a xCount reg e ready (t - int (length bs)) b1 w1"
    unfolding w1_def b1_def using assms by (intro poll_busy) simp_all
  have W: "rc w1 = XST_SUCCESS" "send_results w1 = 1 # ss"
    "recv_results w1 = (nat xCount, rb) # rs"
    using assms by (simp_all add: w1_def)
  have R: "ReadIicRegs a xCount reg b1 w1 =
      (XST_SUCCESS, rb, w1\<lparr>send_results := ss, recv_results := rs, trace := trace w1 @ ?ev\<rparr>)"
    using W assms(5) L by (intro ReadIicRegs_ok) simp_all
  have P: "poll a xCount reg e ready (t - int (length bs)) b1 w1 =
      PollDone (t - int (length bs) - 1) rb
        (w1\<lparr>send_results := ss, recv_results := rs, trace := trace w1 @ ?ev, pcErr := e\<rparr>)"
    using assms(7,8) W by (subst poll.simps) (simp add: R MAY_DIE_def)
  show ?thesis
    unfolding B P by (cases w) (simp add: w1_def)
qed

subsection \<open>Topic lookup\<close>

text \<open>
  Claim C4. The lookup of a publish goes through the fixed table and returns the entry of
  every topic that has one. The claim adds that a topic without an entry halts the
  program in an assertion. The code does not: after the scan it executes
  \<^verbatim>\<open>configASSERT( pdTRUE )\<close>, whose argument is not zero, so nothing halts (\<open>Inl\<close> never
  comes back), and the null pointer is returned (\<open>Inr None\<close>) for \<open>TOPIC_LAST\<close>, the one
  topic without an entry.
\<close>

theorem GetTopicInfo_never_halts:
  "(case GetTopicInfo t of
      Inl f \<Rightarrow> False
    | Inr None \<Rightarrow> t = TOPIC_LAST
    | Inr (Some pTI) \<Rightarrow>
        t \<noteq> TOPIC_LAST \<and> ti_eTopic pTI = t \<and> pTI \<in> set (InitTopicInfo pTopicInfo))"
  by (cases t)
     (simp_all add: GetTopicInfo_def pTopicInfo_def mkTopicInfo_def configASSERT_def pdTRUE_def)

text \<open>
  With a broker connected, the publish goes on with the null pointer and dereferences it.
\<close>

lemma prvPublishTopic_unknown_topic:
  "trace (prvPublishTopic TOPIC_LAST f a (connected_system [] [] [])) = [Fault NullDeref]"
  by (simp add: prvPublishTopic_def GetTopicInfo_def pTopicInfo_def mkTopicInfo_def
      configASSERT_def pdTRUE_def connected_system_def emit_def)

subsection \<open>Stopping a sensor that was never started\<close>

text \<open>
  Claim C9. In every state, stopping a sensor sets the topic used for error reports to the
  status topic of that sensor and changes nothing else: no bus transaction and no fault
  (the trace and the pending answers of the bus are as before), and the result code, the
  error text, the calibration buffer, the bus handles and the broker handle are unchanged.
\<close>

theorem stop_only_sets_topic:
  "StopBarometer w = w\<lparr>eTopic := TOPIC_BAROMETER_STATUS\<rparr>
   \<and> StopHygrometer w = w\<lparr>eTopic := TOPIC_HYGROMETER_STATUS\<rparr>
   \<and> StopPLTempSensor w = w\<lparr>eTopic := TOPIC_THERMOCOUPLE_STATUS\<rparr>
   \<and> eTopic (StopBarometer w) = TOPIC_BAROMETER_STATUS
   \<and> eTopic (StopHygrometer w) = TOPIC_HYGROMETER_STATUS
   \<and> eTopic (StopPLTempSensor w) = TOPIC_THERMOCOUPLE_STATUS
   \<and> trace (StopBarometer w) = trace w
   \<and> trace (StopHygrometer w) = trace w
   \<and> trace (StopPLTempSensor w) = trace w
   \<and> System.truncate (StopBarometer w) = (System.truncate w)\<lparr>eTopic := TOPIC_BAROMETER_STATUS\<rparr>
   \<and> System.truncate (StopHygrometer w) = (System.truncate w)\<lparr>eTopic := TOPIC_HYGROMETER_STATUS\<rparr>
   \<and> System.truncate (StopPLTempSensor w)
       = (System.truncate w)\<lparr>eTopic := TOPIC_THERMOCOUPLE_STATUS\<rparr>"
  by (simp add: StopBarometer_def StopHygrometer_def StopPLTempSensor_def System.truncate_def)

subsection \<open>Writing registers\<close>

text \<open>
  Claim C10. \<^verbatim>\<open>WriteIicRegs\<close> with a byte count above 2 sets the top bit of byte 0 of the
  caller's buffer before it sends: the buffer that the call leaves has the bit set, and the
  bytes offered to the bus are the first \<open>xCount\<close> bytes of that buffer. With a count of 2 or
  less the buffer is left as it was.
\<close>

theorem WriteIicRegs_caller_buffer:
  "fst (snd (WriteIicRegs a xCount (b # bs) w)) =
      (if xCount > 2 then (b OR 0x80) # bs else b # bs)
   \<and> prefix (trace w @ [IicSend a (take (nat xCount)
                  (if xCount > 2 then (b OR 0x80) # bs else b # bs)) XIIC_STOP])
        (trace (snd (snd (WriteIicRegs a xCount (b # bs) w))))"
  by (auto simp: WriteIicRegs_def set_top_bit_def XIic_Send_def emit_def MAY_DIE_def Let_def
      split: list.splits intro!: prefix_prvPublishTopic)

subsection \<open>Rounding\<close>

lemma pow2_powr: "pow2 e = 2 powr real_of_int e"
  by (simp add: pow2_def powr_real_of_int inverse_eq_divide)

lemma pow2_pos [simp]: "0 < pow2 e"
  by (simp add: pow2_powr)

lemma pow2_add: "pow2 (a + b) = pow2 a * pow2 b"
  by (simp add: pow2_powr powr_add)

lemma pow2_mono: "a \<le> b \<Longrightarrow> pow2 a \<le> pow2 b"
  by (simp add: pow2_powr)

lemma pow2_nat: "pow2 (int n) = 2 ^ n"
  by (simp add: pow2_def)

lemma round_ties_even_int [simp]: "round_ties_even (of_int m) = m"
  by (simp add: round_ties_even_def)

lemma round_ties_even_error: "\<bar>of_int (round_ties_even x) - x\<bar> \<le> 1 / 2"
proof -
  have "of_int \<lfloor>x\<rfloor> \<le> x" "x < of_int \<lfloor>x\<rfloor> + 1"
    by linarith+
  then show ?thesis
    by (auto simp: round_ties_even_def Let_def)
qed

text \<open>A number below \<open>2\<^sup>k\<^sup>+\<^sup>1\<close> has an exponent of at most \<open>k\<close>.\<close>

lemma binary_exponent_upper:
  "0 < x \<Longrightarrow> x < 2 ^ Suc k \<Longrightarrow> binary_exponent x \<le> int k"
proof (induction x arbitrary: k rule: binary_exponent.induct)
  case (1 x)
  show ?case
  proof (cases "0 < x \<and> x < 1")
    case True
    then have "2 * x < 2 ^ Suc 0" by simp
    from "1.IH"(1) [OF True _ this] True have "binary_exponent (2 * x) \<le> 0" by simp
    then show ?thesis
      using True by (subst binary_exponent.simps) simp
  next
    case False
    show ?thesis
    proof (cases "2 \<le> x")
      case True
      have "k \<noteq> 0"
        using True "1.prems" by (cases k) auto
      then obtain j where k: "k = Suc j" by (cases k) auto
      have "x / 2 < 2 ^ Suc j"
        using "1.prems" by (simp add: k)
      from "1.IH"(2) [OF False True _ this] True
      have "binary_exponent (x / 2) \<le> int j" by simp
      then show ?thesis
        using False True by (subst binary_exponent.simps) (simp add: k)
    next
      case F2: False
      then show ?thesis
        using False by (subst binary_exponent.simps) auto
    qed
  qed
qed

text \<open>Rounding moves a number below \<open>2\<^sup>k\<^sup>+\<^sup>1\<close> by at most half a unit of the last place.\<close>

lemma round_to_precision_error:
  assumes "\<bar>x\<bar> < 2 ^ Suc k"
  shows "\<bar>round_to_precision p x - x\<bar> \<le> pow2 (int k - int p + 1) / 2"
proof (cases "x = 0")
  case True
  then show ?thesis
    by (simp add: round_to_precision_def order_less_imp_le)
next
  case False
  define e where "e = binary_exponent \<bar>x\<bar>"
  define u where "u = pow2 (e - int p + 1)"
  have e: "e \<le> int k"
    unfolding e_def using False assms by (intro binary_exponent_upper) simp_all
  have u: "0 < u" "u \<le> pow2 (int k - int p + 1)"
    using e by (simp_all add: u_def pow2_mono)
  have "round_to_precision p x = of_int (round_ties_even (x / u)) * u"
    using False by (simp add: round_to_precision_def Let_def e_def u_def)
  then have "round_to_precision p x - x = (of_int (round_ties_even (x / u)) - x / u) * u"
    using u(1) by (simp add: algebra_simps)
  then have "\<bar>round_to_precision p x - x\<bar> = \<bar>of_int (round_ties_even (x / u)) - x / u\<bar> * u"
    using u(1) by (simp add: abs_mult)
  also have "\<dots> \<le> (1 / 2) * u"
    using u(1) round_ties_even_error [of "x / u"] by (intro mult_right_mono) simp_all
  also have "\<dots> \<le> pow2 (int k - int p + 1) / 2"
    using u(2) by simp
  finally show ?thesis .
qed

text \<open>
  A number below \<open>2\<^sup>k\<^sup>+\<^sup>1\<close> that is a multiple of \<open>2\<^sup>k\<^sup>-\<^sup>p\<^sup>+\<^sup>1\<close> is a value of the format: rounding
  leaves it as it is.
\<close>

lemma round_to_precision_exact:
  assumes "\<bar>x\<bar> < 2 ^ Suc k" and "x * pow2 (int p - 1 - int k) = of_int m"
  shows "round_to_precision p x = x"
proof (cases "x = 0")
  case True
  then show ?thesis
    by (simp add: round_to_precision_def)
next
  case False
  define e where "e = binary_exponent \<bar>x\<bar>"
  define u where "u = pow2 (e - int p + 1)"
  have e: "e \<le> int k"
    unfolding e_def using False assms by (intro binary_exponent_upper) simp_all
  have u: "0 < u"
    by (simp add: u_def)
  have "pow2 (int p - 1 - int k) * pow2 (int k - e) * u
          = pow2 ((int p - 1 - int k) + (int k - e) + (e - int p + 1))"
    by (simp only: pow2_add u_def)
  then have "pow2 (int p - 1 - int k) * pow2 (int k - e) * u = 1"
    by (simp add: pow2_def)
  then have "1 / u = pow2 (int p - 1 - int k) * pow2 (int k - e)"
    using u by (simp add: field_simps)
  moreover have "pow2 (int k - e) = 2 ^ nat (int k - e)"
    using e by (simp add: pow2_def)
  ultimately have inv: "1 / u = pow2 (int p - 1 - int k) * 2 ^ nat (int k - e)"
    by simp
  have "x / u = x * (1 / u)"
    by simp
  also have "\<dots> = (x * pow2 (int p - 1 - int k)) * 2 ^ nat (int k - e)"
    by (simp only: inv mult.assoc)
  also have "\<dots> = of_int (m * 2 ^ nat (int k - e))"
    by (simp add: assms(2))
  finally have X: "x / u = of_int (m * 2 ^ nat (int k - e))" .
  have "round_ties_even (x / u) = m * 2 ^ nat (int k - e)"
    by (simp only: X round_ties_even_int)
  then have "of_int (round_ties_even (x / u)) * u = (x / u) * u"
    by (simp only: X)
  also have "\<dots> = x"
    using u by simp
  finally have "of_int (round_ties_even (x / u)) * u = x" .
  then show ?thesis
    using False by (simp add: round_to_precision_def Let_def e_def u_def)
qed

text \<open>
  An integer of at most \<open>k + 1\<close> bits, sign included, and its quotient by \<open>2\<^sup>j\<close> are values of
  type \<^verbatim>\<open>float\<close> when \<open>k + j\<close> is at most 23.
\<close>

lemma float_of_quotient_exact:
  assumes "- (2 ^ k) \<le> n" and "n < 2 ^ k" and "k + j \<le> 23"
  shows "float_of (float_of (real_of_int n) / 2 ^ j) = real_of_int n / 2 ^ j"
proof -
  have n: "\<bar>real_of_int n\<bar> \<le> 2 ^ k"
  proof -
    have "\<bar>n\<bar> \<le> 2 ^ k"
      using assms(1,2) by simp
    then have "real_of_int \<bar>n\<bar> \<le> real_of_int (2 ^ k)"
      by (simp only: of_int_le_iff)
    then show ?thesis
      by simp
  qed
  have lt: "(2::real) ^ k < 2 ^ Suc k"
    by simp
  have A: "float_of (real_of_int n) = real_of_int n"
    unfolding float_of_def
  proof (rule round_to_precision_exact [where k = k and m = "n * 2 ^ (23 - k)"])
    show "\<bar>real_of_int n\<bar> < 2 ^ Suc k"
      using n lt by linarith
    have "int 24 - 1 - int k = int (23 - k)"
      using assms(3) by simp
    then have "pow2 (int 24 - 1 - int k) = 2 ^ (23 - k)"
      by (simp only: pow2_nat)
    then show "real_of_int n * pow2 (int 24 - 1 - int k) = real_of_int (n * 2 ^ (23 - k))"
      by simp
  qed
  have B: "float_of (real_of_int n / 2 ^ j) = real_of_int n / 2 ^ j"
    unfolding float_of_def
  proof (rule round_to_precision_exact [where k = k and m = "n * 2 ^ (23 - k - j)"])
    have "\<bar>real_of_int n\<bar> / 2 ^ j \<le> \<bar>real_of_int n\<bar> / 1"
      by (rule divide_left_mono) simp_all
    then have "\<bar>real_of_int n / 2 ^ j\<bar> \<le> \<bar>real_of_int n\<bar>"
      by simp
    then show "\<bar>real_of_int n / 2 ^ j\<bar> < 2 ^ Suc k"
      using n lt by linarith
    have "int 24 - 1 - int k = int (23 - k - j + j)"
      using assms(3) by simp
    then have "pow2 (int 24 - 1 - int k) = 2 ^ (23 - k - j + j)"
      by (simp only: pow2_nat)
    then have "pow2 (int 24 - 1 - int k) = 2 ^ (23 - k - j) * 2 ^ j"
      by (simp only: power_add)
    then have "real_of_int n / 2 ^ j * pow2 (int 24 - 1 - int k)
                 = real_of_int n * 2 ^ (23 - k - j)"
      by (simp only: times_divide_eq_left times_divide_eq_right) simp
    then show "real_of_int n / 2 ^ j * pow2 (int 24 - 1 - int k)
                 = real_of_int (n * 2 ^ (23 - k - j))"
      by simp
  qed
  show ?thesis
    by (simp only: A B)
qed

lemmas float_defs = float_of_def double_of_def round_to_precision_def binary_exponent.simps
  pow2_def round_ties_even_def

subsection \<open>Barometer: decoding the sample\<close>

lemma or3_eq_add:
  fixes xl l h :: u8
  shows "(ucast xl :: u32) OR push_bit 8 (ucast l) OR push_bit 16 (ucast h)
       = ucast xl + push_bit 8 (ucast l) + push_bit 16 (ucast h)"
proof -
  have A: "push_bit 8 (ucast l :: u32) OR push_bit 16 (ucast h)
         = push_bit 8 (ucast l) + push_bit 16 (ucast h)"
    by (rule disjunctive_add [symmetric]) (auto simp: bit_simps dest: bit_imp_le_length)
  have B: "(ucast xl :: u32) OR (push_bit 8 (ucast l) OR push_bit 16 (ucast h))
         = ucast xl + (push_bit 8 (ucast l) OR push_bit 16 (ucast h))"
    by (rule disjunctive_add [symmetric]) (auto simp: bit_simps dest: bit_imp_le_length)
  show ?thesis
    using A B by (simp add: or.assoc add.assoc)
qed

lemma uint_or3:
  fixes xl l h :: u8
  shows "uint ((ucast xl :: u32) OR push_bit 8 (ucast l) OR push_bit 16 (ucast h))
       = uint xl + 256 * uint l + 65536 * uint h"
proof -
  define k where "k = uint xl + 256 * uint l + 65536 * uint h"
  have b: "uint xl < 256" "uint l < 256" "uint h < 256" "0 \<le> uint xl" "0 \<le> uint l" "0 \<le> uint h"
    using uint_lt2p [of xl] uint_lt2p [of l] uint_lt2p [of h] by simp_all
  have k: "0 \<le> k" "k < 2 ^ 32"
    using b by (simp_all add: k_def)
  have E: "(ucast xl :: u32) + push_bit 8 (ucast l) + push_bit 16 (ucast h) = word_of_int k"
    by (simp add: push_bit_eq_mult k_def)
  have U: "uint (word_of_int k :: u32) = k"
    using k by (simp add: uint_word_of_int_eq take_bit_int_eq_self)
  have "uint ((ucast xl :: u32) OR push_bit 8 (ucast l) OR push_bit 16 (ucast h)) = k"
    by (simp only: or3_eq_add E U)
  then show ?thesis
    by (simp only: k_def)
qed

lemma uint_or2:
  fixes lo hi :: u8
  shows "uint ((ucast lo :: u32) OR push_bit 8 (ucast hi)) = uint lo + 256 * uint hi"
  using uint_or3 [of lo hi 0] by simp

lemma bit_int_top:
  assumes "0 \<le> (k::int)" "k < 2 ^ Suc n"
  shows "bit k n \<longleftrightarrow> 2 ^ n \<le> k"
proof -
  have "k div 2 ^ n = (if 2 ^ n \<le> k then 1 else 0)"
    using assms by (auto intro!: int_div_pos_eq [where r = "k - 2 ^ n"])
  then show ?thesis
    by (simp add: bit_iff_odd)
qed

text \<open>
  The sign extension of the source, \<^verbatim>\<open>if(v & 2^n) v |= ~(2^n - 1)\<close>, on a value of
  \<open>n + 1\<close> bits, read as a signed 32-bit integer, is the two's complement reading of the
  value.
\<close>

lemma sign_extend:
  fixes v :: u32
  assumes n: "n < 31" and v: "uint v < 2 ^ Suc n"
  shows "sint (if bit v n then v OR NOT (mask n) else v) = twos_complement (Suc n) (uint v)"
proof -
  have T: "take_bit (Suc n) (uint v) = uint v"
    using v by (simp add: take_bit_int_eq_self)
  have B: "m \<le> n" if "bit v m" for m
  proof -
    have "bit (take_bit (Suc n) (uint v)) m"
      using that bit_imp_le_length [of v m] by (simp only: T bit_uint_iff)
    then show ?thesis by (simp add: bit_take_bit_iff)
  qed
  have E: "(if bit v n then v OR NOT (mask n) else v) = signed_take_bit n v"
  proof (rule bit_word_eqI)
    fix m assume "m < LENGTH(32)"
    have "n \<le> m \<Longrightarrow> bit v m \<Longrightarrow> m = n"
      using B [of m] by simp
    then show "bit (if bit v n then v OR NOT (mask n) else v) m = bit (signed_take_bit n v) m"
      using n \<open>m < LENGTH(32)\<close> by (auto simp: bit_simps min_def)
  qed
  have S: "sint (signed_take_bit n v) = signed_take_bit n (uint v)"
    using n by (intro bit_eqI) (auto simp: bit_sint_iff bit_simps bit_uint_iff min_def)
  have "signed_take_bit n (uint v) = twos_complement (Suc n) (uint v)"
    using v bit_int_top [of "uint v" n]
    by (simp add: signed_take_bit_eq_take_bit_minus T twos_complement_def)
  then show ?thesis
    by (simp only: E S)
qed

lemma sint_pressure:
  "sint (barometer_pressure_sqTmp [s, xl, l, h, t_l, t_h]) =
     twos_complement 24 (uint xl + 256 * uint l + 65536 * uint h)"
proof -
  define v :: u32 where "v = ucast xl OR push_bit 8 (ucast l) OR push_bit 16 (ucast h)"
  have u: "uint v = uint xl + 256 * uint l + 65536 * uint h"
    unfolding v_def by (rule uint_or3)
  have b: "uint v < 2 ^ Suc 23"
    using uint_lt2p [of xl] uint_lt2p [of l] uint_lt2p [of h] by (simp add: u)
  have t: "(v AND 0x00800000 = 0) = (\<not> bit v 23)"
    using bit_iff_and_push_bit_not_eq_0 [of v 23] by simp
  have m: "(0xFF800000 :: u32) = NOT (mask 23)"
    by (simp add: mask_eq_exp_minus_1 not_eq_complement)
  have "barometer_pressure_sqTmp [s, xl, l, h, t_l, t_h] =
          (if bit v 23 then v OR NOT (mask 23) else v)"
    by (simp add: barometer_pressure_sqTmp_def Let_def flip: v_def) (simp add: t m)
  then show ?thesis
    using sign_extend [of 23 v, OF _ b] by (simp add: u)
qed

lemma sint_temperature:
  "sint (barometer_temperature_sqTmp [s, xl, l, h, t_l, t_h]) =
     twos_complement 16 (uint t_l + 256 * uint t_h)"
proof -
  define v :: u32 where "v = ucast t_l OR push_bit 8 (ucast t_h)"
  have u: "uint v = uint t_l + 256 * uint t_h"
    unfolding v_def by (rule uint_or2)
  have b: "uint v < 2 ^ Suc 15"
    using uint_lt2p [of t_l] uint_lt2p [of t_h] by (simp add: u)
  have t: "(v AND 0x00008000 = 0) = (\<not> bit v 15)"
    using bit_iff_and_push_bit_not_eq_0 [of v 15] by simp
  have m: "(0xFFFF8000 :: u32) = NOT (mask 15)"
    by (simp add: mask_eq_exp_minus_1 not_eq_complement)
  have "barometer_temperature_sqTmp [s, xl, l, h, t_l, t_h] =
          (if bit v 15 then v OR NOT (mask 15) else v)"
    by (simp add: barometer_temperature_sqTmp_def Let_def flip: v_def) (simp add: t m)
  then show ?thesis
    using sign_extend [of 15 v, OF _ b] by (simp add: u)
qed

lemma SampleBarometer_run:
  assumes rc: "rc w = XST_SUCCESS"
    and sends: "send_results w =
         2 # replicate (length bs1) 1 @ 1 # replicate (length bs2) 1 @ 1 # ss"
    and recvs: "recv_results w =
         map (\<lambda>x. (1, x)) bs1 @ (1, [b]) # map (\<lambda>x. (6, x)) bs2
           @ (6, [s, xl, l, h, t_l, t_h]) # rs"
    and busy1: "\<forall>x\<in>set bs1. length x = 1 \<and> (x ! 0) AND BAROMETER_BFLD_ONE_SHOT \<noteq> 0"
    and done1: "b AND BAROMETER_BFLD_ONE_SHOT = 0"
    and busy2: "\<forall>x\<in>set bs2. length x = 6
                  \<and> (x ! 0) AND (BAROMETER_BFLD_P_DA OR BAROMETER_BFLD_T_DA)
                      \<noteq> BAROMETER_BFLD_P_DA OR BAROMETER_BFLD_T_DA"
    and done2: "s AND (BAROMETER_BFLD_P_DA OR BAROMETER_BFLD_T_DA)
                  = BAROMETER_BFLD_P_DA OR BAROMETER_BFLD_T_DA"
    and n1: "length bs1 < 49" and n2: "length bs2 < 49"
    and broker: "xMQTTHandle w \<noteq> None" "publish_results w = []"
  shows "SampleBarometer w =
     w\<lparr>pcErr := ''ReadIicRegs(6@BAROMETER_REG_STATUS_REG) -> %08x'',
       eTopic := TOPIC_BAROMETER_STATUS,
       send_results := ss, recv_results := rs,
       trace := trace w
           @ [IicSend BAROMETER_SLAVE_ADDRESS
                [BAROMETER_REG_CTRL_REG2, BAROMETER_BFLD_ONE_SHOT] XIIC_STOP]
           @ concat (replicate (length bs1)
               [IicSend BAROMETER_SLAVE_ADDRESS [BAROMETER_REG_CTRL_REG2] XIIC_REPEATED_START,
                IicRecv BAROMETER_SLAVE_ADDRESS 1 XIIC_STOP, TaskDelay (MS_TO_TICKS 1)])
           @ [IicSend BAROMETER_SLAVE_ADDRESS [BAROMETER_REG_CTRL_REG2] XIIC_REPEATED_START,
              IicRecv BAROMETER_SLAVE_ADDRESS 1 XIIC_STOP]
           @ concat (replicate (length bs2)
               [IicSend BAROMETER_SLAVE_ADDRESS [BAROMETER_REG_STATUS_REG OR 0x80]
                  XIIC_REPEATED_START,
                IicRecv BAROMETER_SLAVE_ADDRESS 6 XIIC_STOP, TaskDelay (MS_TO_TICKS 1)])
           @ [IicSend BAROMETER_SLAVE_ADDRESS [BAROMETER_REG_STATUS_REG OR 0x80]
                XIIC_REPEATED_START,
              IicRecv BAROMETER_SLAVE_ADDRESS 6 XIIC_STOP,
              MqttPublish ''/remote_io_module/sensor_value/Pressure''
                (length ''/remote_io_module/sensor_value/Pressure'') ''%.2f hPa''
                [ArgFloat (float_of
                   (float_of (real_of_int (sint (barometer_pressure_sqTmp
                      [s, xl, l, h, t_l, t_h]))) / 4096.0))],
              MqttPublish ''/remote_io_module/sensor_value/Pressure_Sensor_Temp''
                (length ''/remote_io_module/sensor_value/Pressure_Sensor_Temp'') ''%.2f C''
                [ArgFloat (float_of (double_of (42.5 + double_of
                   (float_of (real_of_int (sint (barometer_temperature_sqTmp
                      [s, xl, l, h, t_l, t_h]))) / 480.0))))]]\<rparr>"
proof -
  let ?a = BAROMETER_SLAVE_ADDRESS
  let ?E1 = "''WriteIicReg(BAROMETER_REG_CTRL_REG2::BAROMETER_BFLD_ONE_SHOT) -> %08x''"
  let ?E2 = "''ReadIicRegs(6@BAROMETER_REG_STATUS_REG) -> %08x''"
  let ?r1 = "\<lambda>pb. 0 = (pb ! 0) AND BAROMETER_BFLD_ONE_SHOT"
  let ?r2 = "\<lambda>pb. (BAROMETER_BFLD_P_DA OR BAROMETER_BFLD_T_DA)
                      = (pb ! 0) AND (BAROMETER_BFLD_P_DA OR BAROMETER_BFLD_T_DA)"
  define w1 where "w1 = (w\<lparr>eTopic := TOPIC_BAROMETER_STATUS\<rparr>)
      \<lparr>send_results := replicate (length bs1) 1 @ 1 # replicate (length bs2) 1 @ 1 # ss,
       trace := trace (w\<lparr>eTopic := TOPIC_BAROMETER_STATUS\<rparr>)
          @ [IicSend ?a [BAROMETER_REG_CTRL_REG2, BAROMETER_BFLD_ONE_SHOT] XIIC_STOP]\<rparr>"
  define w2 where "w2 = w1\<lparr>pcErr := ?E1\<rparr>"
  have W: "WriteIicReg ?a BAROMETER_REG_CTRL_REG2 BAROMETER_BFLD_ONE_SHOT
             (w\<lparr>eTopic := TOPIC_BAROMETER_STATUS\<rparr>) = (XST_SUCCESS, w1)"
    unfolding w1_def using rc sends by (intro WriteIicReg_ok) simp_all
  have w2: "rc w2 = XST_SUCCESS"
    "send_results w2 = replicate (length bs1) 1 @ 1 # replicate (length bs2) 1 @ 1 # ss"
    "recv_results w2 = map (\<lambda>x. (nat 1, x)) bs1 @ (nat 1, [b]) # map (\<lambda>x. (6, x)) bs2
           @ (6, [s, xl, l, h, t_l, t_h]) # rs"
    using rc recvs by (simp_all add: w2_def w1_def)
  define w3 where "w3 = w2\<lparr>pcErr := ?E2,
      send_results := replicate (length bs2) 1 @ 1 # ss,
      recv_results := map (\<lambda>x. (6, x)) bs2 @ (6, [s, xl, l, h, t_l, t_h]) # rs,
      trace := trace w2 @ concat (replicate (length bs1)
                   [IicSend ?a [BAROMETER_REG_CTRL_REG2] XIIC_REPEATED_START,
                    IicRecv ?a 1 XIIC_STOP, TaskDelay (MS_TO_TICKS 1)])
               @ [IicSend ?a [BAROMETER_REG_CTRL_REG2] XIIC_REPEATED_START,
                  IicRecv ?a 1 XIIC_STOP]\<rparr>"
  have P1: "poll ?a 1 BAROMETER_REG_CTRL_REG2 ?E2 ?r1 50 [0] w2
          = PollDone (50 - int (length bs1) - 1) [b] w3"
    using w2 busy1 done1 n1
    by (subst poll_ready [where bs = bs1 and rb = "[b]"
          and ss = "replicate (length bs2) 1 @ 1 # ss"
          and rs = "map (\<lambda>x. (6, x)) bs2 @ (6, [s, xl, l, h, t_l, t_h]) # rs"])
       (auto simp: w3_def)
  have w3: "rc w3 = XST_SUCCESS"
    "send_results w3 = replicate (length bs2) 1 @ 1 # ss"
    "recv_results w3 = map (\<lambda>x. (nat 6, x)) bs2 @ (nat 6, [s, xl, l, h, t_l, t_h]) # rs"
    using w2 by (simp_all add: w3_def)
  define w5 where "w5 = w3\<lparr>pcErr := ?E2, send_results := ss, recv_results := rs,
      trace := trace w3 @ concat (replicate (length bs2)
                   [IicSend ?a [BAROMETER_REG_STATUS_REG OR 0x80] XIIC_REPEATED_START,
                    IicRecv ?a 6 XIIC_STOP, TaskDelay (MS_TO_TICKS 1)])
               @ [IicSend ?a [BAROMETER_REG_STATUS_REG OR 0x80] XIIC_REPEATED_START,
                  IicRecv ?a 6 XIIC_STOP]\<rparr>"
  have P2: "poll ?a 6 BAROMETER_REG_STATUS_REG ?E2 ?r2 50 (replicate 6 0) w3
          = PollDone (50 - int (length bs2) - 1) [s, xl, l, h, t_l, t_h] w5"
    using w3 busy2 done2 n2
    by (subst poll_ready [where bs = bs2 and rb = "[s, xl, l, h, t_l, t_h]" and ss = ss
          and rs = rs])
       (auto simp: w5_def)
  have w5: "rc w5 = XST_SUCCESS"
    using w3 by (simp add: w5_def)
  have M1: "MAY_DIE (w1\<lparr>pcErr := ?E1\<rparr>) = Inr w2"
    using w2 by (simp add: MAY_DIE_def w2_def)
  have M3: "MAY_DIE (if 50 - int (length bs1) - 1 \<le> 0
                     then w3\<lparr>rc := XST_FAILURE,
                             pcErr := ''Timed out waiting for BAROMETER_BFLD_ONE_SHOT''\<rparr>
                     else w3) = Inr w3"
    using w3 n1 by (simp add: MAY_DIE_def)
  have M5: "MAY_DIE (if 50 - int (length bs2) - 1 \<le> 0
                     then w5\<lparr>rc := XST_FAILURE,
                             pcErr := ''Timed out waiting for P_DA and T_DA''\<rparr>
                     else w5) = Inr w5"
    using w5 n2 by (simp add: MAY_DIE_def)
  have A: "SampleBarometer w =
     prvPublishTopic TOPIC_BAROMETER_TEMPERATURE ''%.2f C''
       [ArgFloat (float_of (double_of (42.5 + double_of
            (float_of (real_of_int (sint (barometer_temperature_sqTmp
               [s, xl, l, h, t_l, t_h]))) / 480.0))))]
       (prvPublishTopic TOPIC_BAROMETER_PRESSURE ''%.2f hPa''
          [ArgFloat (float_of
              (float_of (real_of_int (sint (barometer_pressure_sqTmp
                 [s, xl, l, h, t_l, t_h]))) / 4096.0))]
          w5)"
    by (simp only: SampleBarometer_def Let_def W prod.case M1 or_die_def sum.case P1
        poll_or_die_def poll_result.case M3 P2 M5)
  have w5b: "xMQTTHandle w5 \<noteq> None" "publish_results w5 = []"
    using broker by (simp_all add: w5_def w3_def w2_def w1_def)
  have B: "SampleBarometer w =
     w5\<lparr>trace := trace w5 @
        [MqttPublish ''/remote_io_module/sensor_value/Pressure''
           (length ''/remote_io_module/sensor_value/Pressure'') ''%.2f hPa''
           [ArgFloat (float_of
              (float_of (real_of_int (sint (barometer_pressure_sqTmp
                 [s, xl, l, h, t_l, t_h]))) / 4096.0))],
         MqttPublish ''/remote_io_module/sensor_value/Pressure_Sensor_Temp''
           (length ''/remote_io_module/sensor_value/Pressure_Sensor_Temp'') ''%.2f C''
           [ArgFloat (float_of (double_of (42.5 + double_of
              (float_of (real_of_int (sint (barometer_temperature_sqTmp
                 [s, xl, l, h, t_l, t_h]))) / 480.0))))]]\<rparr>"
    unfolding A using w5b by (simp add: prvPublishTopic_accepted)
  show ?thesis
    unfolding B by (cases w) (simp add: w5_def w3_def w2_def w1_def)
qed

lemma twos_complement_bounds:
  assumes "0 \<le> v" and "v < 2 ^ Suc n"
  shows "- (2 ^ n) \<le> twos_complement (Suc n) v" and "twos_complement (Suc n) v < 2 ^ n"
  using assms by (simp_all add: twos_complement_def)

text \<open>
  The pressure: an integer of at most 24 bits is a \<^verbatim>\<open>float\<close>, and so is its quotient by 4096.
  Neither rounding changes the value.
\<close>

lemma barometer_pressure_exact:
  "float_of (float_of (real_of_int (sint (barometer_pressure_sqTmp [s, xl, l, h, t_l, t_h])))
      / 4096.0) = spec_pressure_hPa xl l h"
proof -
  define n where "n = twos_complement 24 (uint xl + 256 * uint l + 65536 * uint h)"
  have v: "0 \<le> uint xl + 256 * uint l + 65536 * uint h"
    "uint xl + 256 * uint l + 65536 * uint h < 2 ^ Suc 23"
    using uint_lt2p [of xl] uint_lt2p [of l] uint_lt2p [of h] by simp_all
  have n: "- (2 ^ 23) \<le> n" "n < 2 ^ 23"
    using twos_complement_bounds [OF v] by (simp_all add: n_def)
  have A: "float_of (real_of_int n) = real_of_int n"
    unfolding float_of_def
  proof (rule round_to_precision_exact [where k = 23 and m = n])
    show "\<bar>real_of_int n\<bar> < 2 ^ Suc 23"
      using n by simp
    show "real_of_int n * pow2 (int 24 - 1 - int 23) = real_of_int n"
      by (simp add: pow2_def)
  qed
  have B: "float_of (real_of_int n / 4096) = real_of_int n / 4096"
    unfolding float_of_def
  proof (rule round_to_precision_exact [where k = 11 and m = n])
    have "\<bar>real_of_int n\<bar> \<le> 2 ^ 23"
      using n by simp
    then show "\<bar>real_of_int n / 4096\<bar> < 2 ^ Suc 11"
      by simp
    show "real_of_int n / 4096 * pow2 (int 24 - 1 - int 11) = real_of_int n"
      by (simp add: pow2_def)
  qed
  show ?thesis
    by (simp add: sint_pressure spec_pressure_hPa_def A B flip: n_def)
qed

text \<open>
  The temperature: the conversion of the 16-bit integer to \<^verbatim>\<open>float\<close> is exact. The quotient
  by 480, the sum with 42.5 and the assignment are rounded, and what is published lies
  within \<open>2\<^sup>-\<^sup>1\<^sup>8 + 2\<^sup>-\<^sup>4\<^sup>6\<close> of the exact value.
\<close>

lemma barometer_temperature_conversion:
  "float_of (real_of_int (sint (barometer_temperature_sqTmp [s, xl, l, h, t_l, t_h])))
     = real_of_int (twos_complement 16 (uint t_l + 2 ^ 8 * uint t_h))"
proof -
  define n where "n = twos_complement 16 (uint t_l + 256 * uint t_h)"
  have v: "0 \<le> uint t_l + 256 * uint t_h" "uint t_l + 256 * uint t_h < 2 ^ Suc 15"
    using uint_lt2p [of t_l] uint_lt2p [of t_h] by simp_all
  have n: "- (2 ^ 15) \<le> n" "n < 2 ^ 15"
    using twos_complement_bounds [OF v] by (simp_all add: n_def)
  have A: "float_of (real_of_int n) = real_of_int n"
    unfolding float_of_def
  proof (rule round_to_precision_exact [where k = 15 and m = "n * 2 ^ 8"])
    show "\<bar>real_of_int n\<bar> < 2 ^ Suc 15"
      using n by simp
    show "real_of_int n * pow2 (int 24 - 1 - int 15) = real_of_int (n * 2 ^ 8)"
      by (simp add: pow2_def)
  qed
  show ?thesis
    by (simp add: sint_temperature A flip: n_def)
qed

lemma barometer_temperature_error:
  assumes "- (2 ^ 15) \<le> n" and "n < 2 ^ 15"
  shows "\<bar>float_of (double_of (42.5 + double_of (real_of_int n / 480)))
           - (real_of_int n / 480 + 42.5)\<bar> < 1 / 250000"
proof -
  define x where "x = real_of_int n / 480"
  define q where "q = double_of x"
  define y where "y = double_of (42.5 + q)"
  have x: "\<bar>x\<bar> \<le> 32768 / 480"
    using assms by (simp add: x_def abs_le_iff)
  have "\<bar>x\<bar> < 2 ^ Suc 6"
    using x by simp
  from round_to_precision_error [OF this, of 53]
  have q: "\<bar>q - x\<bar> \<le> 1 / 140737488355328"
    by (simp add: q_def double_of_def pow2_def)
  have "\<bar>42.5 + q\<bar> < 128"
    using x q by linarith
  then have "\<bar>42.5 + q\<bar> < 2 ^ Suc 6"
    by simp
  from round_to_precision_error [OF this, of 53]
  have y: "\<bar>y - (42.5 + q)\<bar> \<le> 1 / 140737488355328"
    by (simp add: y_def double_of_def pow2_def)
  have "\<bar>y\<bar> < 128"
    using x q y by linarith
  then have "\<bar>y\<bar> < 2 ^ Suc 6"
    by simp
  from round_to_precision_error [OF this, of 24]
  have f: "\<bar>float_of y - y\<bar> \<le> 1 / 262144"
    by (simp add: float_of_def pow2_def)
  have "\<bar>float_of y - (x + 42.5)\<bar> < 1 / 250000"
    using q y f by linarith
  then show ?thesis
    by (simp only: y_def q_def x_def)
qed

text \<open>
  Claim C5, as stated, fails for the temperature. The claim gives the published
  temperature as the sign-extended 16-bit value divided by 480, plus 42.5, formatted with
  two decimal places. The code stores the sum in a variable of type \<^verbatim>\<open>float\<close>, and the sum is
  not always a value of that type. For the block \<open>03 00 00 00 54 00\<close> the value of the claim
  is 42.675; the code passes the \<^verbatim>\<open>float\<close> next to it, \<open>11186995 / 2\<^sup>1\<^sup>8\<close>, which is smaller, to
  the format \<^verbatim>\<open>%.2f C\<close>. To two decimal places the two differ: 42.67 for what the code
  passes, 42.68 for the value of the claim.
\<close>

theorem SampleBarometer_temperature_counterexample:
  "trace (SampleBarometer (connected_system [2, 1, 1]
       [(1, [0]), (6, [3, 0, 0, 0, 0x54, 0])] [])) =
     [IicSend 0x5D [0x21, 0x01] XIIC_STOP,
      IicSend 0x5D [0x21] XIIC_REPEATED_START, IicRecv 0x5D 1 XIIC_STOP,
      IicSend 0x5D [0xA7] XIIC_REPEATED_START, IicRecv 0x5D 6 XIIC_STOP,
      MqttPublish ''/remote_io_module/sensor_value/Pressure''
        (length ''/remote_io_module/sensor_value/Pressure'') ''%.2f hPa'' [ArgFloat 0],
      MqttPublish ''/remote_io_module/sensor_value/Pressure_Sensor_Temp''
        (length ''/remote_io_module/sensor_value/Pressure_Sensor_Temp'') ''%.2f C''
        [ArgFloat (11186995 / 2 ^ 18)]]
   \<and> spec_temperature_C 0x54 0 = 42.675
   \<and> (11186995 / 2 ^ 18 :: real) < spec_temperature_C 0x54 0
   \<and> round (100 * (11186995 / 2 ^ 18 :: real)) = 4267
   \<and> round (100 * spec_temperature_C 0x54 0) = 4268"
proof -
  let ?W = "connected_system [2, 1, 1] [(1, [0]), (6, [3, 0, 0, 0, 0x54, 0])] []"
  have C: "float_of (real_of_int (sint (barometer_temperature_sqTmp [3, 0, 0, 0, 0x54, 0]))) = 84"
    "float_of (float_of (real_of_int (sint (barometer_pressure_sqTmp [3, 0, 0, 0, 0x54, 0])))
       / 4096.0) = 0"
    by (simp_all only: barometer_temperature_conversion barometer_pressure_exact)
       (simp_all add: spec_pressure_hPa_def twos_complement_def)
  have F: "float_of (double_of (42.5 + double_of (84 / 480.0))) = 11186995 / 2 ^ 18"
    by (simp add: float_defs Let_def)
  have R: "SampleBarometer ?W = ?W
     \<lparr>pcErr := ''ReadIicRegs(6@BAROMETER_REG_STATUS_REG) -> %08x'',
       eTopic := TOPIC_BAROMETER_STATUS,
       send_results := [], recv_results := [],
       trace := trace ?W
           @ [IicSend BAROMETER_SLAVE_ADDRESS
                [BAROMETER_REG_CTRL_REG2, BAROMETER_BFLD_ONE_SHOT] XIIC_STOP]
           @ concat (replicate (length ([] :: u8 list list))
               [IicSend BAROMETER_SLAVE_ADDRESS [BAROMETER_REG_CTRL_REG2] XIIC_REPEATED_START,
                IicRecv BAROMETER_SLAVE_ADDRESS 1 XIIC_STOP, TaskDelay (MS_TO_TICKS 1)])
           @ [IicSend BAROMETER_SLAVE_ADDRESS [BAROMETER_REG_CTRL_REG2] XIIC_REPEATED_START,
              IicRecv BAROMETER_SLAVE_ADDRESS 1 XIIC_STOP]
           @ concat (replicate (length ([] :: u8 list list))
               [IicSend BAROMETER_SLAVE_ADDRESS [BAROMETER_REG_STATUS_REG OR 0x80]
                  XIIC_REPEATED_START,
                IicRecv BAROMETER_SLAVE_ADDRESS 6 XIIC_STOP, TaskDelay (MS_TO_TICKS 1)])
           @ [IicSend BAROMETER_SLAVE_ADDRESS [BAROMETER_REG_STATUS_REG OR 0x80]
                XIIC_REPEATED_START,
              IicRecv BAROMETER_SLAVE_ADDRESS 6 XIIC_STOP,
              MqttPublish ''/remote_io_module/sensor_value/Pressure''
                (length ''/remote_io_module/sensor_value/Pressure'') ''%.2f hPa''
                [ArgFloat (float_of
                   (float_of (real_of_int (sint (barometer_pressure_sqTmp
                      [3, 0, 0, 0, 0x54, 0]))) / 4096.0))],
              MqttPublish ''/remote_io_module/sensor_value/Pressure_Sensor_Temp''
                (length ''/remote_io_module/sensor_value/Pressure_Sensor_Temp'') ''%.2f C''
                [ArgFloat (float_of (double_of (42.5 + double_of
                   (float_of (real_of_int (sint (barometer_temperature_sqTmp
                      [3, 0, 0, 0, 0x54, 0]))) / 480.0))))]]\<rparr>"
    by (rule SampleBarometer_run [where b = 0])
       (simp_all add: connected_system_def reg_defs)
  have T: "trace (SampleBarometer ?W) =
     [IicSend 0x5D [0x21, 0x01] XIIC_STOP,
      IicSend 0x5D [0x21] XIIC_REPEATED_START, IicRecv 0x5D 1 XIIC_STOP,
      IicSend 0x5D [0xA7] XIIC_REPEATED_START, IicRecv 0x5D 6 XIIC_STOP,
      MqttPublish ''/remote_io_module/sensor_value/Pressure''
        (length ''/remote_io_module/sensor_value/Pressure'') ''%.2f hPa'' [ArgFloat 0],
      MqttPublish ''/remote_io_module/sensor_value/Pressure_Sensor_Temp''
        (length ''/remote_io_module/sensor_value/Pressure_Sensor_Temp'') ''%.2f C''
        [ArgFloat (11186995 / 2 ^ 18)]]"
    unfolding R C F by (simp add: connected_system_def reg_defs)
  have S: "spec_temperature_C 0x54 0 = 42.675"
    by (simp add: spec_temperature_C_def twos_complement_def)
  have N: "(11186995 / 2 ^ 18 :: real) < 42.675"
    "round (100 * (11186995 / 2 ^ 18 :: real)) = 4267"
    "round (100 * (42.675 :: real)) = 4268"
    by (simp_all add: round_def)
  show ?thesis
    using T N by (simp only: S simp_thms)
qed

text \<open>
  Claim C5, amended. Take a run of \<^verbatim>\<open>SampleBarometer\<close> on a healthy bus, with a broker
  handle and a broker that accepts what is published, in which the one-shot bit is seen
  clear and then both data-ready bits are seen set, each before the last round of its
  loop, and let \<open>s, xl, l, h, t_l, t_h\<close> be the block read at the status register. The run
  publishes the pressure with the format \<^verbatim>\<open>%.2f hPa\<close> and exactly the value of the
  specification (24-bit little-endian, sign-extended from bit 23, divided by 4096), and
  then the temperature with the format \<^verbatim>\<open>%.2f C\<close> and the single-precision value of the
  double-precision sum of 42.5 and the quotient by 480 of the 16-bit little-endian value,
  sign-extended from bit 15. The temperature that is published differs from the value of
  the specification by less than 0.000004. These two publishes are all that the run
  publishes.
\<close>

theorem SampleBarometer_decodes:
  assumes rc: "rc w = XST_SUCCESS"
    and sends: "send_results w =
         2 # replicate (length bs1) 1 @ 1 # replicate (length bs2) 1 @ 1 # ss"
    and recvs: "recv_results w =
         map (\<lambda>x. (1, x)) bs1 @ (1, [b]) # map (\<lambda>x. (6, x)) bs2
           @ (6, [s, xl, l, h, t_l, t_h]) # rs"
    and busy1: "\<forall>x\<in>set bs1. length x = 1 \<and> (x ! 0) AND BAROMETER_BFLD_ONE_SHOT \<noteq> 0"
    and done1: "b AND BAROMETER_BFLD_ONE_SHOT = 0"
    and busy2: "\<forall>x\<in>set bs2. length x = 6
                  \<and> (x ! 0) AND (BAROMETER_BFLD_P_DA OR BAROMETER_BFLD_T_DA)
                      \<noteq> BAROMETER_BFLD_P_DA OR BAROMETER_BFLD_T_DA"
    and done2: "s AND (BAROMETER_BFLD_P_DA OR BAROMETER_BFLD_T_DA)
                  = BAROMETER_BFLD_P_DA OR BAROMETER_BFLD_T_DA"
    and n1: "length bs1 < 49" and n2: "length bs2 < 49"
    and broker: "xMQTTHandle w \<noteq> None" "publish_results w = []"
  shows "SampleBarometer w =
     w\<lparr>pcErr := ''ReadIicRegs(6@BAROMETER_REG_STATUS_REG) -> %08x'',
       eTopic := TOPIC_BAROMETER_STATUS,
       send_results := ss, recv_results := rs,
       trace := trace w
           @ [IicSend BAROMETER_SLAVE_ADDRESS
                [BAROMETER_REG_CTRL_REG2, BAROMETER_BFLD_ONE_SHOT] XIIC_STOP]
           @ concat (replicate (length bs1)
               [IicSend BAROMETER_SLAVE_ADDRESS [BAROMETER_REG_CTRL_REG2] XIIC_REPEATED_START,
                IicRecv BAROMETER_SLAVE_ADDRESS 1 XIIC_STOP, TaskDelay (MS_TO_TICKS 1)])
           @ [IicSend BAROMETER_SLAVE_ADDRESS [BAROMETER_REG_CTRL_REG2] XIIC_REPEATED_START,
              IicRecv BAROMETER_SLAVE_ADDRESS 1 XIIC_STOP]
           @ concat (replicate (length bs2)
               [IicSend BAROMETER_SLAVE_ADDRESS [BAROMETER_REG_STATUS_REG OR 0x80]
                  XIIC_REPEATED_START,
                IicRecv BAROMETER_SLAVE_ADDRESS 6 XIIC_STOP, TaskDelay (MS_TO_TICKS 1)])
           @ [IicSend BAROMETER_SLAVE_ADDRESS [BAROMETER_REG_STATUS_REG OR 0x80]
                XIIC_REPEATED_START,
              IicRecv BAROMETER_SLAVE_ADDRESS 6 XIIC_STOP,
              MqttPublish ''/remote_io_module/sensor_value/Pressure''
                (length ''/remote_io_module/sensor_value/Pressure'') ''%.2f hPa''
                [ArgFloat (spec_pressure_hPa xl l h)],
              MqttPublish ''/remote_io_module/sensor_value/Pressure_Sensor_Temp''
                (length ''/remote_io_module/sensor_value/Pressure_Sensor_Temp'') ''%.2f C''
                [ArgFloat (float_of (double_of (42.5 + double_of
                   (real_of_int (twos_complement 16 (uint t_l + 2 ^ 8 * uint t_h)) / 480))))]]\<rparr>
   \<and> \<bar>float_of (double_of (42.5 + double_of
          (real_of_int (twos_complement 16 (uint t_l + 2 ^ 8 * uint t_h)) / 480)))
        - spec_temperature_C t_l t_h\<bar> < 1 / 250000"
proof -
  have R: "SampleBarometer w =
     w\<lparr>pcErr := ''ReadIicRegs(6@BAROMETER_REG_STATUS_REG) -> %08x'',
       eTopic := TOPIC_BAROMETER_STATUS,
       send_results := ss, recv_results := rs,
       trace := trace w
           @ [IicSend BAROMETER_SLAVE_ADDRESS
                [BAROMETER_REG_CTRL_REG2, BAROMETER_BFLD_ONE_SHOT] XIIC_STOP]
           @ concat (replicate (length bs1)
               [IicSend BAROMETER_SLAVE_ADDRESS [BAROMETER_REG_CTRL_REG2] XIIC_REPEATED_START,
                IicRecv BAROMETER_SLAVE_ADDRESS 1 XIIC_STOP, TaskDelay (MS_TO_TICKS 1)])
           @ [IicSend BAROMETER_SLAVE_ADDRESS [BAROMETER_REG_CTRL_REG2] XIIC_REPEATED_START,
              IicRecv BAROMETER_SLAVE_ADDRESS 1 XIIC_STOP]
           @ concat (replicate (length bs2)
               [IicSend BAROMETER_SLAVE_ADDRESS [BAROMETER_REG_STATUS_REG OR 0x80]
                  XIIC_REPEATED_START,
                IicRecv BAROMETER_SLAVE_ADDRESS 6 XIIC_STOP, TaskDelay (MS_TO_TICKS 1)])
           @ [IicSend BAROMETER_SLAVE_ADDRESS [BAROMETER_REG_STATUS_REG OR 0x80]
                XIIC_REPEATED_START,
              IicRecv BAROMETER_SLAVE_ADDRESS 6 XIIC_STOP,
              MqttPublish ''/remote_io_module/sensor_value/Pressure''
                (length ''/remote_io_module/sensor_value/Pressure'') ''%.2f hPa''
                [ArgFloat (float_of
                   (float_of (real_of_int (sint (barometer_pressure_sqTmp
                      [s, xl, l, h, t_l, t_h]))) / 4096.0))],
              MqttPublish ''/remote_io_module/sensor_value/Pressure_Sensor_Temp''
                (length ''/remote_io_module/sensor_value/Pressure_Sensor_Temp'') ''%.2f C''
                [ArgFloat (float_of (double_of (42.5 + double_of
                   (float_of (real_of_int (sint (barometer_temperature_sqTmp
                      [s, xl, l, h, t_l, t_h]))) / 480.0))))]]\<rparr>"
    using assms by (rule SampleBarometer_run)
  have v: "0 \<le> uint t_l + 2 ^ 8 * uint t_h" "uint t_l + 2 ^ 8 * uint t_h < 2 ^ Suc 15"
    using uint_lt2p [of t_l] uint_lt2p [of t_h] by simp_all
  have E: "\<bar>float_of (double_of (42.5 + double_of
          (real_of_int (twos_complement 16 (uint t_l + 2 ^ 8 * uint t_h)) / 480)))
        - spec_temperature_C t_l t_h\<bar> < 1 / 250000"
    unfolding spec_temperature_C_def
    using twos_complement_bounds [OF v] by (intro barometer_temperature_error) simp_all
  show ?thesis
    unfolding R barometer_pressure_exact barometer_temperature_conversion
    using E by simp
qed

text \<open>
  A run of the theorem: the one-shot bit is clear at the second read, the data is ready at
  the second read of the block, and the block holds the pressure bytes \<open>00 00 80\<close> (the most
  negative value, \<open>-2048\<close> hPa) and the temperature bytes \<open>0C 00\<close> (12, that is 42.525
  degrees, for which the \<^verbatim>\<open>float\<close> is \<open>11147674 / 2\<^sup>1\<^sup>8\<close>, a little more).
\<close>

theorem SampleBarometer_decodes_witness:
  "trace (SampleBarometer (connected_system [2, 1, 1, 1, 1]
       [(1, [1]), (1, [0]), (6, [0, 0, 0, 0, 0, 0]), (6, [3, 0, 0, 0x80, 0x0C, 0])] [])) =
     [IicSend 0x5D [0x21, 0x01] XIIC_STOP,
      IicSend 0x5D [0x21] XIIC_REPEATED_START, IicRecv 0x5D 1 XIIC_STOP, TaskDelay 1,
      IicSend 0x5D [0x21] XIIC_REPEATED_START, IicRecv 0x5D 1 XIIC_STOP,
      IicSend 0x5D [0xA7] XIIC_REPEATED_START, IicRecv 0x5D 6 XIIC_STOP, TaskDelay 1,
      IicSend 0x5D [0xA7] XIIC_REPEATED_START, IicRecv 0x5D 6 XIIC_STOP,
      MqttPublish ''/remote_io_module/sensor_value/Pressure''
        (length ''/remote_io_module/sensor_value/Pressure'') ''%.2f hPa'' [ArgFloat (- 2048)],
      MqttPublish ''/remote_io_module/sensor_value/Pressure_Sensor_Temp''
        (length ''/remote_io_module/sensor_value/Pressure_Sensor_Temp'') ''%.2f C''
        [ArgFloat (11147674 / 2 ^ 18)]]
   \<and> \<bar>11147674 / 2 ^ 18 - spec_temperature_C 0x0C 0\<bar> < (1 / 250000 :: real)"
  using SampleBarometer_decodes [of
      "connected_system [2, 1, 1, 1, 1]
         [(1, [1]), (1, [0]), (6, [0, 0, 0, 0, 0, 0]), (6, [3, 0, 0, 0x80, 0x0C, 0])] []"
      "[[1]]" "[[0, 0, 0, 0, 0, 0]]" "[]" 0 3 0 0 "0x80" "0x0C" "0" "[]"]
  by (simp add: connected_system_def reg_defs tick_defs spec_pressure_hPa_def
      spec_temperature_C_def twos_complement_def float_defs)

subsection \<open>Thermocouple: fault bits and temperature fields\<close>

lemma bit_0x80: "bit (0x80::u32) n \<longleftrightarrow> n = 7"
proof -
  have "(0x80::u32) = push_bit 7 1" by simp
  then show ?thesis by (simp only: bit_simps) auto
qed

lemma and_0x80: "((x::u32) AND 0x80 = 0x80) = bit x 7"
proof
  assume "x AND 0x80 = 0x80"
  then have "bit (x AND 0x80) 7 = bit (0x80::u32) 7" by simp
  then show "bit x 7" by (simp add: bit_and_iff bit_0x80)
next
  assume *: "bit x 7"
  show "x AND 0x80 = 0x80"
  proof (rule bit_word_eqI)
    fix n assume "n < LENGTH(32)"
    show "bit (x AND 0x80) n = bit (0x80::u32) n"
      unfolding bit_and_iff bit_0x80 using * by blast
  qed
qed

lemma signed_drop_bit_byte: "signed_drop_bit n (ucast (b::u8) :: u32) = drop_bit n (ucast b)"
  by (intro bit_word_eqI)
     (auto simp: bit_signed_drop_bit_iff bit_drop_bit_eq bit_ucast_iff dest: bit_imp_le_length)

text \<open>
  The value of each field, for receive words that are bytes: the two's complement reading
  of the 12 and of the 14 bits that the two shifts assemble.
\<close>

lemma uint_less_of_bits:
  fixes v :: u32
  assumes "\<And>n. bit v n \<Longrightarrow> n < k"
  shows "uint v < 2 ^ k"
proof -
  have "take_bit k v = v"
  proof (rule bit_word_eqI)
    fix n assume "n < LENGTH(32)"
    show "bit (take_bit k v) n = bit v n"
      using assms [of n] by (auto simp: bit_take_bit_iff)
  qed
  then have "v AND mask k = v"
    by (simp add: take_bit_eq_mask)
  then show ?thesis
    by (simp only: mask_eq_iff)
qed

lemma field_bits:
  fixes msb nxt :: u8
  assumes "bit (push_bit s (ucast msb) OR drop_bit d (ucast nxt) :: u32) n"
  shows "n < s + 8"
proof -
  from assms have "bit (push_bit s (ucast msb) :: u32) n \<or> bit (drop_bit d (ucast nxt) :: u32) n"
    by (simp only: bit_or_iff)
  then show ?thesis
  proof
    assume "bit (push_bit s (ucast msb) :: u32) n"
    then have "s \<le> n" and "bit msb (n - s)"
      by (simp_all add: bit_push_bit_iff bit_ucast_iff)
    then show ?thesis
      using bit_imp_le_length [of msb "n - s"] by simp
  next
    assume "bit (drop_bit d (ucast nxt) :: u32) n"
    then have "bit nxt (d + n)"
      by (simp add: bit_drop_bit_eq bit_ucast_iff)
    then show ?thesis
      using bit_imp_le_length [of nxt "d + n"] by simp
  qed
qed

lemma field_top_bit:
  fixes msb nxt :: u8
  assumes "s + 7 < 32" and "8 \<le> d + s + 7"
  shows "bit (push_bit s (ucast msb) OR drop_bit d (ucast nxt) :: u32) (s + 7)
           = bit (ucast msb :: u32) 7"
proof -
  have "\<not> bit (drop_bit d (ucast nxt) :: u32) (s + 7)"
  proof
    assume "bit (drop_bit d (ucast nxt) :: u32) (s + 7)"
    then have "bit nxt (d + (s + 7))"
      by (simp add: bit_drop_bit_eq bit_ucast_iff)
    then show False
      using bit_imp_le_length [of nxt "d + (s + 7)"] assms(2) by simp
  qed
  moreover have "bit (push_bit s (ucast msb) :: u32) (s + 7) = bit (ucast msb :: u32) 7"
    using assms(1) by (simp add: bit_push_bit_iff)
  ultimately show ?thesis
    by (simp only: bit_or_iff) simp
qed

lemma internal_sint:
  fixes b0 b1 b2 b3 :: u8
  shows "sint (internal_sqTemporaryValue (map ucast [b0, b1, b2, b3]))
           = twos_complement 12 (uint (push_bit 4 (ucast b2) OR drop_bit 4 (ucast b3) :: u32))"
    and "uint (push_bit 4 (ucast b2) OR drop_bit 4 (ucast b3) :: u32) < 2 ^ 12"
proof -
  define v :: u32 where "v = push_bit 4 (ucast b2) OR drop_bit 4 (ucast b3)"
  have u: "uint v < 2 ^ 12"
  proof (rule uint_less_of_bits)
    fix n assume "bit v n"
    then show "n < 12"
      unfolding v_def using field_bits [of 4 b2 4 b3 n] by simp
  qed
  have b: "bit v 11 = bit (ucast b2 :: u32) 7"
    unfolding v_def using field_top_bit [of 4 4 b2 b3] by simp
  have m: "(0xFFFFF800 :: u32) = NOT (mask 11)"
    by (simp add: mask_eq_exp_minus_1 not_eq_complement)
  have "internal_sqTemporaryValue (map ucast [b0, b1, b2, b3]) =
          (if bit v 11 then v OR NOT (mask 11) else v)"
    by (simp add: internal_sqTemporaryValue_def Let_def and_0x80 signed_drop_bit_byte
        flip: v_def) (simp add: b m)
  then have "sint (internal_sqTemporaryValue (map ucast [b0, b1, b2, b3]))
           = twos_complement 12 (uint v)"
    using sign_extend [of 11 v] u by simp
  then show "sint (internal_sqTemporaryValue (map ucast [b0, b1, b2, b3]))
           = twos_complement 12 (uint (push_bit 4 (ucast b2) OR drop_bit 4 (ucast b3) :: u32))"
    by (simp only: v_def)
  show "uint (push_bit 4 (ucast b2) OR drop_bit 4 (ucast b3) :: u32) < 2 ^ 12"
    using u by (simp only: v_def)
qed

lemma thermocouple_sint:
  fixes b0 b1 b2 b3 :: u8
  shows "sint (thermocouple_sqTemporaryValue (map ucast [b0, b1, b2, b3]))
           = twos_complement 14 (uint (push_bit 6 (ucast b0) OR drop_bit 2 (ucast b1) :: u32))"
    and "uint (push_bit 6 (ucast b0) OR drop_bit 2 (ucast b1) :: u32) < 2 ^ 14"
proof -
  define v :: u32 where "v = push_bit 6 (ucast b0) OR drop_bit 2 (ucast b1)"
  have u: "uint v < 2 ^ 14"
  proof (rule uint_less_of_bits)
    fix n assume "bit v n"
    then show "n < 14"
      unfolding v_def using field_bits [of 6 b0 2 b1 n] by simp
  qed
  have b: "bit v 13 = bit (ucast b0 :: u32) 7"
    unfolding v_def using field_top_bit [of 6 2 b0 b1] by simp
  have m: "(0xFFFFE000 :: u32) = NOT (mask 13)"
    by (simp add: mask_eq_exp_minus_1 not_eq_complement)
  have "thermocouple_sqTemporaryValue (map ucast [b0, b1, b2, b3]) =
          (if bit v 13 then v OR NOT (mask 13) else v)"
    by (simp add: thermocouple_sqTemporaryValue_def Let_def and_0x80 signed_drop_bit_byte
        flip: v_def) (simp add: b m)
  then have "sint (thermocouple_sqTemporaryValue (map ucast [b0, b1, b2, b3]))
           = twos_complement 14 (uint v)"
    using sign_extend [of 13 v] u by simp
  then show "sint (thermocouple_sqTemporaryValue (map ucast [b0, b1, b2, b3]))
           = twos_complement 14 (uint (push_bit 6 (ucast b0) OR drop_bit 2 (ucast b1) :: u32))"
    by (simp only: v_def)
  show "uint (push_bit 6 (ucast b0) OR drop_bit 2 (ucast b1) :: u32) < 2 ^ 14"
    using u by (simp only: v_def)
qed

text \<open>
  For the bytes that the controller hands out, neither the conversion nor the division
  rounds: the fields have 12 and 14 bits.
\<close>

lemma thermocouple_floats_exact:
  fixes b0 b1 b2 b3 :: u8
  shows "float_of (float_of (real_of_int (sint (internal_sqTemporaryValue
            (map ucast [b0, b1, b2, b3])))) / 16.0)
         = real_of_int (sint (internal_sqTemporaryValue (map ucast [b0, b1, b2, b3]))) / 16"
    and "float_of (float_of (real_of_int (sint (thermocouple_sqTemporaryValue
            (map ucast [b0, b1, b2, b3])))) / 4.0)
         = real_of_int (sint (thermocouple_sqTemporaryValue (map ucast [b0, b1, b2, b3]))) / 4"
proof -
  define i where "i = sint (internal_sqTemporaryValue (map ucast [b0, b1, b2, b3]))"
  define t where "t = sint (thermocouple_sqTemporaryValue (map ucast [b0, b1, b2, b3]))"
  have i: "- (2 ^ 11) \<le> i" "i < 2 ^ 11"
    unfolding i_def internal_sint(1)
    using twos_complement_bounds [of "uint (push_bit 4 (ucast b2) OR drop_bit 4 (ucast b3) :: u32)" 11]
      internal_sint(2) [of b2 b3]
    by simp_all
  have t: "- (2 ^ 13) \<le> t" "t < 2 ^ 13"
    unfolding t_def thermocouple_sint(1)
    using twos_complement_bounds [of "uint (push_bit 6 (ucast b0) OR drop_bit 2 (ucast b1) :: u32)" 13]
      thermocouple_sint(2) [of b0 b1]
    by simp_all
  have "float_of (float_of (real_of_int i) / 2 ^ 4) = real_of_int i / 2 ^ 4"
    using i by (intro float_of_quotient_exact [where k = 11]) simp_all
  then show "float_of (float_of (real_of_int (sint (internal_sqTemporaryValue
            (map ucast [b0, b1, b2, b3])))) / 16.0)
         = real_of_int (sint (internal_sqTemporaryValue (map ucast [b0, b1, b2, b3]))) / 16"
    by (simp add: i_def)
  have "float_of (float_of (real_of_int t) / 2 ^ 2) = real_of_int t / 2 ^ 2"
    using t by (intro float_of_quotient_exact [where k = 13]) simp_all
  then show "float_of (float_of (real_of_int (sint (thermocouple_sqTemporaryValue
            (map ucast [b0, b1, b2, b3])))) / 4.0)
         = real_of_int (sint (thermocouple_sqTemporaryValue (map ucast [b0, b1, b2, b3]))) / 4"
    by (simp add: t_def)
qed

lemmas spi_defs = XSpi_LowLevelExecute_def XSpi_wait_tx_empty.simps XSpi_wait_rfo.simps
  XSpi_drain_rx.simps XSpi_ReadReg_def XSpi_WriteReg_def store_rx_def emit_def vTaskDelay_def
  XSP_SR_TX_EMPTY_MASK_def XSP_SR_RX_EMPTY_MASK_def Let_def

text \<open>
  Claim C6. When the framed transfer of \<^verbatim>\<open>SamplePLTempSensor\<close> comes back with success and
  the receive buffer \<open>rx\<close>, to a system with a broker handle and a broker that accepts what
  is published, the fault bits are looked at in the order open circuit (word 3 bit 0),
  short to ground (word 3 bit 1), short to supply (word 3 bit 2), generic fault (word 1
  bit 0). The first bit that is set decides: the sample adds one event to the trace, the
  publish of the text of that bit on the thermocouple status topic, and no temperature is
  published. When none of the four bits is set, and only then, the sample adds the
  publish of the board temperature and the publish of the thermocouple temperature, and
  nothing on the status topic. Nothing but the trace differs from the state that the
  transfer left.
\<close>

theorem thermocouple_fault_order:
  assumes "XSpi_LowLevelExecute PL_SPI_CHANNEL_SEL_0 4 [0, 0, 0, 0] [NOT 0, NOT 0, NOT 0, NOT 0]
             (w\<lparr>eTopic := TOPIC_THERMOCOUPLE_STATUS\<rparr>) = Some (rx, w1)"
    and "rc w1 = XST_SUCCESS"
    and "xMQTTHandle w1 \<noteq> None"
    and "publish_results w1 = []"
  shows "SamplePLTempSensor w = Some
     (w1\<lparr>trace := trace w1 @
        (if bit (rx ! 3) 0 then
           [MqttPublish ''/remote_io_module/sensor_status/MAX31855_Error''
              (length ''/remote_io_module/sensor_status/MAX31855_Error'') ''Open Circuit'' []]
         else if bit (rx ! 3) 1 then
           [MqttPublish ''/remote_io_module/sensor_status/MAX31855_Error''
              (length ''/remote_io_module/sensor_status/MAX31855_Error'') ''Short to GND'' []]
         else if bit (rx ! 3) 2 then
           [MqttPublish ''/remote_io_module/sensor_status/MAX31855_Error''
              (length ''/remote_io_module/sensor_status/MAX31855_Error'') ''Short to VCC'' []]
         else if bit (rx ! 1) 0 then
           [MqttPublish ''/remote_io_module/sensor_status/MAX31855_Error''
              (length ''/remote_io_module/sensor_status/MAX31855_Error'') ''Fault'' []]
         else
           [MqttPublish ''/remote_io_module/sensor_value/Board_Temp_1''
              (length ''/remote_io_module/sensor_value/Board_Temp_1'') ''%.1f C''
              [ArgFloat (fMAX31855_internal_temp rx)],
            MqttPublish ''/remote_io_module/sensor_value/Thermocouple_Temp''
              (length ''/remote_io_module/sensor_value/Thermocouple_Temp'') ''%.1f C''
              [ArgFloat (fMAX31855_thermocouple_temp rx)]])\<rparr>)"
proof -
  have b0: "\<And>x::u32. (x AND 1 \<noteq> 0) = bit x 0"
    using bit_iff_and_push_bit_not_eq_0 [where n = 0 and 'a = u32] by simp
  have b1: "\<And>x::u32. (x AND 2 \<noteq> 0) = bit x 1"
    using bit_iff_and_push_bit_not_eq_0 [where n = 1 and 'a = u32] by simp
  have b2: "\<And>x::u32. (x AND 4 \<noteq> 0) = bit x 2"
    using bit_iff_and_push_bit_not_eq_0 [where n = 2 and 'a = u32] by simp
  have R: "SamplePLTempSensor w = Some (SamplePLTempSensor_report rx w1)"
    using assms(1) by (simp add: SamplePLTempSensor_def)
  have S: "SamplePLTempSensor_report rx w1 =
     (if bit (rx ! 3) 0 then
        prvPublishTopic TOPIC_THERMOCOUPLE_STATUS ''Open Circuit'' [] w1
      else if bit (rx ! 3) 1 then
        prvPublishTopic TOPIC_THERMOCOUPLE_STATUS ''Short to GND'' [] w1
      else if bit (rx ! 3) 2 then
        prvPublishTopic TOPIC_THERMOCOUPLE_STATUS ''Short to VCC'' [] w1
      else if bit (rx ! 1) 0 then
        prvPublishTopic TOPIC_THERMOCOUPLE_STATUS ''Fault'' [] w1
      else
        prvPublishTopic TOPIC_THERMOCOUPLE_TEMPERATURE ''%.1f C''
          [ArgFloat (fMAX31855_thermocouple_temp rx)]
          (prvPublishTopic TOPIC_THERMOCOUPLE_BOARD_TEMPERATURE ''%.1f C''
             [ArgFloat (fMAX31855_internal_temp rx)] w1))"
    using assms(2) by (simp add: SamplePLTempSensor_report_def b0 b1 b2)
  have P1: "\<And>t. prvPublishTopic TOPIC_THERMOCOUPLE_STATUS t [] w1 =
      w1\<lparr>trace := trace w1 @ [MqttPublish ''/remote_io_module/sensor_status/MAX31855_Error''
              (length ''/remote_io_module/sensor_status/MAX31855_Error'') t []]\<rparr>"
    using assms(3,4) by (rule prvPublishTopic_accepted)
  define w2 where "w2 = w1\<lparr>trace := trace w1 @ [MqttPublish ''/remote_io_module/sensor_value/Board_Temp_1''
              (length ''/remote_io_module/sensor_value/Board_Temp_1'') ''%.1f C''
              [ArgFloat (fMAX31855_internal_temp rx)]]\<rparr>"
  have P2: "prvPublishTopic TOPIC_THERMOCOUPLE_BOARD_TEMPERATURE ''%.1f C''
             [ArgFloat (fMAX31855_internal_temp rx)] w1 = w2"
    unfolding w2_def using assms(3,4) by (rule prvPublishTopic_accepted)
  have w2: "xMQTTHandle w2 \<noteq> None" "publish_results w2 = []"
    using assms(3,4) by (simp_all add: w2_def)
  have P3: "prvPublishTopic TOPIC_THERMOCOUPLE_TEMPERATURE ''%.1f C''
          [ArgFloat (fMAX31855_thermocouple_temp rx)] w2 =
      w2\<lparr>trace := trace w2 @ [MqttPublish ''/remote_io_module/sensor_value/Thermocouple_Temp''
              (length ''/remote_io_module/sensor_value/Thermocouple_Temp'') ''%.1f C''
              [ArgFloat (fMAX31855_thermocouple_temp rx)]]\<rparr>"
    using w2 by (rule prvPublishTopic_accepted)
  show ?thesis
    unfolding R S P1 P2 P3 by (simp add: w2_def)
qed

text \<open>
  A run of the theorem: the controller reports the transmit FIFO empty, four words
  received, and hands out the words \<open>01 91 19 07\<close>, in which all four fault bits are set.
  The transfer succeeds, and the sample ends with the publish of \<open>Open Circuit\<close> on the
  status topic: the one publish of the trace.
\<close>

theorem thermocouple_fault_order_witness:
  "SamplePLTempSensor (connected_system [] [] [4, 3, 0, 0x01, 0, 0x91, 0, 0x19, 0, 0x07, 1]) =
     Some ((connected_system [] [] [])
       \<lparr>eTopic := TOPIC_THERMOCOUPLE_STATUS,
        trace := [SpiWrite XSP_DTR_OFFSET 0, SpiWrite XSP_DTR_OFFSET 0,
                  SpiWrite XSP_DTR_OFFSET 0, SpiWrite XSP_DTR_OFFSET 0,
                  SpiWrite XSP_SSR_OFFSET PL_SPI_CHANNEL_SEL_0, TaskDelay 1,
                  SpiWrite XSP_CR_OFFSET MAX31855_CR_UNINHIBIT_MODE,
                  SpiRead XSP_SR_OFFSET 4, SpiRead XSP_RFO_OFFSET 3,
                  SpiRead XSP_SR_OFFSET 0, SpiRead XSP_DRR_OFFSET 0x01,
                  SpiRead XSP_SR_OFFSET 0, SpiRead XSP_DRR_OFFSET 0x91,
                  SpiRead XSP_SR_OFFSET 0, SpiRead XSP_DRR_OFFSET 0x19,
                  SpiRead XSP_SR_OFFSET 0, SpiRead XSP_DRR_OFFSET 0x07,
                  SpiRead XSP_SR_OFFSET 1,
                  SpiWrite XSP_CR_OFFSET MAX31855_CR_INIT_MODE,
                  SpiWrite XSP_SSR_OFFSET PL_SPI_CHANNEL_SEL_NONE,
                  MqttPublish ''/remote_io_module/sensor_status/MAX31855_Error''
                    (length ''/remote_io_module/sensor_status/MAX31855_Error'')
                    ''Open Circuit'' []]\<rparr>)"
proof -
  define w1 where "w1 = (connected_system [] [] [])
       \<lparr>eTopic := TOPIC_THERMOCOUPLE_STATUS,
        trace := [SpiWrite XSP_DTR_OFFSET 0, SpiWrite XSP_DTR_OFFSET 0,
                  SpiWrite XSP_DTR_OFFSET 0, SpiWrite XSP_DTR_OFFSET 0,
                  SpiWrite XSP_SSR_OFFSET PL_SPI_CHANNEL_SEL_0, TaskDelay 1,
                  SpiWrite XSP_CR_OFFSET MAX31855_CR_UNINHIBIT_MODE,
                  SpiRead XSP_SR_OFFSET 4, SpiRead XSP_RFO_OFFSET 3,
                  SpiRead XSP_SR_OFFSET 0, SpiRead XSP_DRR_OFFSET 0x01,
                  SpiRead XSP_SR_OFFSET 0, SpiRead XSP_DRR_OFFSET 0x91,
                  SpiRead XSP_SR_OFFSET 0, SpiRead XSP_DRR_OFFSET 0x19,
                  SpiRead XSP_SR_OFFSET 0, SpiRead XSP_DRR_OFFSET 0x07,
                  SpiRead XSP_SR_OFFSET 1,
                  SpiWrite XSP_CR_OFFSET MAX31855_CR_INIT_MODE,
                  SpiWrite XSP_SSR_OFFSET PL_SPI_CHANNEL_SEL_NONE]\<rparr>"
  have E: "XSpi_LowLevelExecute PL_SPI_CHANNEL_SEL_0 4 [0, 0, 0, 0]
           [NOT 0, NOT 0, NOT 0, NOT 0]
           ((connected_system [] [] [4, 3, 0, 0x01, 0, 0x91, 0, 0x19, 0, 0x07, 1])
              \<lparr>eTopic := TOPIC_THERMOCOUPLE_STATUS\<rparr>) = Some ([0x01, 0x91, 0x19, 0x07], w1)"
    by (simp add: w1_def spi_defs connected_system_def MS_TO_TICKS_def pdMS_TO_TICKS_def
        configTICK_RATE_HZ_def)
  have R: "rc w1 = XST_SUCCESS" and H: "xMQTTHandle w1 \<noteq> None"
    and P: "publish_results w1 = []"
    by (simp_all add: w1_def connected_system_def)
  show ?thesis
    using thermocouple_fault_order [OF E R H P] by (simp add: w1_def)
qed

text \<open>
  Claim C7, as stated, fails for the thermocouple field. The claim shifts the most
  significant byte left by the number of fractional bits of the field, which is 2 for the
  thermocouple field (its denominator is 4). The code shifts it by 6. For the receive
  bytes \<open>01 00 00 00\<close> the code assembles 64 and publishes 16 degrees; the rule of the claim
  gives 4, which would be 1 degree.
\<close>

theorem thermocouple_shift_counterexample:
  "thermocouple_sqTemporaryValue (map ucast [1, 0, 0, 0 :: u8]) = 64
   \<and> fMAX31855_thermocouple_temp (map ucast [1, 0, 0, 0 :: u8]) = 16
   \<and> field_raw 2 2 0xFFFFE000 (ucast (1 :: u8)) (ucast (0 :: u8)) = 4
   \<and> thermocouple_sqTemporaryValue (map ucast [1, 0, 0, 0 :: u8])
       \<noteq> field_raw 2 2 0xFFFFE000 (ucast (1 :: u8)) (ucast (0 :: u8))"
  by (simp add: thermocouple_sqTemporaryValue_def fMAX31855_thermocouple_temp_def field_raw_def
      Let_def float_defs)

text \<open>
  Claim C7, amended. Both fields are assembled by shifting the most significant byte left
  by the number of bits of the field that the next byte holds (4 for the 12-bit internal
  field, 6 for the 14-bit thermocouple field), joining the next byte shifted right by the
  number of its low bits that do not belong to the field (4 and 2), and joining the
  sign-extension mask (\<^verbatim>\<open>0xFFFFF800\<close> and \<^verbatim>\<open>0xFFFFE000\<close>) exactly when bit 7 of the most
  significant byte is set; the value is divided by 16 and by 4. For the receive bytes
  \<open>00 00 64 00\<close> the internal field is 1600 and the temperature 1600/16.
\<close>

theorem thermocouple_fields_reconstruction:
  "internal_sqTemporaryValue (map ucast [b0, b1, b2, b3 :: u8])
     = field_raw 4 4 0xFFFFF800 (ucast b2) (ucast b3)
   \<and> fMAX31855_internal_temp (map ucast [b0, b1, b2, b3])
     = real_of_int (sint (field_raw 4 4 0xFFFFF800 (ucast b2) (ucast b3))) / 16
   \<and> thermocouple_sqTemporaryValue (map ucast [b0, b1, b2, b3])
     = field_raw 6 2 0xFFFFE000 (ucast b0) (ucast b1)
   \<and> fMAX31855_thermocouple_temp (map ucast [b0, b1, b2, b3])
     = real_of_int (sint (field_raw 6 2 0xFFFFE000 (ucast b0) (ucast b1))) / 4
   \<and> internal_sqTemporaryValue (map ucast [0, 0, 0x64, 0 :: u8]) = 1600
   \<and> fMAX31855_internal_temp (map ucast [0, 0, 0x64, 0 :: u8]) = 1600 / 16"
proof -
  have I: "internal_sqTemporaryValue (map ucast [b0, b1, b2, b3])
             = field_raw 4 4 0xFFFFF800 (ucast b2) (ucast b3)"
    by (simp add: internal_sqTemporaryValue_def field_raw_def Let_def and_0x80
        signed_drop_bit_byte or.assoc)
  have T: "thermocouple_sqTemporaryValue (map ucast [b0, b1, b2, b3])
             = field_raw 6 2 0xFFFFE000 (ucast b0) (ucast b1)"
    by (simp add: thermocouple_sqTemporaryValue_def field_raw_def Let_def and_0x80
        signed_drop_bit_byte or.assoc)
  have E: "internal_sqTemporaryValue (map ucast [0, 0, 0x64, 0 :: u8]) = 1600"
    by (simp add: internal_sqTemporaryValue_def Let_def)
  have FI: "fMAX31855_internal_temp (map ucast [c0, c1, c2, c3])
      = real_of_int (sint (internal_sqTemporaryValue (map ucast [c0, c1, c2, c3]))) / 16"
    for c0 c1 c2 c3 :: u8
    unfolding fMAX31855_internal_temp_def by (rule thermocouple_floats_exact)
  have FT: "fMAX31855_thermocouple_temp (map ucast [c0, c1, c2, c3])
      = real_of_int (sint (thermocouple_sqTemporaryValue (map ucast [c0, c1, c2, c3]))) / 4"
    for c0 c1 c2 c3 :: u8
    unfolding fMAX31855_thermocouple_temp_def by (rule thermocouple_floats_exact)
  show ?thesis
    using I T E
    by (simp only: FI FT) simp
qed

subsection \<open>Starting the sensors on a healthy bus\<close>

text \<open>
  The lemmas of this subsection run \<^verbatim>\<open>StartBarometer\<close> and \<^verbatim>\<open>StartHygrometer\<close> against a bus
  on which every transfer moves the number of bytes asked for. The answers of the chips
  are left open: \<open>sw\<close> and \<open>bo\<close> are the busy answers to the polls of the reset bit and of
  the boot bit, in the order in which they are read.
\<close>

lemma MAY_DIE_ok: "rc w = XST_SUCCESS \<Longrightarrow> MAY_DIE w = Inr w"
  by (simp add: MAY_DIE_def)

lemma MAY_DIE_die:
  "rc w \<noteq> XST_SUCCESS \<Longrightarrow>
     MAY_DIE w = Inl (prvPublishTopic (eTopic w) (pcErr w) [ArgInt (rc w)] w)"
  by (simp add: MAY_DIE_def)

text \<open>
  \<^verbatim>\<open>StartBarometer\<close> up to the end of the reset poll, for an identity byte that passes the
  check and a reset bit that is clear at poll \<open>length sw + 1\<close>.
\<close>

lemma StartBarometer_front:
  assumes rc: "rc w = XST_SUCCESS"
    and sends: "send_results w = 1 # 2 # replicate (length sw) 1 @ 1 # ss"
    and recvs: "recv_results w = (1, [b]) # map (\<lambda>x. (1, x)) sw @ (1, [c]) # rs"
    and ident: "b = 0xBD \<or> b = 0"
    and busy: "\<forall>x\<in>set sw. length x = 1 \<and> (x ! 0) AND BAROMETER_BFLD_SWRESET \<noteq> 0"
    and ready: "c AND BAROMETER_BFLD_SWRESET = 0"
    and n: "length sw < 100"
  shows "StartBarometer w =
     (let w6 = w\<lparr>pcErr := ''ReadIicReg(BAROMETER_REG_CTRL_REG2) -> %08x'',
                    eTopic := TOPIC_BAROMETER_STATUS, send_results := ss, recv_results := rs,
                    trace := trace w
                      @ [IicSend BAROMETER_SLAVE_ADDRESS [BAROMETER_REG_WHO_AM_I] XIIC_REPEATED_START,
                         IicRecv BAROMETER_SLAVE_ADDRESS 1 XIIC_STOP,
                         IicSend BAROMETER_SLAVE_ADDRESS
                           [BAROMETER_REG_CTRL_REG2, BAROMETER_BFLD_SWRESET] XIIC_STOP]
                      @ concat (replicate (length sw)
                          [IicSend BAROMETER_SLAVE_ADDRESS [BAROMETER_REG_CTRL_REG2] XIIC_REPEATED_START,
                           IicRecv BAROMETER_SLAVE_ADDRESS 1 XIIC_STOP, TaskDelay (MS_TO_TICKS 1)])
                      @ [IicSend BAROMETER_SLAVE_ADDRESS [BAROMETER_REG_CTRL_REG2] XIIC_REPEATED_START,
                         IicRecv BAROMETER_SLAVE_ADDRESS 1 XIIC_STOP]\<rparr> in
      or_die (if 100 - int (length sw) - 1 \<le> 0
              then MAY_DIE (w6\<lparr>rc := XST_FAILURE, pcErr := ''Barometer swreset timeout''\<rparr>)
              else Inr w6)
        (StartBarometer_boot [c]))"
proof -
  let ?a = BAROMETER_SLAVE_ADDRESS
  let ?E1 = "''ReadIicReg(WHO_AM_I) -> %08x''"
  let ?E2 = "''BAROMETER_WHO_AM_I = %08x != BD''"
  let ?E3 = "''WriteIicReg(BAROMETER_REG_CTRL_REG2::BFLD_SWRESET) -> %08x''"
  let ?E4 = "''ReadIicReg(BAROMETER_REG_CTRL_REG2) -> %08x''"
  let ?r = "\<lambda>pb. 0 = (pb ! 0) AND BAROMETER_BFLD_SWRESET"
  let ?S = "replicate (length sw) 1 @ 1 # ss"
  let ?R = "map (\<lambda>x. (1, x)) sw @ (1, [c]) # rs"
  define w1 where "w1 = (w\<lparr>eTopic := TOPIC_BAROMETER_STATUS\<rparr>)
      \<lparr>send_results := 2 # ?S, recv_results := ?R,
       trace := trace (w\<lparr>eTopic := TOPIC_BAROMETER_STATUS\<rparr>)
          @ [IicSend ?a [if (1::int) > 1 then BAROMETER_REG_WHO_AM_I OR 0x80
                         else BAROMETER_REG_WHO_AM_I] XIIC_REPEATED_START,
             IicRecv ?a 1 XIIC_STOP]\<rparr>"
  have R1: "ReadIicReg ?a BAROMETER_REG_WHO_AM_I [0] (w\<lparr>eTopic := TOPIC_BAROMETER_STATUS\<rparr>)
            = (XST_SUCCESS, [b], w1)"
    unfolding w1_def ReadIicReg_def using rc sends recvs by (intro ReadIicRegs_ok) simp_all
  define w2 where "w2 = w1\<lparr>pcErr := ?E1\<rparr>"
  have M1: "MAY_DIE (w1\<lparr>pcErr := ?E1\<rparr>) = Inr w2"
    using rc by (simp add: MAY_DIE_def w2_def w1_def)
  define w3 where "w3 = (if 0xBD \<noteq> [b] ! 0 then w2\<lparr>rc := uint ([b] ! 0), pcErr := ?E2\<rparr> else w2)"
  have w3: "rc w3 = XST_SUCCESS" "send_results w3 = 2 # ?S" "recv_results w3 = ?R"
    using rc ident by (auto simp: w3_def w2_def w1_def XST_SUCCESS_def)
  have M2: "MAY_DIE (if 0xBD \<noteq> [b] ! 0 then w2\<lparr>rc := uint ([b] ! 0), pcErr := ?E2\<rparr> else w2)
            = Inr w3"
    unfolding w3_def [symmetric] by (rule MAY_DIE_ok) (rule w3(1))
  define w4 where "w4 = w3\<lparr>send_results := ?S,
       trace := trace w3 @ [IicSend ?a [BAROMETER_REG_CTRL_REG2, BAROMETER_BFLD_SWRESET] XIIC_STOP]\<rparr>"
  have W4: "WriteIicReg ?a BAROMETER_REG_CTRL_REG2 BAROMETER_BFLD_SWRESET w3 = (XST_SUCCESS, w4)"
    unfolding w4_def using w3 by (intro WriteIicReg_ok) simp_all
  define w5 where "w5 = w4\<lparr>pcErr := ?E3\<rparr>"
  have w5: "rc w5 = XST_SUCCESS" "send_results w5 = replicate (length sw) 1 @ 1 # ss"
    "recv_results w5 = map (\<lambda>x. (nat 1, x)) sw @ (nat 1, [c]) # rs"
    using w3 by (simp_all add: w5_def w4_def)
  have M3: "MAY_DIE (w4\<lparr>pcErr := ?E3\<rparr>) = Inr w5"
    using w5 by (simp add: MAY_DIE_def w5_def)
  define w6 where "w6 = w5\<lparr>pcErr := ?E4, send_results := ss, recv_results := rs,
      trace := trace w5 @ concat (replicate (length sw)
                   [IicSend ?a [if (1::int) > 1 then BAROMETER_REG_CTRL_REG2 OR 0x80
                                else BAROMETER_REG_CTRL_REG2] XIIC_REPEATED_START,
                    IicRecv ?a 1 XIIC_STOP, TaskDelay (MS_TO_TICKS 1)])
               @ [IicSend ?a [if (1::int) > 1 then BAROMETER_REG_CTRL_REG2 OR 0x80
                              else BAROMETER_REG_CTRL_REG2] XIIC_REPEATED_START,
                  IicRecv ?a 1 XIIC_STOP]\<rparr>"
  have P: "poll ?a 1 BAROMETER_REG_CTRL_REG2 ?E4 ?r 100 [b] w5
          = PollDone (100 - int (length sw) - 1) [c] w6"
    unfolding w6_def using w5 busy ready n
    by (intro poll_ready) auto
  have A: "StartBarometer w =
      or_die (if 100 - int (length sw) - 1 \<le> 0
              then MAY_DIE (w6\<lparr>rc := XST_FAILURE, pcErr := ''Barometer swreset timeout''\<rparr>)
              else Inr w6) (StartBarometer_boot [c])"
    by (simp only: StartBarometer_def Let_def R1 prod.case M1 or_die_def sum.case M2 W4 M3 P
        poll_or_die_def poll_result.case)
  have B: "w6 = w\<lparr>pcErr := ?E4,
                    eTopic := TOPIC_BAROMETER_STATUS, send_results := ss, recv_results := rs,
                    trace := trace w
                      @ [IicSend ?a [BAROMETER_REG_WHO_AM_I] XIIC_REPEATED_START,
                         IicRecv ?a 1 XIIC_STOP,
                         IicSend ?a [BAROMETER_REG_CTRL_REG2, BAROMETER_BFLD_SWRESET] XIIC_STOP]
                      @ concat (replicate (length sw)
                          [IicSend ?a [BAROMETER_REG_CTRL_REG2] XIIC_REPEATED_START,
                           IicRecv ?a 1 XIIC_STOP, TaskDelay (MS_TO_TICKS 1)])
                      @ [IicSend ?a [BAROMETER_REG_CTRL_REG2] XIIC_REPEATED_START,
                         IicRecv ?a 1 XIIC_STOP]\<rparr>"
    using ident rc
    by (cases w) (auto simp: w6_def w5_def w4_def w3_def w2_def w1_def XST_SUCCESS_def)
  show ?thesis
    by (simp only: Let_def A B)
qed

text \<open>The reset bit is set at all 100 polls: the named timeout, after exactly 100 reads.\<close>

lemma StartBarometer_swreset_exhausted:
  assumes rc: "rc w = XST_SUCCESS"
    and sends: "send_results w = 1 # 2 # replicate (length sw) 1 @ ss"
    and recvs: "recv_results w = (1, [0xBD]) # map (\<lambda>x. (1, x)) sw @ rs"
    and len: "length sw = 100"
    and busy: "\<forall>x\<in>set sw. length x = 1 \<and> (x ! 0) AND BAROMETER_BFLD_SWRESET \<noteq> 0"
  shows "StartBarometer w =
     prvPublishTopic TOPIC_BAROMETER_STATUS ''Barometer swreset timeout'' [ArgInt XST_FAILURE]
       (w\<lparr>rc := XST_FAILURE, pcErr := ''Barometer swreset timeout'',
          eTopic := TOPIC_BAROMETER_STATUS, send_results := ss, recv_results := rs,
          trace := trace w
            @ [IicSend BAROMETER_SLAVE_ADDRESS [BAROMETER_REG_WHO_AM_I] XIIC_REPEATED_START,
               IicRecv BAROMETER_SLAVE_ADDRESS 1 XIIC_STOP,
               IicSend BAROMETER_SLAVE_ADDRESS
                 [BAROMETER_REG_CTRL_REG2, BAROMETER_BFLD_SWRESET] XIIC_STOP]
            @ concat (replicate 100
                [IicSend BAROMETER_SLAVE_ADDRESS [BAROMETER_REG_CTRL_REG2] XIIC_REPEATED_START,
                 IicRecv BAROMETER_SLAVE_ADDRESS 1 XIIC_STOP, TaskDelay (MS_TO_TICKS 1)])\<rparr>)"
proof -
  let ?a = BAROMETER_SLAVE_ADDRESS
  let ?E1 = "''ReadIicReg(WHO_AM_I) -> %08x''"
  let ?E2 = "''BAROMETER_WHO_AM_I = %08x != BD''"
  let ?E3 = "''WriteIicReg(BAROMETER_REG_CTRL_REG2::BFLD_SWRESET) -> %08x''"
  let ?E4 = "''ReadIicReg(BAROMETER_REG_CTRL_REG2) -> %08x''"
  let ?E5 = "''Barometer swreset timeout''"
  let ?r = "\<lambda>pb. 0 = (pb ! 0) AND BAROMETER_BFLD_SWRESET"
  let ?S = "replicate (length sw) 1 @ ss"
  let ?R = "map (\<lambda>x. (1, x)) sw @ rs"
  define w1 where "w1 = (w\<lparr>eTopic := TOPIC_BAROMETER_STATUS\<rparr>)
      \<lparr>send_results := 2 # ?S, recv_results := ?R,
       trace := trace (w\<lparr>eTopic := TOPIC_BAROMETER_STATUS\<rparr>)
          @ [IicSend ?a [if (1::int) > 1 then BAROMETER_REG_WHO_AM_I OR 0x80
                         else BAROMETER_REG_WHO_AM_I] XIIC_REPEATED_START,
             IicRecv ?a 1 XIIC_STOP]\<rparr>"
  have R1: "ReadIicReg ?a BAROMETER_REG_WHO_AM_I [0] (w\<lparr>eTopic := TOPIC_BAROMETER_STATUS\<rparr>)
            = (XST_SUCCESS, [0xBD], w1)"
    unfolding w1_def ReadIicReg_def using rc sends recvs by (intro ReadIicRegs_ok) simp_all
  define w2 where "w2 = w1\<lparr>pcErr := ?E1\<rparr>"
  have M1: "MAY_DIE (w1\<lparr>pcErr := ?E1\<rparr>) = Inr w2"
    using rc by (simp add: MAY_DIE_def w2_def w1_def)
  have w2: "rc w2 = XST_SUCCESS" "send_results w2 = 2 # ?S" "recv_results w2 = ?R"
    using rc by (simp_all add: w2_def w1_def)
  have M2: "MAY_DIE (if 0xBD \<noteq> [0xBD :: u8] ! 0
                     then w2\<lparr>rc := uint ([0xBD :: u8] ! 0), pcErr := ?E2\<rparr> else w2)
            = Inr w2"
    using w2(1) by (simp add: MAY_DIE_def)
  define w4 where "w4 = w2\<lparr>send_results := ?S,
       trace := trace w2 @ [IicSend ?a [BAROMETER_REG_CTRL_REG2, BAROMETER_BFLD_SWRESET] XIIC_STOP]\<rparr>"
  have W4: "WriteIicReg ?a BAROMETER_REG_CTRL_REG2 BAROMETER_BFLD_SWRESET w2 = (XST_SUCCESS, w4)"
    unfolding w4_def using w2 by (intro WriteIicReg_ok) simp_all
  define w5 where "w5 = w4\<lparr>pcErr := ?E3\<rparr>"
  have w5: "rc w5 = XST_SUCCESS" "send_results w5 = replicate (length sw) 1 @ ss"
    "recv_results w5 = map (\<lambda>x. (nat 1, x)) sw @ rs"
    using w2 by (simp_all add: w5_def w4_def)
  have M3: "MAY_DIE (w4\<lparr>pcErr := ?E3\<rparr>) = Inr w5"
    using w5 by (simp add: MAY_DIE_def w5_def)
  define w6 where "w6 = w5\<lparr>pcErr := (if sw = [] then pcErr w5 else ?E4),
      send_results := ss, recv_results := rs,
      trace := trace w5 @ concat (replicate (length sw)
                   [IicSend ?a [if (1::int) > 1 then BAROMETER_REG_CTRL_REG2 OR 0x80
                                else BAROMETER_REG_CTRL_REG2] XIIC_REPEATED_START,
                    IicRecv ?a 1 XIIC_STOP, TaskDelay (MS_TO_TICKS 1)])\<rparr>"
  have "poll ?a 1 BAROMETER_REG_CTRL_REG2 ?E4 ?r (int (length sw)) [0xBD] w5
          = PollDone (- 1) (last ([0xBD] # sw)) w6"
    unfolding w6_def using w5 busy
    by (intro poll_exhausted) auto
  then have P: "poll ?a 1 BAROMETER_REG_CTRL_REG2 ?E4 ?r 100 [0xBD] w5
          = PollDone (- 1) (last ([0xBD] # sw)) w6"
    by (simp add: len)
  have M4: "(if (- 1 :: int) \<le> 0 then MAY_DIE (w6\<lparr>rc := XST_FAILURE, pcErr := ?E5\<rparr>)
             else Inr w6)
            = Inl (prvPublishTopic TOPIC_BAROMETER_STATUS ?E5 [ArgInt XST_FAILURE]
                     (w6\<lparr>rc := XST_FAILURE, pcErr := ?E5\<rparr>))"
    by (simp add: MAY_DIE_def XST_FAILURE_def XST_SUCCESS_def w6_def w5_def w4_def w2_def w1_def)
  have A: "StartBarometer w = prvPublishTopic TOPIC_BAROMETER_STATUS ?E5 [ArgInt XST_FAILURE]
                     (w6\<lparr>rc := XST_FAILURE, pcErr := ?E5\<rparr>)"
    by (simp only: StartBarometer_def Let_def R1 prod.case M1 or_die_def sum.case M2 W4 M3 P
        poll_or_die_def poll_result.case M4)
  have B: "w6\<lparr>rc := XST_FAILURE, pcErr := ?E5\<rparr> =
       w\<lparr>rc := XST_FAILURE, pcErr := ?E5,
          eTopic := TOPIC_BAROMETER_STATUS, send_results := ss, recv_results := rs,
          trace := trace w
            @ [IicSend ?a [BAROMETER_REG_WHO_AM_I] XIIC_REPEATED_START,
               IicRecv ?a 1 XIIC_STOP,
               IicSend ?a [BAROMETER_REG_CTRL_REG2, BAROMETER_BFLD_SWRESET] XIIC_STOP]
            @ concat (replicate 100
                [IicSend ?a [BAROMETER_REG_CTRL_REG2] XIIC_REPEATED_START,
                 IicRecv ?a 1 XIIC_STOP, TaskDelay (MS_TO_TICKS 1)])\<rparr>"
    using len
    by (cases w) (simp add: w6_def w5_def w4_def w2_def w1_def)
  show ?thesis
    by (simp only: A B)
qed

text \<open>
  An identity byte other than \<open>0xBD\<close> and other than zero: nothing after the identity read
  is executed, and the byte is the argument of the report.
\<close>

lemma StartBarometer_identity_mismatch:
  assumes rc: "rc w = XST_SUCCESS"
    and sends: "send_results w = 1 # ss"
    and recvs: "recv_results w = (1, [b]) # rs"
    and ident: "b \<noteq> 0xBD" "b \<noteq> 0"
  shows "StartBarometer w =
     prvPublishTopic TOPIC_BAROMETER_STATUS ''BAROMETER_WHO_AM_I = %08x != BD'' [ArgInt (uint b)]
       (w\<lparr>rc := uint b, pcErr := ''BAROMETER_WHO_AM_I = %08x != BD'',
          eTopic := TOPIC_BAROMETER_STATUS, send_results := ss, recv_results := rs,
          trace := trace w
            @ [IicSend BAROMETER_SLAVE_ADDRESS [BAROMETER_REG_WHO_AM_I] XIIC_REPEATED_START,
               IicRecv BAROMETER_SLAVE_ADDRESS 1 XIIC_STOP]\<rparr>)"
proof -
  let ?a = BAROMETER_SLAVE_ADDRESS
  let ?E1 = "''ReadIicReg(WHO_AM_I) -> %08x''"
  let ?E2 = "''BAROMETER_WHO_AM_I = %08x != BD''"
  define w1 where "w1 = (w\<lparr>eTopic := TOPIC_BAROMETER_STATUS\<rparr>)
      \<lparr>send_results := ss, recv_results := rs,
       trace := trace (w\<lparr>eTopic := TOPIC_BAROMETER_STATUS\<rparr>)
          @ [IicSend ?a [if (1::int) > 1 then BAROMETER_REG_WHO_AM_I OR 0x80
                         else BAROMETER_REG_WHO_AM_I] XIIC_REPEATED_START,
             IicRecv ?a 1 XIIC_STOP]\<rparr>"
  have R1: "ReadIicReg ?a BAROMETER_REG_WHO_AM_I [0] (w\<lparr>eTopic := TOPIC_BAROMETER_STATUS\<rparr>)
            = (XST_SUCCESS, [b], w1)"
    unfolding w1_def ReadIicReg_def using rc sends recvs by (intro ReadIicRegs_ok) simp_all
  define w2 where "w2 = w1\<lparr>pcErr := ?E1\<rparr>"
  have M1: "MAY_DIE (w1\<lparr>pcErr := ?E1\<rparr>) = Inr w2"
    using rc by (simp add: MAY_DIE_def w2_def w1_def)
  have nz: "uint b \<noteq> XST_SUCCESS"
    using ident(2) by (simp add: XST_SUCCESS_def uint_0_iff)
  have M2: "MAY_DIE (if 0xBD \<noteq> [b] ! 0 then w2\<lparr>rc := uint ([b] ! 0), pcErr := ?E2\<rparr> else w2)
            = Inl (prvPublishTopic TOPIC_BAROMETER_STATUS ?E2 [ArgInt (uint b)]
                     (w2\<lparr>rc := uint b, pcErr := ?E2\<rparr>))"
    using ident(1) nz by (simp add: MAY_DIE_def w2_def w1_def)
  have A: "StartBarometer w = prvPublishTopic TOPIC_BAROMETER_STATUS ?E2 [ArgInt (uint b)]
                     (w2\<lparr>rc := uint b, pcErr := ?E2\<rparr>)"
    by (simp only: StartBarometer_def Let_def R1 prod.case M1 or_die_def sum.case M2)
  have B: "w2\<lparr>rc := uint b, pcErr := ?E2\<rparr> =
       w\<lparr>rc := uint b, pcErr := ?E2,
          eTopic := TOPIC_BAROMETER_STATUS, send_results := ss, recv_results := rs,
          trace := trace w
            @ [IicSend ?a [BAROMETER_REG_WHO_AM_I] XIIC_REPEATED_START,
               IicRecv ?a 1 XIIC_STOP]\<rparr>"
    by (cases w) (simp add: w2_def w1_def)
  show ?thesis
    by (simp only: A B)
qed

text \<open>The boot step of the barometer, with the boot bit set at all 100 polls.\<close>

lemma StartBarometer_boot_exhausted:
  assumes rc: "rc w = XST_SUCCESS"
    and sends: "send_results w = 2 # replicate (length bo) 1 @ 2 # ss"
    and recvs: "recv_results w = map (\<lambda>x. (1, x)) bo @ rs"
    and len: "length bo = 100"
    and busy: "\<forall>x\<in>set bo. length x = 1 \<and> (x ! 0) AND BAROMETER_BFLD_BOOT \<noteq> 0"
    and b1: "length b1 = 1"
  shows "StartBarometer_boot b1 w =
     prvPublishTopic TOPIC_BAROMETER_STATUS ''Barometer started'' []
       (w\<lparr>pcErr := ''WriteIicReg(BAROMETER_REG_CTRL_REG1::BAROMETER_BFLD_PD) -> %08x'',
          send_results := ss, recv_results := rs,
          trace := trace w
            @ [IicSend BAROMETER_SLAVE_ADDRESS
                 [BAROMETER_REG_CTRL_REG2, BAROMETER_BFLD_BOOT] XIIC_STOP]
            @ concat (replicate (length bo)
                [IicSend BAROMETER_SLAVE_ADDRESS [BAROMETER_REG_CTRL_REG2] XIIC_REPEATED_START,
                 IicRecv BAROMETER_SLAVE_ADDRESS 1 XIIC_STOP, TaskDelay (MS_TO_TICKS 1)])
            @ [IicSend BAROMETER_SLAVE_ADDRESS
                 [BAROMETER_REG_CTRL_REG1, BAROMETER_BFLD_PD] XIIC_STOP,
               TaskDelay (MS_TO_TICKS 1)]\<rparr>)"
proof -
  let ?a = BAROMETER_SLAVE_ADDRESS
  let ?E1 = "''WriteIicReg(BAROMETER_REG_CTRL_REG2::BAROMETER_BFLD_BOOT -> %08x''"
  let ?E2 = "''ReadIicReg(BAROMETER_REG_CTRL_REG2) -> %08x''"
  let ?E3 = "''Barometer boot timeout''"
  let ?E4 = "''WriteIicReg(BAROMETER_REG_CTRL_REG1::BAROMETER_BFLD_PD) -> %08x''"
  let ?r = "\<lambda>pb. 0 = (pb ! 0) AND BAROMETER_BFLD_BOOT"
  define w8 where "w8 = w\<lparr>send_results := replicate (length bo) 1 @ 2 # ss,
       trace := trace w @ [IicSend ?a [BAROMETER_REG_CTRL_REG2, BAROMETER_BFLD_BOOT] XIIC_STOP]\<rparr>"
  have W8: "WriteIicReg ?a BAROMETER_REG_CTRL_REG2 BAROMETER_BFLD_BOOT w = (XST_SUCCESS, w8)"
    unfolding w8_def using rc sends by (intro WriteIicReg_ok) simp_all
  define w9 where "w9 = w8\<lparr>pcErr := ?E1\<rparr>"
  have w9: "rc w9 = XST_SUCCESS" "send_results w9 = replicate (length bo) 1 @ 2 # ss"
    "recv_results w9 = map (\<lambda>x. (nat 1, x)) bo @ rs"
    using rc recvs by (simp_all add: w9_def w8_def)
  have M1: "MAY_DIE (w8\<lparr>pcErr := ?E1\<rparr>) = Inr w9"
    unfolding w9_def [symmetric] by (rule MAY_DIE_ok) (rule w9(1))
  define w10 where "w10 = w9\<lparr>pcErr := (if bo = [] then pcErr w9 else ?E2),
      send_results := 2 # ss, recv_results := rs,
      trace := trace w9 @ concat (replicate (length bo)
                   [IicSend ?a [if (1::int) > 1 then BAROMETER_REG_CTRL_REG2 OR 0x80
                                else BAROMETER_REG_CTRL_REG2] XIIC_REPEATED_START,
                    IicRecv ?a 1 XIIC_STOP, TaskDelay (MS_TO_TICKS 1)])\<rparr>"
  have "poll ?a 1 BAROMETER_REG_CTRL_REG2 ?E2 ?r (int (length bo)) b1 w9
          = PollDone (- 1) (last (b1 # bo)) w10"
    unfolding w10_def using w9 busy b1
    by (intro poll_exhausted) auto
  then have P: "poll ?a 1 BAROMETER_REG_CTRL_REG2 ?E2 ?r 100 b1 w9
          = PollDone (- 1) (last (b1 # bo)) w10"
    by (simp add: len)
  define w11 where "w11 = w10\<lparr>pcErr := ?E3\<rparr>"
  have w11: "rc w11 = XST_SUCCESS" "send_results w11 = 2 # ss"
    using w9 by (simp_all add: w11_def w10_def)
  have M2: "(if (- 1 :: int) \<le> 0 then MAY_DIE (w10\<lparr>pcErr := ?E3\<rparr>) else Inr w10) = Inr w11"
    using MAY_DIE_ok [OF w11(1)] by (simp add: w11_def)
  define w12 where "w12 = w11\<lparr>send_results := ss,
       trace := trace w11 @ [IicSend ?a [BAROMETER_REG_CTRL_REG1, BAROMETER_BFLD_PD] XIIC_STOP]\<rparr>"
  have W12: "WriteIicReg ?a BAROMETER_REG_CTRL_REG1 BAROMETER_BFLD_PD w11 = (XST_SUCCESS, w12)"
    unfolding w12_def using w11 by (intro WriteIicReg_ok) simp_all
  define w13 where "w13 = w12\<lparr>pcErr := ?E4\<rparr>"
  have M3: "MAY_DIE (w12\<lparr>pcErr := ?E4\<rparr>) = Inr w13"
    unfolding w13_def [symmetric] by (rule MAY_DIE_ok) (simp add: w13_def w12_def w11)
  have A: "StartBarometer_boot b1 w =
      prvPublishTopic TOPIC_BAROMETER_STATUS ''Barometer started'' []
        (vTaskDelay (MS_TO_TICKS 1) w13)"
    by (simp only: StartBarometer_boot_def Let_def W8 prod.case M1 or_die_def sum.case P
        poll_or_die_def poll_result.case M2 W12 M3)
  have B: "vTaskDelay (MS_TO_TICKS 1) w13 =
       w\<lparr>pcErr := ?E4, send_results := ss, recv_results := rs,
          trace := trace w
            @ [IicSend ?a [BAROMETER_REG_CTRL_REG2, BAROMETER_BFLD_BOOT] XIIC_STOP]
            @ concat (replicate (length bo)
                [IicSend ?a [BAROMETER_REG_CTRL_REG2] XIIC_REPEATED_START,
                 IicRecv ?a 1 XIIC_STOP, TaskDelay (MS_TO_TICKS 1)])
            @ [IicSend ?a [BAROMETER_REG_CTRL_REG1, BAROMETER_BFLD_PD] XIIC_STOP,
               TaskDelay (MS_TO_TICKS 1)]\<rparr>"
    by (cases w)
       (simp add: vTaskDelay_def emit_def w13_def w12_def w11_def w10_def w9_def w8_def)
  show ?thesis
    by (simp only: A B)
qed

text \<open>The boot step of the barometer, with the boot bit clear at poll \<open>length bo + 1\<close>.\<close>

lemma StartBarometer_boot_ready:
  assumes rc: "rc w = XST_SUCCESS"
    and sends: "send_results w = 2 # replicate (length bo) 1 @ 1 # 2 # ss"
    and recvs: "recv_results w = map (\<lambda>x. (1, x)) bo @ (1, [c]) # rs"
    and len: "length bo < 100"
    and busy: "\<forall>x\<in>set bo. length x = 1 \<and> (x ! 0) AND BAROMETER_BFLD_BOOT \<noteq> 0"
    and ready: "c AND BAROMETER_BFLD_BOOT = 0"
    and b1: "length b1 = 1"
  shows "StartBarometer_boot b1 w =
     prvPublishTopic TOPIC_BAROMETER_STATUS ''Barometer started'' []
       (w\<lparr>pcErr := ''WriteIicReg(BAROMETER_REG_CTRL_REG1::BAROMETER_BFLD_PD) -> %08x'',
          send_results := ss, recv_results := rs,
          trace := trace w
            @ [IicSend BAROMETER_SLAVE_ADDRESS
                 [BAROMETER_REG_CTRL_REG2, BAROMETER_BFLD_BOOT] XIIC_STOP]
            @ concat (replicate (length bo)
                [IicSend BAROMETER_SLAVE_ADDRESS [BAROMETER_REG_CTRL_REG2] XIIC_REPEATED_START,
                 IicRecv BAROMETER_SLAVE_ADDRESS 1 XIIC_STOP, TaskDelay (MS_TO_TICKS 1)])
            @ [IicSend BAROMETER_SLAVE_ADDRESS [BAROMETER_REG_CTRL_REG2] XIIC_REPEATED_START,
               IicRecv BAROMETER_SLAVE_ADDRESS 1 XIIC_STOP,
               IicSend BAROMETER_SLAVE_ADDRESS
                 [BAROMETER_REG_CTRL_REG1, BAROMETER_BFLD_PD] XIIC_STOP,
               TaskDelay (MS_TO_TICKS 1)]\<rparr>)"
proof -
  let ?a = BAROMETER_SLAVE_ADDRESS
  let ?E1 = "''WriteIicReg(BAROMETER_REG_CTRL_REG2::BAROMETER_BFLD_BOOT -> %08x''"
  let ?E2 = "''ReadIicReg(BAROMETER_REG_CTRL_REG2) -> %08x''"
  let ?E3 = "''Barometer boot timeout''"
  let ?E4 = "''WriteIicReg(BAROMETER_REG_CTRL_REG1::BAROMETER_BFLD_PD) -> %08x''"
  let ?r = "\<lambda>pb. 0 = (pb ! 0) AND BAROMETER_BFLD_BOOT"
  define w8 where "w8 = w\<lparr>send_results := replicate (length bo) 1 @ 1 # 2 # ss,
       trace := trace w @ [IicSend ?a [BAROMETER_REG_CTRL_REG2, BAROMETER_BFLD_BOOT] XIIC_STOP]\<rparr>"
  have W8: "WriteIicReg ?a BAROMETER_REG_CTRL_REG2 BAROMETER_BFLD_BOOT w = (XST_SUCCESS, w8)"
    unfolding w8_def using rc sends by (intro WriteIicReg_ok) simp_all
  define w9 where "w9 = w8\<lparr>pcErr := ?E1\<rparr>"
  have w9: "rc w9 = XST_SUCCESS" "send_results w9 = replicate (length bo) 1 @ 1 # 2 # ss"
    "recv_results w9 = map (\<lambda>x. (nat 1, x)) bo @ (nat 1, [c]) # rs"
    using rc recvs by (simp_all add: w9_def w8_def)
  have M1: "MAY_DIE (w8\<lparr>pcErr := ?E1\<rparr>) = Inr w9"
    unfolding w9_def [symmetric] by (rule MAY_DIE_ok) (rule w9(1))
  define w10 where "w10 = w9\<lparr>pcErr := ?E2,
      send_results := 2 # ss, recv_results := rs,
      trace := trace w9 @ concat (replicate (length bo)
                   [IicSend ?a [if (1::int) > 1 then BAROMETER_REG_CTRL_REG2 OR 0x80
                                else BAROMETER_REG_CTRL_REG2] XIIC_REPEATED_START,
                    IicRecv ?a 1 XIIC_STOP, TaskDelay (MS_TO_TICKS 1)])
                @ [IicSend ?a [if (1::int) > 1 then BAROMETER_REG_CTRL_REG2 OR 0x80
                               else BAROMETER_REG_CTRL_REG2] XIIC_REPEATED_START,
                   IicRecv ?a 1 XIIC_STOP]\<rparr>"
  have P: "poll ?a 1 BAROMETER_REG_CTRL_REG2 ?E2 ?r 100 b1 w9
          = PollDone (100 - int (length bo) - 1) [c] w10"
    unfolding w10_def using w9 busy b1 ready len
    by (intro poll_ready) auto
  define w11 where "w11 = (if 100 - int (length bo) - 1 \<le> 0 then w10\<lparr>pcErr := ?E3\<rparr> else w10)"
  have w11: "rc w11 = XST_SUCCESS" "send_results w11 = 2 # ss"
    using w9 by (simp_all add: w11_def w10_def)
  have M2: "(if 100 - int (length bo) - 1 \<le> 0 then MAY_DIE (w10\<lparr>pcErr := ?E3\<rparr>) else Inr w10)
            = Inr w11"
    using w11 by (auto simp: w11_def MAY_DIE_def split: if_splits)
  define w12 where "w12 = w11\<lparr>send_results := ss,
       trace := trace w11 @ [IicSend ?a [BAROMETER_REG_CTRL_REG1, BAROMETER_BFLD_PD] XIIC_STOP]\<rparr>"
  have W12: "WriteIicReg ?a BAROMETER_REG_CTRL_REG1 BAROMETER_BFLD_PD w11 = (XST_SUCCESS, w12)"
    unfolding w12_def using w11 by (intro WriteIicReg_ok) simp_all
  define w13 where "w13 = w12\<lparr>pcErr := ?E4\<rparr>"
  have M3: "MAY_DIE (w12\<lparr>pcErr := ?E4\<rparr>) = Inr w13"
    unfolding w13_def [symmetric] by (rule MAY_DIE_ok) (simp add: w13_def w12_def w11)
  have A: "StartBarometer_boot b1 w =
      prvPublishTopic TOPIC_BAROMETER_STATUS ''Barometer started'' []
        (vTaskDelay (MS_TO_TICKS 1) w13)"
    by (simp only: StartBarometer_boot_def Let_def W8 prod.case M1 or_die_def sum.case P
        poll_or_die_def poll_result.case M2 W12 M3)
  have B: "vTaskDelay (MS_TO_TICKS 1) w13 =
       w\<lparr>pcErr := ?E4, send_results := ss, recv_results := rs,
          trace := trace w
            @ [IicSend ?a [BAROMETER_REG_CTRL_REG2, BAROMETER_BFLD_BOOT] XIIC_STOP]
            @ concat (replicate (length bo)
                [IicSend ?a [BAROMETER_REG_CTRL_REG2] XIIC_REPEATED_START,
                 IicRecv ?a 1 XIIC_STOP, TaskDelay (MS_TO_TICKS 1)])
            @ [IicSend ?a [BAROMETER_REG_CTRL_REG2] XIIC_REPEATED_START,
               IicRecv ?a 1 XIIC_STOP,
               IicSend ?a [BAROMETER_REG_CTRL_REG1, BAROMETER_BFLD_PD] XIIC_STOP,
               TaskDelay (MS_TO_TICKS 1)]\<rparr>"
    by (cases w)
       (simp add: vTaskDelay_def emit_def w13_def w12_def w11_def w10_def w9_def w8_def)
  show ?thesis
    by (simp only: A B)
qed

text \<open>
  \<^verbatim>\<open>StartHygrometer\<close> up to the calibration read, with the boot bit set at all 1000 polls
  and with the boot bit clear at poll \<open>length bo + 1\<close>.
\<close>

lemma StartHygrometer_boot_exhausted:
  assumes rc: "rc w = XST_SUCCESS"
    and sends: "send_results w = 1 # 2 # replicate (length bo) 1 @ ss"
    and recvs: "recv_results w = (1, [b]) # map (\<lambda>x. (1, x)) bo @ rs"
    and ident: "b = 0xBC \<or> b = 0"
    and len: "length bo = 1000"
    and busy: "\<forall>x\<in>set bo. length x = 1 \<and> (x ! 0) AND HYGROMETER_BFLD_BOOT \<noteq> 0"
  shows "StartHygrometer w =
     StartHygrometer_calibrate
       (w\<lparr>pcErr := ''Hygrometer boot timeout'', eTopic := TOPIC_HYGROMETER_STATUS,
          send_results := ss, recv_results := rs,
          trace := trace w
            @ [IicSend HYGROMETER_SLAVE_ADDRESS [HYGROMETER_REG_WHO_AM_I] XIIC_REPEATED_START,
               IicRecv HYGROMETER_SLAVE_ADDRESS 1 XIIC_STOP,
               IicSend HYGROMETER_SLAVE_ADDRESS
                 [HYGROMETER_REG_CTRL_REG2, HYGROMETER_BFLD_BOOT] XIIC_STOP]
            @ concat (replicate (length bo)
                [IicSend HYGROMETER_SLAVE_ADDRESS [HYGROMETER_REG_CTRL_REG2] XIIC_REPEATED_START,
                 IicRecv HYGROMETER_SLAVE_ADDRESS 1 XIIC_STOP, TaskDelay (MS_TO_TICKS 1)])\<rparr>)"
proof -
  let ?a = HYGROMETER_SLAVE_ADDRESS
  let ?E1 = "''ReadIicReg(HYGROMETER_WHO_AM_I) -> %08x''"
  let ?E2 = "''HYGROMETER_WHO_AM_I = %08x != BC''"
  let ?E3 = "''WriteIicReg(HYGROMETER_REG_CTRL_REG2::HYGROMETER_BFLD_BOOT -> %08x''"
  let ?E4 = "''ReadIicReg(BAROMETER_REG_CTRL_REG2) -> %08x''"
  let ?E5 = "''Hygrometer boot timeout''"
  let ?r = "\<lambda>pb. 0 = (pb ! 0) AND HYGROMETER_BFLD_BOOT"
  let ?S = "replicate (length bo) 1 @ ss"
  let ?R = "map (\<lambda>x. (1, x)) bo @ rs"
  define w1 where "w1 = (w\<lparr>eTopic := TOPIC_HYGROMETER_STATUS\<rparr>)
      \<lparr>send_results := 2 # ?S, recv_results := ?R,
       trace := trace (w\<lparr>eTopic := TOPIC_HYGROMETER_STATUS\<rparr>)
          @ [IicSend ?a [if (1::int) > 1 then HYGROMETER_REG_WHO_AM_I OR 0x80
                         else HYGROMETER_REG_WHO_AM_I] XIIC_REPEATED_START,
             IicRecv ?a 1 XIIC_STOP]\<rparr>"
  have R1: "ReadIicReg ?a HYGROMETER_REG_WHO_AM_I [0] (w\<lparr>eTopic := TOPIC_HYGROMETER_STATUS\<rparr>)
            = (XST_SUCCESS, [b], w1)"
    unfolding w1_def ReadIicReg_def using rc sends recvs by (intro ReadIicRegs_ok) simp_all
  define w2 where "w2 = w1\<lparr>pcErr := ?E1\<rparr>"
  have M1: "MAY_DIE (w1\<lparr>pcErr := ?E1\<rparr>) = Inr w2"
    using rc by (simp add: MAY_DIE_def w2_def w1_def)
  define w3 where "w3 = (if 0xBC \<noteq> [b] ! 0 then w2\<lparr>rc := uint ([b] ! 0), pcErr := ?E2\<rparr> else w2)"
  have w3: "rc w3 = XST_SUCCESS" "send_results w3 = 2 # ?S" "recv_results w3 = ?R"
    using rc ident by (auto simp: w3_def w2_def w1_def XST_SUCCESS_def)
  have M2: "MAY_DIE (if 0xBC \<noteq> [b] ! 0 then w2\<lparr>rc := uint ([b] ! 0), pcErr := ?E2\<rparr> else w2)
            = Inr w3"
    unfolding w3_def [symmetric] by (rule MAY_DIE_ok) (rule w3(1))
  define w4 where "w4 = w3\<lparr>send_results := ?S,
       trace := trace w3 @ [IicSend ?a [HYGROMETER_REG_CTRL_REG2, HYGROMETER_BFLD_BOOT] XIIC_STOP]\<rparr>"
  have W4: "WriteIicReg ?a HYGROMETER_REG_CTRL_REG2 HYGROMETER_BFLD_BOOT w3 = (XST_SUCCESS, w4)"
    unfolding w4_def using w3 by (intro WriteIicReg_ok) simp_all
  define w5 where "w5 = w4\<lparr>pcErr := ?E3\<rparr>"
  have w5: "rc w5 = XST_SUCCESS" "send_results w5 = replicate (length bo) 1 @ ss"
    "recv_results w5 = map (\<lambda>x. (nat 1, x)) bo @ rs"
    using w3 by (simp_all add: w5_def w4_def)
  have M3: "MAY_DIE (w4\<lparr>pcErr := ?E3\<rparr>) = Inr w5"
    using w5 by (simp add: MAY_DIE_def w5_def)
  define w6 where "w6 = w5\<lparr>pcErr := (if bo = [] then pcErr w5 else ?E4),
      send_results := ss, recv_results := rs,
      trace := trace w5 @ concat (replicate (length bo)
                   [IicSend ?a [if (1::int) > 1 then HYGROMETER_REG_CTRL_REG2 OR 0x80
                                else HYGROMETER_REG_CTRL_REG2] XIIC_REPEATED_START,
                    IicRecv ?a 1 XIIC_STOP, TaskDelay (MS_TO_TICKS 1)])\<rparr>"
  have "poll ?a 1 HYGROMETER_REG_CTRL_REG2 ?E4 ?r (int (length bo)) [b] w5
          = PollDone (- 1) (last ([b] # bo)) w6"
    unfolding w6_def using w5 busy
    by (intro poll_exhausted) auto
  then have P: "poll ?a 1 HYGROMETER_REG_CTRL_REG2 ?E4 ?r 1000 [b] w5
          = PollDone (- 1) (last ([b] # bo)) w6"
    by (simp add: len)
  define w7 where "w7 = w6\<lparr>pcErr := ?E5\<rparr>"
  have w7: "rc w7 = XST_SUCCESS"
    using w5 by (simp_all add: w7_def w6_def)
  have M4: "(if (- 1 :: int) \<le> 0 then MAY_DIE (w6\<lparr>pcErr := ?E5\<rparr>) else Inr w6) = Inr w7"
    using MAY_DIE_ok [OF w7] by (simp add: w7_def)
  have A: "StartHygrometer w = StartHygrometer_calibrate w7"
    by (simp only: StartHygrometer_def Let_def R1 prod.case M1 or_die_def sum.case M2 W4 M3 P
        poll_or_die_def poll_result.case M4)
  have B: "w7 = w\<lparr>pcErr := ?E5, eTopic := TOPIC_HYGROMETER_STATUS,
          send_results := ss, recv_results := rs,
          trace := trace w
            @ [IicSend ?a [HYGROMETER_REG_WHO_AM_I] XIIC_REPEATED_START,
               IicRecv ?a 1 XIIC_STOP,
               IicSend ?a [HYGROMETER_REG_CTRL_REG2, HYGROMETER_BFLD_BOOT] XIIC_STOP]
            @ concat (replicate (length bo)
                [IicSend ?a [HYGROMETER_REG_CTRL_REG2] XIIC_REPEATED_START,
                 IicRecv ?a 1 XIIC_STOP, TaskDelay (MS_TO_TICKS 1)])\<rparr>"
    using ident rc
    by (cases w) (auto simp: w7_def w6_def w5_def w4_def w3_def w2_def w1_def XST_SUCCESS_def)
  show ?thesis
    by (simp only: A B)
qed

lemma StartHygrometer_boot_ready:
  assumes rc: "rc w = XST_SUCCESS"
    and sends: "send_results w = 1 # 2 # replicate (length bo) 1 @ 1 # ss"
    and recvs: "recv_results w = (1, [b]) # map (\<lambda>x. (1, x)) bo @ (1, [c]) # rs"
    and ident: "b = 0xBC \<or> b = 0"
    and len: "length bo < 999"
    and busy: "\<forall>x\<in>set bo. length x = 1 \<and> (x ! 0) AND HYGROMETER_BFLD_BOOT \<noteq> 0"
    and ready: "c AND HYGROMETER_BFLD_BOOT = 0"
  shows "StartHygrometer w =
     StartHygrometer_calibrate
       (w\<lparr>pcErr := ''ReadIicReg(BAROMETER_REG_CTRL_REG2) -> %08x'',
          eTopic := TOPIC_HYGROMETER_STATUS,
          send_results := ss, recv_results := rs,
          trace := trace w
            @ [IicSend HYGROMETER_SLAVE_ADDRESS [HYGROMETER_REG_WHO_AM_I] XIIC_REPEATED_START,
               IicRecv HYGROMETER_SLAVE_ADDRESS 1 XIIC_STOP,
               IicSend HYGROMETER_SLAVE_ADDRESS
                 [HYGROMETER_REG_CTRL_REG2, HYGROMETER_BFLD_BOOT] XIIC_STOP]
            @ concat (replicate (length bo)
                [IicSend HYGROMETER_SLAVE_ADDRESS [HYGROMETER_REG_CTRL_REG2] XIIC_REPEATED_START,
                 IicRecv HYGROMETER_SLAVE_ADDRESS 1 XIIC_STOP, TaskDelay (MS_TO_TICKS 1)])
            @ [IicSend HYGROMETER_SLAVE_ADDRESS [HYGROMETER_REG_CTRL_REG2] XIIC_REPEATED_START,
               IicRecv HYGROMETER_SLAVE_ADDRESS 1 XIIC_STOP]\<rparr>)"
proof -
  let ?a = HYGROMETER_SLAVE_ADDRESS
  let ?E1 = "''ReadIicReg(HYGROMETER_WHO_AM_I) -> %08x''"
  let ?E2 = "''HYGROMETER_WHO_AM_I = %08x != BC''"
  let ?E3 = "''WriteIicReg(HYGROMETER_REG_CTRL_REG2::HYGROMETER_BFLD_BOOT -> %08x''"
  let ?E4 = "''ReadIicReg(BAROMETER_REG_CTRL_REG2) -> %08x''"
  let ?E5 = "''Hygrometer boot timeout''"
  let ?r = "\<lambda>pb. 0 = (pb ! 0) AND HYGROMETER_BFLD_BOOT"
  let ?S = "replicate (length bo) 1 @ 1 # ss"
  let ?R = "map (\<lambda>x. (1, x)) bo @ (1, [c]) # rs"
  define w1 where "w1 = (w\<lparr>eTopic := TOPIC_HYGROMETER_STATUS\<rparr>)
      \<lparr>send_results := 2 # ?S, recv_results := ?R,
       trace := trace (w\<lparr>eTopic := TOPIC_HYGROMETER_STATUS\<rparr>)
          @ [IicSend ?a [if (1::int) > 1 then HYGROMETER_REG_WHO_AM_I OR 0x80
                         else HYGROMETER_REG_WHO_AM_I] XIIC_REPEATED_START,
             IicRecv ?a 1 XIIC_STOP]\<rparr>"
  have R1: "ReadIicReg ?a HYGROMETER_REG_WHO_AM_I [0] (w\<lparr>eTopic := TOPIC_HYGROMETER_STATUS\<rparr>)
            = (XST_SUCCESS, [b], w1)"
    unfolding w1_def ReadIicReg_def using rc sends recvs by (intro ReadIicRegs_ok) simp_all
  define w2 where "w2 = w1\<lparr>pcErr := ?E1\<rparr>"
  have M1: "MAY_DIE (w1\<lparr>pcErr := ?E1\<rparr>) = Inr w2"
    using rc by (simp add: MAY_DIE_def w2_def w1_def)
  define w3 where "w3 = (if 0xBC \<noteq> [b] ! 0 then w2\<lparr>rc := uint ([b] ! 0), pcErr := ?E2\<rparr> else w2)"
  have w3: "rc w3 = XST_SUCCESS" "send_results w3 = 2 # ?S" "recv_results w3 = ?R"
    using rc ident by (auto simp: w3_def w2_def w1_def XST_SUCCESS_def)
  have M2: "MAY_DIE (if 0xBC \<noteq> [b] ! 0 then w2\<lparr>rc := uint ([b] ! 0), pcErr := ?E2\<rparr> else w2)
            = Inr w3"
    unfolding w3_def [symmetric] by (rule MAY_DIE_ok) (rule w3(1))
  define w4 where "w4 = w3\<lparr>send_results := ?S,
       trace := trace w3 @ [IicSend ?a [HYGROMETER_REG_CTRL_REG2, HYGROMETER_BFLD_BOOT] XIIC_STOP]\<rparr>"
  have W4: "WriteIicReg ?a HYGROMETER_REG_CTRL_REG2 HYGROMETER_BFLD_BOOT w3 = (XST_SUCCESS, w4)"
    unfolding w4_def using w3 by (intro WriteIicReg_ok) simp_all
  define w5 where "w5 = w4\<lparr>pcErr := ?E3\<rparr>"
  have w5: "rc w5 = XST_SUCCESS" "send_results w5 = replicate (length bo) 1 @ 1 # ss"
    "recv_results w5 = map (\<lambda>x. (nat 1, x)) bo @ (nat 1, [c]) # rs"
    using w3 by (simp_all add: w5_def w4_def)
  have M3: "MAY_DIE (w4\<lparr>pcErr := ?E3\<rparr>) = Inr w5"
    using w5 by (simp add: MAY_DIE_def w5_def)
  define w6 where "w6 = w5\<lparr>pcErr := ?E4,
      send_results := ss, recv_results := rs,
      trace := trace w5 @ concat (replicate (length bo)
                   [IicSend ?a [if (1::int) > 1 then HYGROMETER_REG_CTRL_REG2 OR 0x80
                                else HYGROMETER_REG_CTRL_REG2] XIIC_REPEATED_START,
                    IicRecv ?a 1 XIIC_STOP, TaskDelay (MS_TO_TICKS 1)])
                @ [IicSend ?a [if (1::int) > 1 then HYGROMETER_REG_CTRL_REG2 OR 0x80
                               else HYGROMETER_REG_CTRL_REG2] XIIC_REPEATED_START,
                   IicRecv ?a 1 XIIC_STOP]\<rparr>"
  have P: "poll ?a 1 HYGROMETER_REG_CTRL_REG2 ?E4 ?r 1000 [b] w5
          = PollDone (1000 - int (length bo) - 1) [c] w6"
    unfolding w6_def using w5 busy ready len
    by (intro poll_ready) auto
  have w6: "rc w6 = XST_SUCCESS"
    using w5 by (simp add: w6_def)
  have M4: "(if 1000 - int (length bo) - 1 \<le> 0 then MAY_DIE (w6\<lparr>pcErr := ?E5\<rparr>) else Inr w6)
            = Inr w6"
    using len by simp
  have A: "StartHygrometer w = StartHygrometer_calibrate w6"
    by (simp only: StartHygrometer_def Let_def R1 prod.case M1 or_die_def sum.case M2 W4 M3 P
        poll_or_die_def poll_result.case M4)
  have B: "w6 = w\<lparr>pcErr := ?E4, eTopic := TOPIC_HYGROMETER_STATUS,
          send_results := ss, recv_results := rs,
          trace := trace w
            @ [IicSend ?a [HYGROMETER_REG_WHO_AM_I] XIIC_REPEATED_START,
               IicRecv ?a 1 XIIC_STOP,
               IicSend ?a [HYGROMETER_REG_CTRL_REG2, HYGROMETER_BFLD_BOOT] XIIC_STOP]
            @ concat (replicate (length bo)
                [IicSend ?a [HYGROMETER_REG_CTRL_REG2] XIIC_REPEATED_START,
                 IicRecv ?a 1 XIIC_STOP, TaskDelay (MS_TO_TICKS 1)])
            @ [IicSend ?a [HYGROMETER_REG_CTRL_REG2] XIIC_REPEATED_START,
               IicRecv ?a 1 XIIC_STOP]\<rparr>"
    using ident rc
    by (cases w) (auto simp: w6_def w5_def w4_def w3_def w2_def w1_def XST_SUCCESS_def)
  show ?thesis
    by (simp only: A B)
qed

text \<open>The calibration read and the power-up of the hygrometer.\<close>

lemma StartHygrometer_calibrate_ok:
  assumes rc: "rc w = XST_SUCCESS"
    and sends: "send_results w = 1 # 2 # ss"
    and recvs: "recv_results w = (16, cal) # rs"
    and len: "length cal = length (pbHygrometerCalibration w)"
  shows "StartHygrometer_calibrate w =
     prvPublishTopic TOPIC_HYGROMETER_STATUS ''Hygrometer started'' []
       (w\<lparr>pbHygrometerCalibration := cal,
          pcErr := ''WriteIicReg(HYGROMETER_REG_CTRL_REG1::HYGROMETER_BFLD_PD) -> %08x'',
          send_results := ss, recv_results := rs,
          trace := trace w
            @ [IicSend HYGROMETER_SLAVE_ADDRESS [HYGROMETER_REG_CALIB_0 OR 0x80] XIIC_REPEATED_START,
               IicRecv HYGROMETER_SLAVE_ADDRESS 16 XIIC_STOP,
               IicSend HYGROMETER_SLAVE_ADDRESS
                 [HYGROMETER_REG_CTRL_REG1, HYGROMETER_BFLD_PD] XIIC_STOP,
               TaskDelay (MS_TO_TICKS 1)]\<rparr>)"
proof -
  let ?a = HYGROMETER_SLAVE_ADDRESS
  let ?E1 = "''ReadIicRegs(HYGROMETER_REG_CALIB_0) -> %08x''"
  let ?E2 = "''WriteIicReg(HYGROMETER_REG_CTRL_REG1::HYGROMETER_BFLD_PD) -> %08x''"
  define w8 where "w8 = w\<lparr>send_results := 2 # ss, recv_results := rs,
       trace := trace w
          @ [IicSend ?a [if (16::int) > 1 then HYGROMETER_REG_CALIB_0 OR 0x80
                         else HYGROMETER_REG_CALIB_0] XIIC_REPEATED_START,
             IicRecv ?a 16 XIIC_STOP]\<rparr>"
  have R: "ReadIicRegs ?a 16 HYGROMETER_REG_CALIB_0 (pbHygrometerCalibration w) w
            = (XST_SUCCESS, cal, w8)"
    unfolding w8_def using rc sends recvs len by (intro ReadIicRegs_ok) simp_all
  define w9 where "w9 = w8\<lparr>pbHygrometerCalibration := cal, pcErr := ?E1\<rparr>"
  have w9: "rc w9 = XST_SUCCESS" "send_results w9 = 2 # ss"
    using rc by (simp_all add: w9_def w8_def)
  have M1: "MAY_DIE (w8\<lparr>pbHygrometerCalibration := cal, pcErr := ?E1\<rparr>) = Inr w9"
    unfolding w9_def [symmetric] by (rule MAY_DIE_ok) (rule w9(1))
  define w10 where "w10 = w9\<lparr>send_results := ss,
       trace := trace w9 @ [IicSend ?a [HYGROMETER_REG_CTRL_REG1, HYGROMETER_BFLD_PD] XIIC_STOP]\<rparr>"
  have W10: "WriteIicReg ?a HYGROMETER_REG_CTRL_REG1 HYGROMETER_BFLD_PD w9 = (XST_SUCCESS, w10)"
    unfolding w10_def using w9 by (intro WriteIicReg_ok) simp_all
  define w11 where "w11 = w10\<lparr>pcErr := ?E2\<rparr>"
  have M2: "MAY_DIE (w10\<lparr>pcErr := ?E2\<rparr>) = Inr w11"
    unfolding w11_def [symmetric] by (rule MAY_DIE_ok) (simp add: w11_def w10_def w9)
  have A: "StartHygrometer_calibrate w =
      prvPublishTopic TOPIC_HYGROMETER_STATUS ''Hygrometer started'' []
        (vTaskDelay (MS_TO_TICKS 1) w11)"
    by (simp only: StartHygrometer_calibrate_def Let_def R prod.case M1 or_die_def sum.case
        W10 M2)
  have B: "vTaskDelay (MS_TO_TICKS 1) w11 =
       w\<lparr>pbHygrometerCalibration := cal, pcErr := ?E2, send_results := ss, recv_results := rs,
          trace := trace w
            @ [IicSend ?a [HYGROMETER_REG_CALIB_0 OR 0x80] XIIC_REPEATED_START,
               IicRecv ?a 16 XIIC_STOP,
               IicSend ?a [HYGROMETER_REG_CTRL_REG1, HYGROMETER_BFLD_PD] XIIC_STOP,
               TaskDelay (MS_TO_TICKS 1)]\<rparr>"
    by (cases w) (simp add: vTaskDelay_def emit_def w11_def w10_def w9_def w8_def)
  show ?thesis
    by (simp only: A B)
qed

subsection \<open>Sampling: a timeout, and a result code that is already a failure\<close>

text \<open>
  \<^verbatim>\<open>SampleBarometer\<close> entered with a result code other than success, on a bus that takes
  the write of the one-shot bit: the write goes out, \<^verbatim>\<open>MAY_DIE\<close> inside \<^verbatim>\<open>WriteIicRegs\<close>
  publishes the old error text, \<^verbatim>\<open>MAY_DIE\<close> in \<^verbatim>\<open>SampleBarometer\<close> publishes the text of the
  write, and the function returns.
\<close>

lemma SampleBarometer_stale:
  assumes "rc w \<noteq> XST_SUCCESS" and "send_results w = 2 # ss"
  shows "SampleBarometer w =
     prvPublishTopic TOPIC_BAROMETER_STATUS
       ''WriteIicReg(BAROMETER_REG_CTRL_REG2::BAROMETER_BFLD_ONE_SHOT) -> %08x'' [ArgInt (rc w)]
       ((prvPublishTopic TOPIC_BAROMETER_STATUS (pcErr w) [ArgInt (rc w)]
           (w\<lparr>eTopic := TOPIC_BAROMETER_STATUS, send_results := ss,
              trace := trace w @ [IicSend BAROMETER_SLAVE_ADDRESS
                 [BAROMETER_REG_CTRL_REG2, BAROMETER_BFLD_ONE_SHOT] XIIC_STOP]\<rparr>))
        \<lparr>pcErr := ''WriteIicReg(BAROMETER_REG_CTRL_REG2::BAROMETER_BFLD_ONE_SHOT) -> %08x''\<rparr>)"
  using assms
  by (cases w)
     (simp add: SampleBarometer_def WriteIicReg_def WriteIicRegs_def XIic_Send_def emit_def
      MAY_DIE_def or_die_def Let_def)

text \<open>
  \<^verbatim>\<open>SampleHygrometer\<close> when the two data-ready bits are not both set at any of the 50 polls
  of the status register.
\<close>

lemma SampleHygrometer_data_timeout:
  assumes rc: "rc w = XST_SUCCESS"
    and sends: "send_results w = 2 # 1 # replicate (length bs) 1 @ ss"
    and recvs: "recv_results w = (1, [b]) # map (\<lambda>x. (5, x)) bs @ rs"
    and done1: "b AND HYGROMETER_BFLD_ONE_SHOT = 0"
    and len: "length bs = 50"
    and busy: "\<forall>x\<in>set bs. length x = 5
                  \<and> (x ! 0) AND (HYGROMETER_BFLD_H_DA OR HYGROMETER_BFLD_T_DA)
                      \<noteq> HYGROMETER_BFLD_H_DA OR HYGROMETER_BFLD_T_DA"
  shows "SampleHygrometer w =
     prvPublishTopic TOPIC_HYGROMETER_STATUS ''Timed out waiting for HYGROMETER P_DA and T_DA''
       [ArgInt XST_FAILURE]
       ((w\<lparr>pcErr := ''ReadIicRegs(6@HYGROMETER_REG_STATUS_REG) -> %08x'',
           eTopic := TOPIC_HYGROMETER_STATUS, send_results := ss, recv_results := rs,
           trace := trace w
             @ [IicSend HYGROMETER_SLAVE_ADDRESS
                  [HYGROMETER_REG_CTRL_REG2, HYGROMETER_BFLD_ONE_SHOT] XIIC_STOP,
                IicSend HYGROMETER_SLAVE_ADDRESS [HYGROMETER_REG_CTRL_REG2] XIIC_REPEATED_START,
                IicRecv HYGROMETER_SLAVE_ADDRESS 1 XIIC_STOP]
             @ concat (replicate (length bs)
                 [IicSend HYGROMETER_SLAVE_ADDRESS [HYGROMETER_REG_STATUS_REG OR 0x80]
                    XIIC_REPEATED_START,
                  IicRecv HYGROMETER_SLAVE_ADDRESS 5 XIIC_STOP, TaskDelay (MS_TO_TICKS 1)])\<rparr>)
        \<lparr>rc := XST_FAILURE, pcErr := ''Timed out waiting for HYGROMETER P_DA and T_DA''\<rparr>)"
proof -
  let ?a = HYGROMETER_SLAVE_ADDRESS
  let ?E1 = "''WriteIicReg(HYGROMETER_REG_CTRL_REG2::HYGROMETER_BFLD_ONE_SHOT) -> %08x''"
  let ?E2 = "''ReadIicRegs(6@HYGROMETER_REG_STATUS_REG) -> %08x''"
  let ?E3 = "''Timed out waiting for HYGROMETER P_DA and T_DA''"
  let ?r1 = "\<lambda>pb. 0 = (pb ! 0) AND HYGROMETER_BFLD_ONE_SHOT"
  let ?r2 = "\<lambda>pb. (HYGROMETER_BFLD_H_DA OR HYGROMETER_BFLD_T_DA)
                      = (pb ! 0) AND (HYGROMETER_BFLD_H_DA OR HYGROMETER_BFLD_T_DA)"
  define w1 where "w1 = (w\<lparr>eTopic := TOPIC_HYGROMETER_STATUS\<rparr>)
      \<lparr>send_results := 1 # replicate (length bs) 1 @ ss,
       trace := trace (w\<lparr>eTopic := TOPIC_HYGROMETER_STATUS\<rparr>)
          @ [IicSend ?a [HYGROMETER_REG_CTRL_REG2, HYGROMETER_BFLD_ONE_SHOT] XIIC_STOP]\<rparr>"
  define w2 where "w2 = w1\<lparr>pcErr := ?E1\<rparr>"
  have W: "WriteIicReg ?a HYGROMETER_REG_CTRL_REG2 HYGROMETER_BFLD_ONE_SHOT
             (w\<lparr>eTopic := TOPIC_HYGROMETER_STATUS\<rparr>) = (XST_SUCCESS, w1)"
    unfolding w1_def using rc sends by (intro WriteIicReg_ok) simp_all
  have w2: "rc w2 = XST_SUCCESS"
    "send_results w2 = replicate (length ([] :: u8 list list)) 1 @ 1 # replicate (length bs) 1 @ ss"
    "recv_results w2 = map (\<lambda>x. (nat 1, x)) [] @ (nat 1, [b]) # map (\<lambda>x. (5, x)) bs @ rs"
    using rc recvs by (simp_all add: w2_def w1_def)
  have M1: "MAY_DIE (w1\<lparr>pcErr := ?E1\<rparr>) = Inr w2"
    unfolding w2_def [symmetric] by (rule MAY_DIE_ok) (rule w2(1))
  define w3 where "w3 = w2\<lparr>pcErr := ?E2,
      send_results := replicate (length bs) 1 @ ss,
      recv_results := map (\<lambda>x. (5, x)) bs @ rs,
      trace := trace w2 @ concat (replicate (length ([] :: u8 list list))
                   [IicSend ?a [if (1::int) > 1 then HYGROMETER_REG_CTRL_REG2 OR 0x80
                                else HYGROMETER_REG_CTRL_REG2] XIIC_REPEATED_START,
                    IicRecv ?a 1 XIIC_STOP, TaskDelay (MS_TO_TICKS 1)])
               @ [IicSend ?a [if (1::int) > 1 then HYGROMETER_REG_CTRL_REG2 OR 0x80
                              else HYGROMETER_REG_CTRL_REG2] XIIC_REPEATED_START,
                  IicRecv ?a 1 XIIC_STOP]\<rparr>"
  have P1: "poll ?a 1 HYGROMETER_REG_CTRL_REG2 ?E2 ?r1 10000 [0] w2
          = PollDone (10000 - int (length ([] :: u8 list list)) - 1) [b] w3"
    unfolding w3_def using w2 done1
    by (intro poll_ready) auto
  have w3: "rc w3 = XST_SUCCESS"
    "send_results w3 = replicate (length bs) 1 @ ss"
    "recv_results w3 = map (\<lambda>x. (nat 5, x)) bs @ rs"
    using w2 by (simp_all add: w3_def)
  have M3: "MAY_DIE (if 10000 - int (length ([] :: u8 list list)) - 1 \<le> 0
                     then w3\<lparr>rc := XST_FAILURE,
                             pcErr := ''Timed out waiting for HYGROMETER_BFLD_ONE_SHOT''\<rparr>
                     else w3) = Inr w3"
    using w3 by (simp add: MAY_DIE_def)
  define w5 where "w5 = w3\<lparr>pcErr := (if bs = [] then pcErr w3 else ?E2),
      send_results := ss, recv_results := rs,
      trace := trace w3 @ concat (replicate (length bs)
                   [IicSend ?a [if (5::int) > 1 then HYGROMETER_REG_STATUS_REG OR 0x80
                                else HYGROMETER_REG_STATUS_REG] XIIC_REPEATED_START,
                    IicRecv ?a 5 XIIC_STOP, TaskDelay (MS_TO_TICKS 1)])\<rparr>"
  have "poll ?a 5 HYGROMETER_REG_STATUS_REG ?E2 ?r2 (int (length bs)) (replicate 5 0) w3
          = PollDone (- 1) (last (replicate 5 0 # bs)) w5"
    unfolding w5_def using w3 busy
    by (intro poll_exhausted) auto
  then have P2: "poll ?a 5 HYGROMETER_REG_STATUS_REG ?E2 ?r2 50 (replicate 5 0) w3
          = PollDone (- 1) (last (replicate 5 0 # bs)) w5"
    by (simp add: len)
  have M5: "MAY_DIE (if (- 1 :: int) \<le> 0
                     then w5\<lparr>rc := XST_FAILURE, pcErr := ?E3\<rparr>
                     else w5)
           = Inl (prvPublishTopic TOPIC_HYGROMETER_STATUS ?E3 [ArgInt XST_FAILURE]
                    (w5\<lparr>rc := XST_FAILURE, pcErr := ?E3\<rparr>))"
    by (simp add: MAY_DIE_def w5_def w3_def w2_def w1_def XST_FAILURE_def XST_SUCCESS_def)
  have A: "SampleHygrometer w =
      prvPublishTopic TOPIC_HYGROMETER_STATUS ?E3 [ArgInt XST_FAILURE]
         (w5\<lparr>rc := XST_FAILURE, pcErr := ?E3\<rparr>)"
    by (simp only: SampleHygrometer_def Let_def W prod.case M1 or_die_def sum.case P1
        poll_or_die_def poll_result.case M3 P2 M5)
  have B: "w5 = w\<lparr>pcErr := ?E2,
           eTopic := TOPIC_HYGROMETER_STATUS, send_results := ss, recv_results := rs,
           trace := trace w
             @ [IicSend ?a [HYGROMETER_REG_CTRL_REG2, HYGROMETER_BFLD_ONE_SHOT] XIIC_STOP,
                IicSend ?a [HYGROMETER_REG_CTRL_REG2] XIIC_REPEATED_START,
                IicRecv ?a 1 XIIC_STOP]
             @ concat (replicate (length bs)
                 [IicSend ?a [HYGROMETER_REG_STATUS_REG OR 0x80] XIIC_REPEATED_START,
                  IicRecv ?a 5 XIIC_STOP, TaskDelay (MS_TO_TICKS 1)])\<rparr>"
    using len by (cases w) (auto simp: w5_def w3_def w2_def w1_def)
  show ?thesis
    by (simp only: A B)
qed

subsection \<open>Start-up: the boot timeout\<close>

text \<open>
  Claim C1 says that the exhaustion of the boot poll (100 rounds for the barometer, 1000
  for the hygrometer) leaves a result code other than success, publishes the boot timeout
  on the status topic of the sensor and skips the rest of the start. The code does
  otherwise. When the boot bit is still set after the last poll, both functions store the
  text of the boot timeout and leave the result code alone, so \<^verbatim>\<open>MAY_DIE\<close> does not jump:
  the barometer is powered up and \<open>Barometer started\<close> is published, the hygrometer reads
  its calibration block, is powered up and \<open>Hygrometer started\<close> is published. The result
  code is success at the end and no timeout is published.
\<close>

theorem boot_timeout_not_reported:
  assumes "rc wb = XST_SUCCESS"
    and "send_results wb = 1 # 2 # 1 # 2 # replicate (length bo) 1 @ 2 # ss"
    and "recv_results wb = (1, [0xBD]) # (1, [c]) # map (\<lambda>x. (1, x)) bo @ rs"
    and "c AND BAROMETER_BFLD_SWRESET = 0"
    and "length bo = 100"
    and "\<forall>x\<in>set bo. length x = 1 \<and> (x ! 0) AND BAROMETER_BFLD_BOOT \<noteq> 0"
    and "rc wh = XST_SUCCESS"
    and "send_results wh = 1 # 2 # replicate (length bh) 1 @ 1 # 2 # sh"
    and "recv_results wh = (1, [0xBC]) # map (\<lambda>x. (1, x)) bh @ (16, cal) # rh"
    and "length bh = 1000"
    and "\<forall>x\<in>set bh. length x = 1 \<and> (x ! 0) AND HYGROMETER_BFLD_BOOT \<noteq> 0"
    and "length cal = length (pbHygrometerCalibration wh)"
  shows "StartBarometer wb =
     prvPublishTopic TOPIC_BAROMETER_STATUS ''Barometer started'' []
       (wb\<lparr>pcErr := ''WriteIicReg(BAROMETER_REG_CTRL_REG1::BAROMETER_BFLD_PD) -> %08x'',
          eTopic := TOPIC_BAROMETER_STATUS, send_results := ss, recv_results := rs,
          trace := trace wb
            @ [IicSend BAROMETER_SLAVE_ADDRESS [BAROMETER_REG_WHO_AM_I] XIIC_REPEATED_START,
               IicRecv BAROMETER_SLAVE_ADDRESS 1 XIIC_STOP,
               IicSend BAROMETER_SLAVE_ADDRESS
                 [BAROMETER_REG_CTRL_REG2, BAROMETER_BFLD_SWRESET] XIIC_STOP,
               IicSend BAROMETER_SLAVE_ADDRESS [BAROMETER_REG_CTRL_REG2] XIIC_REPEATED_START,
               IicRecv BAROMETER_SLAVE_ADDRESS 1 XIIC_STOP,
               IicSend BAROMETER_SLAVE_ADDRESS
                 [BAROMETER_REG_CTRL_REG2, BAROMETER_BFLD_BOOT] XIIC_STOP]
            @ concat (replicate 100
                [IicSend BAROMETER_SLAVE_ADDRESS [BAROMETER_REG_CTRL_REG2] XIIC_REPEATED_START,
                 IicRecv BAROMETER_SLAVE_ADDRESS 1 XIIC_STOP, TaskDelay (MS_TO_TICKS 1)])
            @ [IicSend BAROMETER_SLAVE_ADDRESS
                 [BAROMETER_REG_CTRL_REG1, BAROMETER_BFLD_PD] XIIC_STOP,
               TaskDelay (MS_TO_TICKS 1)]\<rparr>)
   \<and> rc (StartBarometer wb) = XST_SUCCESS
   \<and> StartHygrometer wh =
     prvPublishTopic TOPIC_HYGROMETER_STATUS ''Hygrometer started'' []
       (wh\<lparr>pbHygrometerCalibration := cal,
          pcErr := ''WriteIicReg(HYGROMETER_REG_CTRL_REG1::HYGROMETER_BFLD_PD) -> %08x'',
          eTopic := TOPIC_HYGROMETER_STATUS, send_results := sh, recv_results := rh,
          trace := trace wh
            @ [IicSend HYGROMETER_SLAVE_ADDRESS [HYGROMETER_REG_WHO_AM_I] XIIC_REPEATED_START,
               IicRecv HYGROMETER_SLAVE_ADDRESS 1 XIIC_STOP,
               IicSend HYGROMETER_SLAVE_ADDRESS
                 [HYGROMETER_REG_CTRL_REG2, HYGROMETER_BFLD_BOOT] XIIC_STOP]
            @ concat (replicate 1000
                [IicSend HYGROMETER_SLAVE_ADDRESS [HYGROMETER_REG_CTRL_REG2] XIIC_REPEATED_START,
                 IicRecv HYGROMETER_SLAVE_ADDRESS 1 XIIC_STOP, TaskDelay (MS_TO_TICKS 1)])
            @ [IicSend HYGROMETER_SLAVE_ADDRESS [HYGROMETER_REG_CALIB_0 OR 0x80] XIIC_REPEATED_START,
               IicRecv HYGROMETER_SLAVE_ADDRESS 16 XIIC_STOP,
               IicSend HYGROMETER_SLAVE_ADDRESS
                 [HYGROMETER_REG_CTRL_REG1, HYGROMETER_BFLD_PD] XIIC_STOP,
               TaskDelay (MS_TO_TICKS 1)]\<rparr>)
   \<and> rc (StartHygrometer wh) = XST_SUCCESS"
proof -
  let ?a = BAROMETER_SLAVE_ADDRESS
  define w6 where "w6 = wb\<lparr>pcErr := ''ReadIicReg(BAROMETER_REG_CTRL_REG2) -> %08x'',
        eTopic := TOPIC_BAROMETER_STATUS,
        send_results := 2 # replicate (length bo) 1 @ 2 # ss,
        recv_results := map (\<lambda>x. (1, x)) bo @ rs,
        trace := trace wb
          @ [IicSend ?a [BAROMETER_REG_WHO_AM_I] XIIC_REPEATED_START,
             IicRecv ?a 1 XIIC_STOP,
             IicSend ?a [BAROMETER_REG_CTRL_REG2, BAROMETER_BFLD_SWRESET] XIIC_STOP]
          @ concat (replicate (length ([] :: u8 list list))
              [IicSend ?a [BAROMETER_REG_CTRL_REG2] XIIC_REPEATED_START,
               IicRecv ?a 1 XIIC_STOP, TaskDelay (MS_TO_TICKS 1)])
          @ [IicSend ?a [BAROMETER_REG_CTRL_REG2] XIIC_REPEATED_START,
             IicRecv ?a 1 XIIC_STOP]\<rparr>"
  have F: "StartBarometer wb = StartBarometer_boot [c] w6"
    using StartBarometer_front [where w = wb and sw = "[]" and b = "0xBD" and c = c
        and ss = "2 # replicate (length bo) 1 @ 2 # ss" and rs = "map (\<lambda>x. (1, x)) bo @ rs"]
      assms(1-4)
    by (simp add: Let_def or_die_def w6_def)
  have w6: "rc w6 = XST_SUCCESS" "send_results w6 = 2 # replicate (length bo) 1 @ 2 # ss"
    "recv_results w6 = map (\<lambda>x. (1, x)) bo @ rs"
    using assms(1) by (simp_all add: w6_def)
  have G: "StartBarometer wb = prvPublishTopic TOPIC_BAROMETER_STATUS ''Barometer started'' []
       (w6\<lparr>pcErr := ''WriteIicReg(BAROMETER_REG_CTRL_REG1::BAROMETER_BFLD_PD) -> %08x'',
          send_results := ss, recv_results := rs,
          trace := trace w6
            @ [IicSend ?a [BAROMETER_REG_CTRL_REG2, BAROMETER_BFLD_BOOT] XIIC_STOP]
            @ concat (replicate (length bo)
                [IicSend ?a [BAROMETER_REG_CTRL_REG2] XIIC_REPEATED_START,
                 IicRecv ?a 1 XIIC_STOP, TaskDelay (MS_TO_TICKS 1)])
            @ [IicSend ?a [BAROMETER_REG_CTRL_REG1, BAROMETER_BFLD_PD] XIIC_STOP,
               TaskDelay (MS_TO_TICKS 1)]\<rparr>)"
    unfolding F using w6 assms(5,6) by (intro StartBarometer_boot_exhausted) simp_all
  have B: "StartBarometer wb =
     prvPublishTopic TOPIC_BAROMETER_STATUS ''Barometer started'' []
       (wb\<lparr>pcErr := ''WriteIicReg(BAROMETER_REG_CTRL_REG1::BAROMETER_BFLD_PD) -> %08x'',
          eTopic := TOPIC_BAROMETER_STATUS, send_results := ss, recv_results := rs,
          trace := trace wb
            @ [IicSend ?a [BAROMETER_REG_WHO_AM_I] XIIC_REPEATED_START,
               IicRecv ?a 1 XIIC_STOP,
               IicSend ?a [BAROMETER_REG_CTRL_REG2, BAROMETER_BFLD_SWRESET] XIIC_STOP,
               IicSend ?a [BAROMETER_REG_CTRL_REG2] XIIC_REPEATED_START,
               IicRecv ?a 1 XIIC_STOP,
               IicSend ?a [BAROMETER_REG_CTRL_REG2, BAROMETER_BFLD_BOOT] XIIC_STOP]
            @ concat (replicate 100
                [IicSend ?a [BAROMETER_REG_CTRL_REG2] XIIC_REPEATED_START,
                 IicRecv ?a 1 XIIC_STOP, TaskDelay (MS_TO_TICKS 1)])
            @ [IicSend ?a [BAROMETER_REG_CTRL_REG1, BAROMETER_BFLD_PD] XIIC_STOP,
               TaskDelay (MS_TO_TICKS 1)]\<rparr>)"
    unfolding G using assms(5) by (cases wb) (simp add: w6_def)
  let ?h = HYGROMETER_SLAVE_ADDRESS
  define w7 where "w7 = wh\<lparr>pcErr := ''Hygrometer boot timeout'',
          eTopic := TOPIC_HYGROMETER_STATUS,
          send_results := 1 # 2 # sh, recv_results := (16, cal) # rh,
          trace := trace wh
            @ [IicSend ?h [HYGROMETER_REG_WHO_AM_I] XIIC_REPEATED_START,
               IicRecv ?h 1 XIIC_STOP,
               IicSend ?h [HYGROMETER_REG_CTRL_REG2, HYGROMETER_BFLD_BOOT] XIIC_STOP]
            @ concat (replicate (length bh)
                [IicSend ?h [HYGROMETER_REG_CTRL_REG2] XIIC_REPEATED_START,
                 IicRecv ?h 1 XIIC_STOP, TaskDelay (MS_TO_TICKS 1)])\<rparr>"
  have H: "StartHygrometer wh = StartHygrometer_calibrate w7"
    unfolding w7_def using assms(7-11)
    by (intro StartHygrometer_boot_exhausted [where b = "0xBC"]) simp_all
  have w7: "rc w7 = XST_SUCCESS" "send_results w7 = 1 # 2 # sh"
    "recv_results w7 = (16, cal) # rh" "length cal = length (pbHygrometerCalibration w7)"
    using assms(7,12) by (simp_all add: w7_def)
  have I: "StartHygrometer wh = prvPublishTopic TOPIC_HYGROMETER_STATUS ''Hygrometer started'' []
       (w7\<lparr>pbHygrometerCalibration := cal,
          pcErr := ''WriteIicReg(HYGROMETER_REG_CTRL_REG1::HYGROMETER_BFLD_PD) -> %08x'',
          send_results := sh, recv_results := rh,
          trace := trace w7
            @ [IicSend ?h [HYGROMETER_REG_CALIB_0 OR 0x80] XIIC_REPEATED_START,
               IicRecv ?h 16 XIIC_STOP,
               IicSend ?h [HYGROMETER_REG_CTRL_REG1, HYGROMETER_BFLD_PD] XIIC_STOP,
               TaskDelay (MS_TO_TICKS 1)]\<rparr>)"
    unfolding H using w7 by (intro StartHygrometer_calibrate_ok) simp_all
  have C: "StartHygrometer wh =
     prvPublishTopic TOPIC_HYGROMETER_STATUS ''Hygrometer started'' []
       (wh\<lparr>pbHygrometerCalibration := cal,
          pcErr := ''WriteIicReg(HYGROMETER_REG_CTRL_REG1::HYGROMETER_BFLD_PD) -> %08x'',
          eTopic := TOPIC_HYGROMETER_STATUS, send_results := sh, recv_results := rh,
          trace := trace wh
            @ [IicSend ?h [HYGROMETER_REG_WHO_AM_I] XIIC_REPEATED_START,
               IicRecv ?h 1 XIIC_STOP,
               IicSend ?h [HYGROMETER_REG_CTRL_REG2, HYGROMETER_BFLD_BOOT] XIIC_STOP]
            @ concat (replicate 1000
                [IicSend ?h [HYGROMETER_REG_CTRL_REG2] XIIC_REPEATED_START,
                 IicRecv ?h 1 XIIC_STOP, TaskDelay (MS_TO_TICKS 1)])
            @ [IicSend ?h [HYGROMETER_REG_CALIB_0 OR 0x80] XIIC_REPEATED_START,
               IicRecv ?h 16 XIIC_STOP,
               IicSend ?h [HYGROMETER_REG_CTRL_REG1, HYGROMETER_BFLD_PD] XIIC_STOP,
               TaskDelay (MS_TO_TICKS 1)]\<rparr>)"
    unfolding I using assms(10) by (cases wh) (simp add: w7_def)
  have "rc (StartBarometer wb) = XST_SUCCESS"
    using assms(1) by (simp add: B)
  moreover have "rc (StartHygrometer wh) = XST_SUCCESS"
    using assms(7) by (simp add: C)
  ultimately show ?thesis
    using B C by (simp only: simp_thms)
qed

text \<open>
  A run of the theorem: both chips pass the identity check, the barometer clears its reset
  bit at the first poll, and both answer \<open>0x80\<close> (boot bit set) to every poll of the boot
  bit.
\<close>

theorem boot_timeout_not_reported_witness:
  "StartBarometer (connected_system (1 # 2 # 1 # 2 # replicate 100 1 @ [2])
       ((1, [0xBD]) # (1, [0]) # map (\<lambda>x. (1, x)) (replicate 100 [0x80])) []) =
     (connected_system [] [] [])
       \<lparr>pcErr := ''WriteIicReg(BAROMETER_REG_CTRL_REG1::BAROMETER_BFLD_PD) -> %08x'',
        eTopic := TOPIC_BAROMETER_STATUS,
        trace := [IicSend 0x5D [0x0F] XIIC_REPEATED_START, IicRecv 0x5D 1 XIIC_STOP,
                  IicSend 0x5D [0x21, 0x04] XIIC_STOP,
                  IicSend 0x5D [0x21] XIIC_REPEATED_START, IicRecv 0x5D 1 XIIC_STOP,
                  IicSend 0x5D [0x21, 0x80] XIIC_STOP]
               @ concat (replicate 100
                   [IicSend 0x5D [0x21] XIIC_REPEATED_START, IicRecv 0x5D 1 XIIC_STOP,
                    TaskDelay 1])
               @ [IicSend 0x5D [0x20, 0x80] XIIC_STOP, TaskDelay 1,
                  MqttPublish ''/remote_io_module/sensor_status/LPS25HB_Error''
                    (length ''/remote_io_module/sensor_status/LPS25HB_Error'')
                    ''Barometer started'' []]\<rparr>
   \<and> StartHygrometer (connected_system (1 # 2 # replicate 1000 1 @ [1, 2])
       ((1, [0xBC]) # map (\<lambda>x. (1, x)) (replicate 1000 [0x80]) @ [(16, replicate 16 0x11)]) []) =
     (connected_system [] [] [])
       \<lparr>pbHygrometerCalibration := replicate 16 0x11,
        pcErr := ''WriteIicReg(HYGROMETER_REG_CTRL_REG1::HYGROMETER_BFLD_PD) -> %08x'',
        eTopic := TOPIC_HYGROMETER_STATUS,
        trace := [IicSend 0x5F [0x0F] XIIC_REPEATED_START, IicRecv 0x5F 1 XIIC_STOP,
                  IicSend 0x5F [0x21, 0x80] XIIC_STOP]
               @ concat (replicate 1000
                   [IicSend 0x5F [0x21] XIIC_REPEATED_START, IicRecv 0x5F 1 XIIC_STOP,
                    TaskDelay 1])
               @ [IicSend 0x5F [0xB0] XIIC_REPEATED_START, IicRecv 0x5F 16 XIIC_STOP,
                  IicSend 0x5F [0x20, 0x80] XIIC_STOP, TaskDelay 1,
                  MqttPublish ''/remote_io_module/sensor_status/HTS221_Error''
                    (length ''/remote_io_module/sensor_status/HTS221_Error'')
                    ''Hygrometer started'' []]\<rparr>"
  using boot_timeout_not_reported
    [where wb = "connected_system (1 # 2 # 1 # 2 # replicate 100 1 @ [2])
                   ((1, [0xBD]) # (1, [0]) # map (\<lambda>x. (1, x)) (replicate 100 [0x80])) []"
       and bo = "replicate 100 [0x80]" and c = 0 and ss = "[]" and rs = "[]"
       and wh = "connected_system (1 # 2 # replicate 1000 1 @ [1, 2])
                   ((1, [0xBC]) # map (\<lambda>x. (1, x)) (replicate 1000 [0x80])
                      @ [(16, replicate 16 0x11)]) []"
       and bh = "replicate 1000 [0x80]" and cal = "replicate 16 0x11"
       and sh = "[]" and rh = "[]"]
  by (simp add: connected_system_def publish_defs reg_defs tick_defs XST_SUCCESS_def)

subsection \<open>Start-up: the last round of a poll\<close>

text \<open>
  Claim C2 says of the bounded polls that a timeout is reported when the bit does not
  clear within the bound, and that no timeout is reported when the bit clears at some
  round within the bound, the last one included. The code does otherwise for the last
  round. The reset poll of \<^verbatim>\<open>StartBarometer\<close> counts down from 100 and tests the counter
  for \<open>\<le> 0\<close> after the loop; a \<^verbatim>\<open>break\<close> in round 100 leaves the counter at 0. So when the
  reset bit is set at the first 99 polls and clear at poll 100, the result code becomes a
  failure, \<open>Barometer swreset timeout\<close> is published and the boot step is not reached.
\<close>

theorem swreset_cleared_on_last_poll:
  assumes "rc w = XST_SUCCESS"
    and "send_results w = 1 # 2 # replicate (length sw) 1 @ 1 # ss"
    and "recv_results w = (1, [0xBD]) # map (\<lambda>x. (1, x)) sw @ (1, [c]) # rs"
    and "length sw = 99"
    and "\<forall>x\<in>set sw. length x = 1 \<and> (x ! 0) AND BAROMETER_BFLD_SWRESET \<noteq> 0"
    and "c AND BAROMETER_BFLD_SWRESET = 0"
  shows "StartBarometer w =
     prvPublishTopic TOPIC_BAROMETER_STATUS ''Barometer swreset timeout'' [ArgInt XST_FAILURE]
       (w\<lparr>rc := XST_FAILURE, pcErr := ''Barometer swreset timeout'',
          eTopic := TOPIC_BAROMETER_STATUS, send_results := ss, recv_results := rs,
          trace := trace w
            @ [IicSend BAROMETER_SLAVE_ADDRESS [BAROMETER_REG_WHO_AM_I] XIIC_REPEATED_START,
               IicRecv BAROMETER_SLAVE_ADDRESS 1 XIIC_STOP,
               IicSend BAROMETER_SLAVE_ADDRESS
                 [BAROMETER_REG_CTRL_REG2, BAROMETER_BFLD_SWRESET] XIIC_STOP]
            @ concat (replicate 99
                [IicSend BAROMETER_SLAVE_ADDRESS [BAROMETER_REG_CTRL_REG2] XIIC_REPEATED_START,
                 IicRecv BAROMETER_SLAVE_ADDRESS 1 XIIC_STOP, TaskDelay (MS_TO_TICKS 1)])
            @ [IicSend BAROMETER_SLAVE_ADDRESS [BAROMETER_REG_CTRL_REG2] XIIC_REPEATED_START,
               IicRecv BAROMETER_SLAVE_ADDRESS 1 XIIC_STOP]\<rparr>)"
proof -
  have "StartBarometer w = (let w6 = w\<lparr>pcErr := ''ReadIicReg(BAROMETER_REG_CTRL_REG2) -> %08x'',
        eTopic := TOPIC_BAROMETER_STATUS, send_results := ss, recv_results := rs,
        trace := trace w
          @ [IicSend BAROMETER_SLAVE_ADDRESS [BAROMETER_REG_WHO_AM_I] XIIC_REPEATED_START,
             IicRecv BAROMETER_SLAVE_ADDRESS 1 XIIC_STOP,
             IicSend BAROMETER_SLAVE_ADDRESS
               [BAROMETER_REG_CTRL_REG2, BAROMETER_BFLD_SWRESET] XIIC_STOP]
          @ concat (replicate (length sw)
              [IicSend BAROMETER_SLAVE_ADDRESS [BAROMETER_REG_CTRL_REG2] XIIC_REPEATED_START,
               IicRecv BAROMETER_SLAVE_ADDRESS 1 XIIC_STOP, TaskDelay (MS_TO_TICKS 1)])
          @ [IicSend BAROMETER_SLAVE_ADDRESS [BAROMETER_REG_CTRL_REG2] XIIC_REPEATED_START,
             IicRecv BAROMETER_SLAVE_ADDRESS 1 XIIC_STOP]\<rparr> in
      or_die (if 100 - int (length sw) - 1 \<le> 0
              then MAY_DIE (w6\<lparr>rc := XST_FAILURE, pcErr := ''Barometer swreset timeout''\<rparr>)
              else Inr w6) (StartBarometer_boot [c]))"
    using assms by (intro StartBarometer_front [where b = "0xBD"]) simp_all
  then show ?thesis
    using assms(4)
    by (cases w)
       (simp add: Let_def or_die_def MAY_DIE_def XST_FAILURE_def XST_SUCCESS_def)
qed

text \<open>A run of the theorem: 99 answers \<open>0x04\<close> (reset bit set), then the answer 0.\<close>

theorem swreset_cleared_on_last_poll_witness:
  "StartBarometer (connected_system (1 # 2 # replicate 99 1 @ [1])
       ((1, [0xBD]) # map (\<lambda>x. (1, x)) (replicate 99 [0x04]) @ [(1, [0])]) []) =
     (connected_system [] [] [])
       \<lparr>rc := XST_FAILURE, pcErr := ''Barometer swreset timeout'',
        eTopic := TOPIC_BAROMETER_STATUS,
        trace := [IicSend 0x5D [0x0F] XIIC_REPEATED_START, IicRecv 0x5D 1 XIIC_STOP,
                  IicSend 0x5D [0x21, 0x04] XIIC_STOP]
               @ concat (replicate 99
                   [IicSend 0x5D [0x21] XIIC_REPEATED_START, IicRecv 0x5D 1 XIIC_STOP,
                    TaskDelay 1])
               @ [IicSend 0x5D [0x21] XIIC_REPEATED_START, IicRecv 0x5D 1 XIIC_STOP,
                  MqttPublish ''/remote_io_module/sensor_status/LPS25HB_Error''
                    (length ''/remote_io_module/sensor_status/LPS25HB_Error'')
                    ''Barometer swreset timeout'' [ArgInt 1]]\<rparr>"
  using swreset_cleared_on_last_poll
    [where w = "connected_system (1 # 2 # replicate 99 1 @ [1])
                  ((1, [0xBD]) # map (\<lambda>x. (1, x)) (replicate 99 [0x04]) @ [(1, [0])]) []"
       and sw = "replicate 99 [0x04]" and c = 0 and ss = "[]" and rs = "[]"]
  by (simp add: connected_system_def publish_defs reg_defs tick_defs XST_SUCCESS_def
      XST_FAILURE_def)

subsection \<open>Start-up: the identity byte zero\<close>

text \<open>
  Claim C3 says that every identity byte other than the expected one (\<open>0xBD\<close> for the
  barometer, \<open>0xBC\<close> for the hygrometer) aborts the start before the reset and boot steps
  and is published as the argument of a mismatch report. The code does otherwise for the
  byte 0. On a mismatch it stores the byte itself as the result code, and 0 is the code of
  success, so \<^verbatim>\<open>MAY_DIE\<close> does not jump: with the identity byte 0 both functions go through
  every step of the start and publish \<open>Barometer started\<close> and \<open>Hygrometer started\<close>; no
  mismatch is published.
\<close>

theorem zero_identity_byte_not_detected:
  assumes "rc wb = XST_SUCCESS"
    and "send_results wb = 1 # 2 # 1 # 2 # 1 # 2 # ss"
    and "recv_results wb = (1, [0]) # (1, [c]) # (1, [d]) # rs"
    and "c AND BAROMETER_BFLD_SWRESET = 0"
    and "d AND BAROMETER_BFLD_BOOT = 0"
    and "rc wh = XST_SUCCESS"
    and "send_results wh = 1 # 2 # 1 # 1 # 2 # sh"
    and "recv_results wh = (1, [0]) # (1, [e]) # (16, cal) # rh"
    and "e AND HYGROMETER_BFLD_BOOT = 0"
    and "length cal = length (pbHygrometerCalibration wh)"
  shows "StartBarometer wb =
     prvPublishTopic TOPIC_BAROMETER_STATUS ''Barometer started'' []
       (wb\<lparr>pcErr := ''WriteIicReg(BAROMETER_REG_CTRL_REG1::BAROMETER_BFLD_PD) -> %08x'',
          eTopic := TOPIC_BAROMETER_STATUS, send_results := ss, recv_results := rs,
          trace := trace wb
            @ [IicSend BAROMETER_SLAVE_ADDRESS [BAROMETER_REG_WHO_AM_I] XIIC_REPEATED_START,
               IicRecv BAROMETER_SLAVE_ADDRESS 1 XIIC_STOP,
               IicSend BAROMETER_SLAVE_ADDRESS
                 [BAROMETER_REG_CTRL_REG2, BAROMETER_BFLD_SWRESET] XIIC_STOP,
               IicSend BAROMETER_SLAVE_ADDRESS [BAROMETER_REG_CTRL_REG2] XIIC_REPEATED_START,
               IicRecv BAROMETER_SLAVE_ADDRESS 1 XIIC_STOP,
               IicSend BAROMETER_SLAVE_ADDRESS
                 [BAROMETER_REG_CTRL_REG2, BAROMETER_BFLD_BOOT] XIIC_STOP,
               IicSend BAROMETER_SLAVE_ADDRESS [BAROMETER_REG_CTRL_REG2] XIIC_REPEATED_START,
               IicRecv BAROMETER_SLAVE_ADDRESS 1 XIIC_STOP,
               IicSend BAROMETER_SLAVE_ADDRESS
                 [BAROMETER_REG_CTRL_REG1, BAROMETER_BFLD_PD] XIIC_STOP,
               TaskDelay (MS_TO_TICKS 1)]\<rparr>)
   \<and> StartHygrometer wh =
     prvPublishTopic TOPIC_HYGROMETER_STATUS ''Hygrometer started'' []
       (wh\<lparr>pbHygrometerCalibration := cal,
          pcErr := ''WriteIicReg(HYGROMETER_REG_CTRL_REG1::HYGROMETER_BFLD_PD) -> %08x'',
          eTopic := TOPIC_HYGROMETER_STATUS, send_results := sh, recv_results := rh,
          trace := trace wh
            @ [IicSend HYGROMETER_SLAVE_ADDRESS [HYGROMETER_REG_WHO_AM_I] XIIC_REPEATED_START,
               IicRecv HYGROMETER_SLAVE_ADDRESS 1 XIIC_STOP,
               IicSend HYGROMETER_SLAVE_ADDRESS
                 [HYGROMETER_REG_CTRL_REG2, HYGROMETER_BFLD_BOOT] XIIC_STOP,
               IicSend HYGROMETER_SLAVE_ADDRESS [HYGROMETER_REG_CTRL_REG2] XIIC_REPEATED_START,
               IicRecv HYGROMETER_SLAVE_ADDRESS 1 XIIC_STOP,
               IicSend HYGROMETER_SLAVE_ADDRESS [HYGROMETER_REG_CALIB_0 OR 0x80] XIIC_REPEATED_START,
               IicRecv HYGROMETER_SLAVE_ADDRESS 16 XIIC_STOP,
               IicSend HYGROMETER_SLAVE_ADDRESS
                 [HYGROMETER_REG_CTRL_REG1, HYGROMETER_BFLD_PD] XIIC_STOP,
               TaskDelay (MS_TO_TICKS 1)]\<rparr>)"
proof -
  let ?a = BAROMETER_SLAVE_ADDRESS
  define w6 where "w6 = wb\<lparr>pcErr := ''ReadIicReg(BAROMETER_REG_CTRL_REG2) -> %08x'',
        eTopic := TOPIC_BAROMETER_STATUS,
        send_results := 2 # replicate (length ([] :: u8 list list)) 1 @ 1 # 2 # ss,
        recv_results := map (\<lambda>x. (1, x)) [] @ (1, [d]) # rs,
        trace := trace wb
          @ [IicSend ?a [BAROMETER_REG_WHO_AM_I] XIIC_REPEATED_START,
             IicRecv ?a 1 XIIC_STOP,
             IicSend ?a [BAROMETER_REG_CTRL_REG2, BAROMETER_BFLD_SWRESET] XIIC_STOP]
          @ concat (replicate (length ([] :: u8 list list))
              [IicSend ?a [BAROMETER_REG_CTRL_REG2] XIIC_REPEATED_START,
               IicRecv ?a 1 XIIC_STOP, TaskDelay (MS_TO_TICKS 1)])
          @ [IicSend ?a [BAROMETER_REG_CTRL_REG2] XIIC_REPEATED_START,
             IicRecv ?a 1 XIIC_STOP]\<rparr>"
  have F: "StartBarometer wb = StartBarometer_boot [c] w6"
    using StartBarometer_front [where w = wb and sw = "[]" and b = 0 and c = c
        and ss = "2 # replicate (length ([] :: u8 list list)) 1 @ 1 # 2 # ss"
        and rs = "map (\<lambda>x. (1, x)) [] @ (1, [d]) # rs"]
      assms(1-4)
    by (simp add: Let_def or_die_def w6_def)
  have w6: "rc w6 = XST_SUCCESS"
    "send_results w6 = 2 # replicate (length ([] :: u8 list list)) 1 @ 1 # 2 # ss"
    "recv_results w6 = map (\<lambda>x. (1, x)) [] @ (1, [d]) # rs"
    using assms(1) by (simp_all add: w6_def)
  have G: "StartBarometer wb = prvPublishTopic TOPIC_BAROMETER_STATUS ''Barometer started'' []
       (w6\<lparr>pcErr := ''WriteIicReg(BAROMETER_REG_CTRL_REG1::BAROMETER_BFLD_PD) -> %08x'',
          send_results := ss, recv_results := rs,
          trace := trace w6
            @ [IicSend ?a [BAROMETER_REG_CTRL_REG2, BAROMETER_BFLD_BOOT] XIIC_STOP]
            @ concat (replicate (length ([] :: u8 list list))
                [IicSend ?a [BAROMETER_REG_CTRL_REG2] XIIC_REPEATED_START,
                 IicRecv ?a 1 XIIC_STOP, TaskDelay (MS_TO_TICKS 1)])
            @ [IicSend ?a [BAROMETER_REG_CTRL_REG2] XIIC_REPEATED_START,
               IicRecv ?a 1 XIIC_STOP,
               IicSend ?a [BAROMETER_REG_CTRL_REG1, BAROMETER_BFLD_PD] XIIC_STOP,
               TaskDelay (MS_TO_TICKS 1)]\<rparr>)"
    unfolding F using w6 assms(5)
    by (intro StartBarometer_boot_ready [where c = d]) simp_all
  have B: "StartBarometer wb =
     prvPublishTopic TOPIC_BAROMETER_STATUS ''Barometer started'' []
       (wb\<lparr>pcErr := ''WriteIicReg(BAROMETER_REG_CTRL_REG1::BAROMETER_BFLD_PD) -> %08x'',
          eTopic := TOPIC_BAROMETER_STATUS, send_results := ss, recv_results := rs,
          trace := trace wb
            @ [IicSend ?a [BAROMETER_REG_WHO_AM_I] XIIC_REPEATED_START,
               IicRecv ?a 1 XIIC_STOP,
               IicSend ?a [BAROMETER_REG_CTRL_REG2, BAROMETER_BFLD_SWRESET] XIIC_STOP,
               IicSend ?a [BAROMETER_REG_CTRL_REG2] XIIC_REPEATED_START,
               IicRecv ?a 1 XIIC_STOP,
               IicSend ?a [BAROMETER_REG_CTRL_REG2, BAROMETER_BFLD_BOOT] XIIC_STOP,
               IicSend ?a [BAROMETER_REG_CTRL_REG2] XIIC_REPEATED_START,
               IicRecv ?a 1 XIIC_STOP,
               IicSend ?a [BAROMETER_REG_CTRL_REG1, BAROMETER_BFLD_PD] XIIC_STOP,
               TaskDelay (MS_TO_TICKS 1)]\<rparr>)"
    unfolding G by (cases wb) (simp add: w6_def)
  let ?h = HYGROMETER_SLAVE_ADDRESS
  define w7 where "w7 = wh\<lparr>pcErr := ''ReadIicReg(BAROMETER_REG_CTRL_REG2) -> %08x'',
          eTopic := TOPIC_HYGROMETER_STATUS,
          send_results := 1 # 2 # sh, recv_results := (16, cal) # rh,
          trace := trace wh
            @ [IicSend ?h [HYGROMETER_REG_WHO_AM_I] XIIC_REPEATED_START,
               IicRecv ?h 1 XIIC_STOP,
               IicSend ?h [HYGROMETER_REG_CTRL_REG2, HYGROMETER_BFLD_BOOT] XIIC_STOP]
            @ concat (replicate (length ([] :: u8 list list))
                [IicSend ?h [HYGROMETER_REG_CTRL_REG2] XIIC_REPEATED_START,
                 IicRecv ?h 1 XIIC_STOP, TaskDelay (MS_TO_TICKS 1)])
            @ [IicSend ?h [HYGROMETER_REG_CTRL_REG2] XIIC_REPEATED_START,
               IicRecv ?h 1 XIIC_STOP]\<rparr>"
  have H: "StartHygrometer wh = StartHygrometer_calibrate w7"
    unfolding w7_def using assms(6-9)
    by (intro StartHygrometer_boot_ready [where b = 0 and c = e]) simp_all
  have w7: "rc w7 = XST_SUCCESS" "send_results w7 = 1 # 2 # sh"
    "recv_results w7 = (16, cal) # rh" "length cal = length (pbHygrometerCalibration w7)"
    using assms(6,10) by (simp_all add: w7_def)
  have I: "StartHygrometer wh = prvPublishTopic TOPIC_HYGROMETER_STATUS ''Hygrometer started'' []
       (w7\<lparr>pbHygrometerCalibration := cal,
          pcErr := ''WriteIicReg(HYGROMETER_REG_CTRL_REG1::HYGROMETER_BFLD_PD) -> %08x'',
          send_results := sh, recv_results := rh,
          trace := trace w7
            @ [IicSend ?h [HYGROMETER_REG_CALIB_0 OR 0x80] XIIC_REPEATED_START,
               IicRecv ?h 16 XIIC_STOP,
               IicSend ?h [HYGROMETER_REG_CTRL_REG1, HYGROMETER_BFLD_PD] XIIC_STOP,
               TaskDelay (MS_TO_TICKS 1)]\<rparr>)"
    unfolding H using w7 by (intro StartHygrometer_calibrate_ok) simp_all
  have C: "StartHygrometer wh =
     prvPublishTopic TOPIC_HYGROMETER_STATUS ''Hygrometer started'' []
       (wh\<lparr>pbHygrometerCalibration := cal,
          pcErr := ''WriteIicReg(HYGROMETER_REG_CTRL_REG1::HYGROMETER_BFLD_PD) -> %08x'',
          eTopic := TOPIC_HYGROMETER_STATUS, send_results := sh, recv_results := rh,
          trace := trace wh
            @ [IicSend ?h [HYGROMETER_REG_WHO_AM_I] XIIC_REPEATED_START,
               IicRecv ?h 1 XIIC_STOP,
               IicSend ?h [HYGROMETER_REG_CTRL_REG2, HYGROMETER_BFLD_BOOT] XIIC_STOP,
               IicSend ?h [HYGROMETER_REG_CTRL_REG2] XIIC_REPEATED_START,
               IicRecv ?h 1 XIIC_STOP,
               IicSend ?h [HYGROMETER_REG_CALIB_0 OR 0x80] XIIC_REPEATED_START,
               IicRecv ?h 16 XIIC_STOP,
               IicSend ?h [HYGROMETER_REG_CTRL_REG1, HYGROMETER_BFLD_PD] XIIC_STOP,
               TaskDelay (MS_TO_TICKS 1)]\<rparr>)"
    unfolding I by (cases wh) (simp add: w7_def)
  show ?thesis
    using B C by (simp only: simp_thms)
qed

text \<open>
  A run of the theorem: each chip answers 0 to the identity read and to the polls, and the
  hygrometer gives 16 calibration bytes \<open>0x11\<close>.
\<close>

theorem zero_identity_byte_not_detected_witness:
  "StartBarometer (connected_system [1, 2, 1, 2, 1, 2] [(1, [0]), (1, [0]), (1, [0])] []) =
     (connected_system [] [] [])
       \<lparr>pcErr := ''WriteIicReg(BAROMETER_REG_CTRL_REG1::BAROMETER_BFLD_PD) -> %08x'',
        eTopic := TOPIC_BAROMETER_STATUS,
        trace := [IicSend 0x5D [0x0F] XIIC_REPEATED_START, IicRecv 0x5D 1 XIIC_STOP,
                  IicSend 0x5D [0x21, 0x04] XIIC_STOP,
                  IicSend 0x5D [0x21] XIIC_REPEATED_START, IicRecv 0x5D 1 XIIC_STOP,
                  IicSend 0x5D [0x21, 0x80] XIIC_STOP,
                  IicSend 0x5D [0x21] XIIC_REPEATED_START, IicRecv 0x5D 1 XIIC_STOP,
                  IicSend 0x5D [0x20, 0x80] XIIC_STOP, TaskDelay 1,
                  MqttPublish ''/remote_io_module/sensor_status/LPS25HB_Error''
                    (length ''/remote_io_module/sensor_status/LPS25HB_Error'')
                    ''Barometer started'' []]\<rparr>
   \<and> StartHygrometer (connected_system [1, 2, 1, 1, 2]
        [(1, [0]), (1, [0]), (16, replicate 16 0x11)] []) =
     (connected_system [] [] [])
       \<lparr>pbHygrometerCalibration := replicate 16 0x11,
        pcErr := ''WriteIicReg(HYGROMETER_REG_CTRL_REG1::HYGROMETER_BFLD_PD) -> %08x'',
        eTopic := TOPIC_HYGROMETER_STATUS,
        trace := [IicSend 0x5F [0x0F] XIIC_REPEATED_START, IicRecv 0x5F 1 XIIC_STOP,
                  IicSend 0x5F [0x21, 0x80] XIIC_STOP,
                  IicSend 0x5F [0x21] XIIC_REPEATED_START, IicRecv 0x5F 1 XIIC_STOP,
                  IicSend 0x5F [0xB0] XIIC_REPEATED_START, IicRecv 0x5F 16 XIIC_STOP,
                  IicSend 0x5F [0x20, 0x80] XIIC_STOP, TaskDelay 1,
                  MqttPublish ''/remote_io_module/sensor_status/HTS221_Error''
                    (length ''/remote_io_module/sensor_status/HTS221_Error'')
                    ''Hygrometer started'' []]\<rparr>"
  using zero_identity_byte_not_detected
    [where wb = "connected_system [1, 2, 1, 2, 1, 2] [(1, [0]), (1, [0]), (1, [0])] []"
       and c = 0 and d = 0 and ss = "[]" and rs = "[]"
       and wh = "connected_system [1, 2, 1, 1, 2]
                   [(1, [0]), (1, [0]), (16, replicate 16 0x11)] []"
       and e = 0 and cal = "replicate 16 0x11" and sh = "[]" and rh = "[]"]
  by (simp add: connected_system_def publish_defs reg_defs tick_defs XST_SUCCESS_def)

subsection \<open>The sampling loop after a failed sample\<close>

text \<open>
  Claim C8 says of the sampling loop that a failure in the sample of one sensor never
  keeps any sensor from being sampled in the following periods. The code does otherwise.
  The register functions of the bus never set the result code back to success, so a
  failure that the last sample of a period leaves is still there in the next period. When
  the hygrometer times out waiting for its data (its two data-ready bits are not both set
  at any of the 50 polls), its sample ends with the result code of a failure. In the next
  round of the loop the wake time is advanced by the sampling period and
  \<^verbatim>\<open>SampleBarometer\<close> is called; it writes the one-shot bit, publishes the text of the
  hygrometer timeout and the text of its own write on the barometer status topic, and
  returns: no status is polled, no data is read and no pressure or temperature is
  published. The round goes on with the thermocouple and the hygrometer.
\<close>

theorem stale_result_code_aborts_next_barometer_sample:
  assumes "rc w = XST_SUCCESS"
    and "send_results w = 2 # 1 # replicate (length bs) 1 @ 2 # ss"
    and "recv_results w = (1, [b]) # map (\<lambda>x. (5, x)) bs @ rs"
    and "b AND HYGROMETER_BFLD_ONE_SHOT = 0"
    and "length bs = 50"
    and "\<forall>x\<in>set bs. length x = 5
           \<and> (x ! 0) AND (HYGROMETER_BFLD_H_DA OR HYGROMETER_BFLD_T_DA)
               \<noteq> HYGROMETER_BFLD_H_DA OR HYGROMETER_BFLD_T_DA"
  shows "rc (SampleHygrometer w) = XST_FAILURE
   \<and> sampling_round t (SampleHygrometer w) =
     (let t' = t + of_nat (MS_TO_TICKS SAMPLING_PERIOD_MS);
          w1 = emit (TaskDelayUntil t') (SampleHygrometer w);
          w2 = prvPublishTopic TOPIC_BAROMETER_STATUS
                 ''WriteIicReg(BAROMETER_REG_CTRL_REG2::BAROMETER_BFLD_ONE_SHOT) -> %08x''
                 [ArgInt XST_FAILURE]
                 ((prvPublishTopic TOPIC_BAROMETER_STATUS
                     ''Timed out waiting for HYGROMETER P_DA and T_DA'' [ArgInt XST_FAILURE]
                     (w1\<lparr>eTopic := TOPIC_BAROMETER_STATUS, send_results := ss,
                         trace := trace w1 @ [IicSend BAROMETER_SLAVE_ADDRESS
                            [BAROMETER_REG_CTRL_REG2, BAROMETER_BFLD_ONE_SHOT] XIIC_STOP]\<rparr>))
                  \<lparr>pcErr := ''WriteIicReg(BAROMETER_REG_CTRL_REG2::BAROMETER_BFLD_ONE_SHOT) -> %08x''\<rparr>)
      in case SamplePLTempSensor w2 of
           None \<Rightarrow> None
         | Some w3 \<Rightarrow> Some (t', SampleHygrometer w3))"
proof -
  let ?h = HYGROMETER_SLAVE_ADDRESS
  let ?E3 = "''Timed out waiting for HYGROMETER P_DA and T_DA''"
  define wH where "wH = SampleHygrometer w"
  have H: "wH =
     prvPublishTopic TOPIC_HYGROMETER_STATUS ?E3 [ArgInt XST_FAILURE]
       ((w\<lparr>pcErr := ''ReadIicRegs(6@HYGROMETER_REG_STATUS_REG) -> %08x'',
           eTopic := TOPIC_HYGROMETER_STATUS, send_results := 2 # ss, recv_results := rs,
           trace := trace w
             @ [IicSend ?h [HYGROMETER_REG_CTRL_REG2, HYGROMETER_BFLD_ONE_SHOT] XIIC_STOP,
                IicSend ?h [HYGROMETER_REG_CTRL_REG2] XIIC_REPEATED_START,
                IicRecv ?h 1 XIIC_STOP]
             @ concat (replicate (length bs)
                 [IicSend ?h [HYGROMETER_REG_STATUS_REG OR 0x80] XIIC_REPEATED_START,
                  IicRecv ?h 5 XIIC_STOP, TaskDelay (MS_TO_TICKS 1)])\<rparr>)
        \<lparr>rc := XST_FAILURE, pcErr := ?E3\<rparr>)"
    unfolding wH_def using assms by (intro SampleHygrometer_data_timeout) simp_all
  have wH: "rc wH = XST_FAILURE" "pcErr wH = ?E3" "send_results wH = 2 # ss"
    by (simp_all add: H)
  define w1 where "w1 = emit (TaskDelayUntil (t + of_nat (MS_TO_TICKS SAMPLING_PERIOD_MS))) wH"
  have w1: "rc w1 = XST_FAILURE" "pcErr w1 = ?E3" "send_results w1 = 2 # ss"
    using wH by (simp_all add: w1_def emit_def)
  have "rc w1 \<noteq> XST_SUCCESS"
    by (simp add: w1 XST_FAILURE_def XST_SUCCESS_def)
  from SampleBarometer_stale [OF this w1(3)]
  have S: "SampleBarometer w1 =
     prvPublishTopic TOPIC_BAROMETER_STATUS
       ''WriteIicReg(BAROMETER_REG_CTRL_REG2::BAROMETER_BFLD_ONE_SHOT) -> %08x'' [ArgInt XST_FAILURE]
       ((prvPublishTopic TOPIC_BAROMETER_STATUS ?E3 [ArgInt XST_FAILURE]
           (w1\<lparr>eTopic := TOPIC_BAROMETER_STATUS, send_results := ss,
              trace := trace w1 @ [IicSend BAROMETER_SLAVE_ADDRESS
                 [BAROMETER_REG_CTRL_REG2, BAROMETER_BFLD_ONE_SHOT] XIIC_STOP]\<rparr>))
        \<lparr>pcErr := ''WriteIicReg(BAROMETER_REG_CTRL_REG2::BAROMETER_BFLD_ONE_SHOT) -> %08x''\<rparr>)"
    by (simp only: w1)
  have R: "sampling_round t wH =
     (case SamplePLTempSensor (SampleBarometer w1) of
        None \<Rightarrow> None
      | Some w3 \<Rightarrow> Some (t + of_nat (MS_TO_TICKS SAMPLING_PERIOD_MS), SampleHygrometer w3))"
    by (simp add: sampling_round_def vTaskDelayUntil_def Let_def w1_def)
  show ?thesis
    unfolding wH_def [symmetric] using wH(1) R
    by (simp only: Let_def S w1_def [symmetric] simp_thms)
qed

text \<open>
  A run of the theorem: the hygrometer clears its one-shot bit at the first poll and
  answers five zero bytes to each of the 50 polls of its status register. The state in
  which the thermocouple is sampled in the next round has the trace of both samples.
\<close>

theorem stale_result_code_aborts_next_barometer_sample_witness:
  "rc (SampleHygrometer (connected_system (2 # 1 # replicate 50 1 @ [2])
         ((1, [0]) # map (\<lambda>x. (5, x)) (replicate 50 [0, 0, 0, 0, 0]))
         [4, 3, 0, 0x01, 0, 0x90, 0, 0x19, 0, 0x00, 1])) = XST_FAILURE
   \<and> sampling_round 0 (SampleHygrometer (connected_system (2 # 1 # replicate 50 1 @ [2])
         ((1, [0]) # map (\<lambda>x. (5, x)) (replicate 50 [0, 0, 0, 0, 0]))
         [4, 3, 0, 0x01, 0, 0x90, 0, 0x19, 0, 0x00, 1])) =
     (case SamplePLTempSensor
         ((connected_system [] [] [4, 3, 0, 0x01, 0, 0x90, 0, 0x19, 0, 0x00, 1])
            \<lparr>rc := XST_FAILURE,
             pcErr := ''WriteIicReg(BAROMETER_REG_CTRL_REG2::BAROMETER_BFLD_ONE_SHOT) -> %08x'',
             eTopic := TOPIC_BAROMETER_STATUS,
             trace := [IicSend 0x5F [0x21, 0x01] XIIC_STOP,
                       IicSend 0x5F [0x21] XIIC_REPEATED_START, IicRecv 0x5F 1 XIIC_STOP]
                    @ concat (replicate 50
                        [IicSend 0x5F [0xA7] XIIC_REPEATED_START, IicRecv 0x5F 5 XIIC_STOP,
                         TaskDelay 1])
                    @ [MqttPublish ''/remote_io_module/sensor_status/HTS221_Error''
                         (length ''/remote_io_module/sensor_status/HTS221_Error'')
                         ''Timed out waiting for HYGROMETER P_DA and T_DA'' [ArgInt 1],
                       TaskDelayUntil 500,
                       IicSend 0x5D [0x21, 0x01] XIIC_STOP,
                       MqttPublish ''/remote_io_module/sensor_status/LPS25HB_Error''
                         (length ''/remote_io_module/sensor_status/LPS25HB_Error'')
                         ''Timed out waiting for HYGROMETER P_DA and T_DA'' [ArgInt 1],
                       MqttPublish ''/remote_io_module/sensor_status/LPS25HB_Error''
                         (length ''/remote_io_module/sensor_status/LPS25HB_Error'')
                         ''WriteIicReg(BAROMETER_REG_CTRL_REG2::BAROMETER_BFLD_ONE_SHOT) -> %08x''
                         [ArgInt 1]]\<rparr>) of
        None \<Rightarrow> None
      | Some w3 \<Rightarrow> Some (500, SampleHygrometer w3))"
proof -
  let ?W = "connected_system (2 # 1 # replicate 50 1 @ [2])
         ((1, [0]) # map (\<lambda>x. (5, x)) (replicate 50 [0, 0, 0, 0, 0]))
         [4, 3, 0, 0x01, 0, 0x90, 0, 0x19, 0, 0x00, 1]"
  have H: "SampleHygrometer ?W =
     prvPublishTopic TOPIC_HYGROMETER_STATUS ''Timed out waiting for HYGROMETER P_DA and T_DA''
       [ArgInt XST_FAILURE]
       ((?W\<lparr>pcErr := ''ReadIicRegs(6@HYGROMETER_REG_STATUS_REG) -> %08x'',
           eTopic := TOPIC_HYGROMETER_STATUS, send_results := [2], recv_results := [],
           trace := trace ?W
             @ [IicSend HYGROMETER_SLAVE_ADDRESS
                  [HYGROMETER_REG_CTRL_REG2, HYGROMETER_BFLD_ONE_SHOT] XIIC_STOP,
                IicSend HYGROMETER_SLAVE_ADDRESS [HYGROMETER_REG_CTRL_REG2] XIIC_REPEATED_START,
                IicRecv HYGROMETER_SLAVE_ADDRESS 1 XIIC_STOP]
             @ concat (replicate (length (replicate 50 [0 :: u8, 0, 0, 0, 0]))
                 [IicSend HYGROMETER_SLAVE_ADDRESS [HYGROMETER_REG_STATUS_REG OR 0x80]
                    XIIC_REPEATED_START,
                  IicRecv HYGROMETER_SLAVE_ADDRESS 5 XIIC_STOP, TaskDelay (MS_TO_TICKS 1)])\<rparr>)
        \<lparr>rc := XST_FAILURE, pcErr := ''Timed out waiting for HYGROMETER P_DA and T_DA''\<rparr>)"
    by (rule SampleHygrometer_data_timeout [where b = 0])
       (simp_all add: connected_system_def reg_defs)
  have T: "rc (SampleHygrometer ?W) = XST_FAILURE
   \<and> sampling_round 0 (SampleHygrometer ?W) =
     (let t' = 0 + of_nat (MS_TO_TICKS SAMPLING_PERIOD_MS);
          w1 = emit (TaskDelayUntil t') (SampleHygrometer ?W);
          w2 = prvPublishTopic TOPIC_BAROMETER_STATUS
                 ''WriteIicReg(BAROMETER_REG_CTRL_REG2::BAROMETER_BFLD_ONE_SHOT) -> %08x''
                 [ArgInt XST_FAILURE]
                 ((prvPublishTopic TOPIC_BAROMETER_STATUS
                     ''Timed out waiting for HYGROMETER P_DA and T_DA'' [ArgInt XST_FAILURE]
                     (w1\<lparr>eTopic := TOPIC_BAROMETER_STATUS, send_results := [],
                         trace := trace w1 @ [IicSend BAROMETER_SLAVE_ADDRESS
                            [BAROMETER_REG_CTRL_REG2, BAROMETER_BFLD_ONE_SHOT] XIIC_STOP]\<rparr>))
                  \<lparr>pcErr := ''WriteIicReg(BAROMETER_REG_CTRL_REG2::BAROMETER_BFLD_ONE_SHOT) -> %08x''\<rparr>)
      in case SamplePLTempSensor w2 of
           None \<Rightarrow> None
         | Some w3 \<Rightarrow> Some (t', SampleHygrometer w3))"
    by (rule stale_result_code_aborts_next_barometer_sample
          [where b = 0 and bs = "replicate 50 [0, 0, 0, 0, 0]" and rs = "[]"])
       (simp_all add: connected_system_def reg_defs)
  show ?thesis
    using T unfolding H
    by (simp add: connected_system_def publish_defs reg_defs tick_defs XST_SUCCESS_def
        XST_FAILURE_def SAMPLING_PERIOD_MS_def)
qed

end
